theory Spec2Isabelle
  imports Main "HOL-Library.AList"
begin

section \<open>The form as a component tree\<close>

text \<open>
  The two intake forms of \<^verbatim>\<open>src/components/UniversityIntakeForm.tsx\<close> and
  \<^verbatim>\<open>src/components/UniversityIntakeFormEn.tsx\<close> are embedded as trees of the
  components they are composed of.  A JavaScript string is a \<^typ>\<open>string\<close> holding
  the UTF-8 bytes of the source literal, so a literal with Arabic text is written as the
  list of its bytes; equality and concatenation of source strings are equality and
  concatenation of these lists.  Styling (\<^verbatim>\<open>className\<close>), placeholders, the
  \<^verbatim>\<open>rows\<close> of a textarea and layout-only wrappers are left out; every
  \<^verbatim>\<open>FormSection\<close>, \<^verbatim>\<open>Field\<close>, caption and form control is kept, in document order.
\<close>

datatype input_type = Text | Number | Date | Tel | Email | Checkbox | Radio

datatype direction = Rtl | Ltr

text \<open>
  \<open>Input name type value min max\<close> is an \<^verbatim>\<open>input\<close> element with its
  \<^verbatim>\<open>name\<close>, \<^verbatim>\<open>type\<close>, \<^verbatim>\<open>value\<close>, \<^verbatim>\<open>min\<close> and \<^verbatim>\<open>max\<close> attributes;
  \<open>Caption t ns\<close> is a \<^verbatim>\<open>label\<close>, \<^verbatim>\<open>div\<close> or \<^verbatim>\<open>p\<close> showing the text \<open>t\<close>
  above or beside the nodes \<open>ns\<close>; \<open>Button t\<close> is the \<^verbatim>\<open>type="button"\<close> button whose
  click handler is \<^verbatim>\<open>handlePrintAsPdf\<close>.
\<close>

datatype node =
    FormSection string "string option" "node list"
  | Field string "string option" bool "node list"
  | Caption string "node list"
  | Div "node list"
  | Input string input_type "string option" "nat option" "nat option"
  | Textarea string
  | Button string

record form =
  dir :: direction
  children :: "node list"

subsection \<open>The Arabic variant\<close>

definition YesNoGroup :: "string \<Rightarrow> node" where
  "YesNoGroup name = Div
     [Caption [CHR 0xD9, CHR 0x86, CHR 0xD8, CHR 0xB9, CHR 0xD9,
       CHR 0x85] [Input name Radio (Some ''yes'') None None],
      Caption [CHR 0xD9, CHR 0x84, CHR 0xD8,
        CHR 0xA7] [Input name Radio (Some ''no'') None None]]"

definition projectGoals_options :: "string list" where
  "projectGoals_options =
     [[CHR 0xD8, CHR 0xAA, CHR 0xD9, CHR 0x82, CHR 0xD9, CHR 0x84, CHR 0xD9, CHR 0x8A, CHR 0xD9,
       CHR 0x84, CHR 0x20, CHR 0xD8, CHR 0xB6, CHR 0xD8, CHR 0xBA, CHR 0xD8, CHR 0xB7, CHR 0x20,
       CHR 0xD8, CHR 0xA7, CHR 0xD9, CHR 0x84, CHR 0xD9, CHR 0x85, CHR 0xD9, CHR 0x88, CHR 0xD8,
       CHR 0xB8, CHR 0xD9, CHR 0x81, CHR 0xD9, CHR 0x8A, CHR 0xD9, CHR 0x86],
      [CHR 0xD8, CHR 0xB1, CHR 0xD9, CHR 0x81, CHR 0xD8, CHR 0xB9, CHR 0x20, CHR 0xD8, CHR 0xAC,
        CHR 0xD9, CHR 0x88, CHR 0xD8, CHR 0xAF, CHR 0xD8, CHR 0xA9, CHR 0x20, CHR 0xD8,
        CHR 0xA7, CHR 0xD9, CHR 0x84, CHR 0xD8, CHR 0xAE, CHR 0xD8, CHR 0xAF, CHR 0xD9,
        CHR 0x85, CHR 0xD8, CHR 0xA9],
      [CHR 0xD8, CHR 0xAA, CHR 0xD9, CHR 0x88, CHR 0xD9, CHR 0x81, CHR 0xD8, CHR 0xB1, CHR 0x20,
        CHR 0x32, CHR 0x34, CHR 0x2F, CHR 0x37],
      [CHR 0xD8, CHR 0xAA, CHR 0xD9, CHR 0x82, CHR 0xD9, CHR 0x84, CHR 0xD9, CHR 0x8A, CHR 0xD9,
        CHR 0x84, CHR 0x20, CHR 0xD9, CHR 0x88, CHR 0xD9, CHR 0x82, CHR 0xD8, CHR 0xAA,
        CHR 0x20, CHR 0xD8, CHR 0xA7, CHR 0xD9, CHR 0x84, CHR 0xD8, CHR 0xA7, CHR 0xD9,
        CHR 0x86, CHR 0xD8, CHR 0xAA, CHR 0xD8, CHR 0xB8, CHR 0xD8, CHR 0xA7, CHR 0xD8,
        CHR 0xB1],
      [CHR 0xD8, CHR 0xAA, CHR 0xD9, CHR 0x88, CHR 0xD8, CHR 0xAD, CHR 0xD9, CHR 0x8A, CHR 0xD8,
        CHR 0xAF, CHR 0x20, CHR 0xD8, CHR 0xA7, CHR 0xD9, CHR 0x84, CHR 0xD8, CHR 0xB1,
        CHR 0xD8, CHR 0xAF, CHR 0xD9, CHR 0x88, CHR 0xD8, CHR 0xAF]]"

definition department_options :: "string list" where
  "department_options =
     [[CHR 0xD8, CHR 0xA7, CHR 0xD9, CHR 0x84, CHR 0xD9, CHR 0x82, CHR 0xD8, CHR 0xA8, CHR 0xD9,
       CHR 0x88, CHR 0xD9, CHR 0x84],
      [CHR 0xD8, CHR 0xA7, CHR 0xD9, CHR 0x84, CHR 0xD9, CHR 0x85, CHR 0xD8, CHR 0xA7, CHR 0xD9,
        CHR 0x84, CHR 0xD9, CHR 0x8A, CHR 0xD8, CHR 0xA9],
      [CHR 0xD8, CHR 0xB4, CHR 0xD8, CHR 0xA4, CHR 0xD9, CHR 0x88, CHR 0xD9, CHR 0x86, CHR 0x20,
        CHR 0xD8, CHR 0xA7, CHR 0xD9, CHR 0x84, CHR 0xD8, CHR 0xB7, CHR 0xD9, CHR 0x84,
        CHR 0xD8, CHR 0xA8, CHR 0xD8, CHR 0xA9],
      [CHR 0xD8, CHR 0xA7, CHR 0xD9, CHR 0x84, CHR 0xD8, CHR 0xAF, CHR 0xD8, CHR 0xB1, CHR 0xD8,
        CHR 0xA7, CHR 0xD8, CHR 0xB3, CHR 0xD8, CHR 0xA7, CHR 0xD8, CHR 0xAA, CHR 0x20,
        CHR 0xD8, CHR 0xA7, CHR 0xD9, CHR 0x84, CHR 0xD8, CHR 0xB9, CHR 0xD9, CHR 0x84,
        CHR 0xD9, CHR 0x8A, CHR 0xD8, CHR 0xA7],
      [CHR 0xD8, CHR 0xA7, CHR 0xD9, CHR 0x84, CHR 0xD8, CHR 0xB9, CHR 0xD9, CHR 0x84, CHR 0xD8,
        CHR 0xA7, CHR 0xD9, CHR 0x82, CHR 0xD8, CHR 0xA7, CHR 0xD8, CHR 0xAA, CHR 0x20,
        CHR 0xD8, CHR 0xA7, CHR 0xD9, CHR 0x84, CHR 0xD8, CHR 0xB9, CHR 0xD8, CHR 0xA7,
        CHR 0xD9, CHR 0x85, CHR 0xD8, CHR 0xA9],
      [CHR 0xD8, CHR 0xAE, CHR 0xD8, CHR 0xAF, CHR 0xD9, CHR 0x85, CHR 0xD8, CHR 0xA9, CHR 0x20,
        CHR 0xD8, CHR 0xA7, CHR 0xD9, CHR 0x84, CHR 0xD9, CHR 0x85, CHR 0xD8, CHR 0xAC,
        CHR 0xD8, CHR 0xAA, CHR 0xD9, CHR 0x85, CHR 0xD8, CHR 0xB9],
      [CHR 0xD8, CHR 0xB4, CHR 0xD8, CHR 0xA4, CHR 0xD9, CHR 0x88, CHR 0xD9, CHR 0x86, CHR 0x20,
        CHR 0xD8, CHR 0xA7, CHR 0xD9, CHR 0x84, CHR 0xD9, CHR 0x85, CHR 0xD9, CHR 0x88,
        CHR 0xD8, CHR 0xB8, CHR 0xD9, CHR 0x81, CHR 0xD9, CHR 0x8A, CHR 0xD9, CHR 0x86],
      ''IT'',
      [CHR 0xD8, CHR 0xA7, CHR 0xD9, CHR 0x84, CHR 0xD9, CHR 0x85, CHR 0xD9, CHR 0x83, CHR 0xD8,
        CHR 0xAA, CHR 0xD8, CHR 0xA8, CHR 0xD8, CHR 0xA9],
      [CHR 0xD8, CHR 0xA7, CHR 0xD9, CHR 0x84, CHR 0xD8, CHR 0xA7, CHR 0xD9, CHR 0x85, CHR 0xD8,
        CHR 0xAA, CHR 0xD8, CHR 0xAD, CHR 0xD8, CHR 0xA7, CHR 0xD9, CHR 0x86, CHR 0xD8,
        CHR 0xA7, CHR 0xD8, CHR 0xAA],
      [CHR 0xD8, CHR 0xA7, CHR 0xD9, CHR 0x84, CHR 0xD9, CHR 0x85, CHR 0xD8, CHR 0xB1, CHR 0xD8,
        CHR 0xA7, CHR 0xD9, CHR 0x81, CHR 0xD9, CHR 0x82],
      [CHR 0xD8, CHR 0xA7, CHR 0xD9, CHR 0x84, CHR 0xD8, CHR 0xA3, CHR 0xD9, CHR 0x85, CHR 0xD9,
        CHR 0x86, CHR 0x20, CHR 0xD9, CHR 0x88, CHR 0xD8, CHR 0xA7, CHR 0xD9, CHR 0x84,
        CHR 0xD8, CHR 0xB3, CHR 0xD9, CHR 0x84, CHR 0xD8, CHR 0xA7, CHR 0xD9, CHR 0x85,
        CHR 0xD8, CHR 0xA9],
      [CHR 0xD8, CHR 0xA7, CHR 0xD9, CHR 0x84, CHR 0xD8, CHR 0xB9, CHR 0xD9, CHR 0x8A, CHR 0xD8,
        CHR 0xA7, CHR 0xD8, CHR 0xAF, CHR 0xD8, CHR 0xA9, CHR 0x20, CHR 0xD8, CHR 0xA7,
        CHR 0xD9, CHR 0x84, CHR 0xD8, CHR 0xB7, CHR 0xD8, CHR 0xA8, CHR 0xD9, CHR 0x8A,
        CHR 0xD8, CHR 0xA9],
      [CHR 0xD9, CHR 0x85, CHR 0xD8, CHR 0xB1, CHR 0xD9, CHR 0x83, CHR 0xD8, CHR 0xB2, CHR 0x20,
        CHR 0xD8, CHR 0xA7, CHR 0xD9, CHR 0x84, CHR 0xD8, CHR 0xA7, CHR 0xD8, CHR 0xB3,
        CHR 0xD8, CHR 0xAA, CHR 0xD8, CHR 0xB4, CHR 0xD8, CHR 0xA7, CHR 0xD8, CHR 0xB1,
        CHR 0xD8, CHR 0xA7, CHR 0xD8, CHR 0xAA],
      [CHR 0xD9, CHR 0x85, CHR 0xD8, CHR 0xB1, CHR 0xD9, CHR 0x83, CHR 0xD8, CHR 0xB2, CHR 0x20,
        CHR 0xD8, CHR 0xA7, CHR 0xD9, CHR 0x84, CHR 0xD9, CHR 0x84, CHR 0xD8, CHR 0xBA,
        CHR 0xD8, CHR 0xA7, CHR 0xD8, CHR 0xAA],
      [CHR 0xD9, CHR 0x85, CHR 0xD8, CHR 0xB1, CHR 0xD9, CHR 0x83, CHR 0xD8, CHR 0xB2, CHR 0x20,
        CHR 0xD8, CHR 0xA7, CHR 0xD9, CHR 0x84, CHR 0xD8, CHR 0xAA, CHR 0xD8, CHR 0xAF,
        CHR 0xD8, CHR 0xB1, CHR 0xD9, CHR 0x8A, CHR 0xD8, CHR 0xA8],
      [CHR 0xD9, CHR 0x85, CHR 0xD8, CHR 0xB1, CHR 0xD9, CHR 0x83, CHR 0xD8, CHR 0xB2, CHR 0x20,
        CHR 0xD8, CHR 0xA7, CHR 0xD9, CHR 0x84, CHR 0xD8, CHR 0xAA, CHR 0xD9, CHR 0x88,
        CHR 0xD8, CHR 0xB8, CHR 0xD9, CHR 0x8A, CHR 0xD9, CHR 0x81],
      [CHR 0xD9, CHR 0x85, CHR 0xD8, CHR 0xB1, CHR 0xD9, CHR 0x83, CHR 0xD8, CHR 0xB2, CHR 0x20,
        CHR 0xD8, CHR 0xA7, CHR 0xD9, CHR 0x84, CHR 0xD8, CHR 0xA7, CHR 0xD8, CHR 0xA8,
        CHR 0xD8, CHR 0xAA, CHR 0xD9, CHR 0x83, CHR 0xD8, CHR 0xA7, CHR 0xD8, CHR 0xB1],
      [CHR 0xD9, CHR 0x85, CHR 0xD8, CHR 0xB1, CHR 0xD9, CHR 0x83, CHR 0xD8, CHR 0xB2, CHR 0x20,
        CHR 0xD8, CHR 0xA7, CHR 0xD9, CHR 0x84, CHR 0xD8, CHR 0xAC, CHR 0xD9, CHR 0x88,
        CHR 0xD8, CHR 0xAF, CHR 0xD8, CHR 0xA9],
      [CHR 0xD9, CHR 0x85, CHR 0xD8, CHR 0xB1, CHR 0xD9, CHR 0x83, CHR 0xD8, CHR 0xB2, CHR 0x20,
        CHR 0xD8, CHR 0xA7, CHR 0xD9, CHR 0x84, CHR 0xD8, CHR 0xA8, CHR 0xD8, CHR 0xAD,
        CHR 0xD8, CHR 0xAB, CHR 0x20, CHR 0xD8, CHR 0xA7, CHR 0xD9, CHR 0x84, CHR 0xD8,
        CHR 0xB9, CHR 0xD9, CHR 0x84, CHR 0xD9, CHR 0x85, CHR 0xD9, CHR 0x8A]]"

definition language_options :: "string list" where
  "language_options =
     [[CHR 0xD8, CHR 0xA7, CHR 0xD9, CHR 0x84, CHR 0xD8, CHR 0xB9, CHR 0xD8, CHR 0xB1, CHR 0xD8,
       CHR 0xA8, CHR 0xD9, CHR 0x8A, CHR 0xD8, CHR 0xA9],
      [CHR 0xD8, CHR 0xA7, CHR 0xD9, CHR 0x84, CHR 0xD8, CHR 0xA5, CHR 0xD9, CHR 0x86, CHR 0xD8,
        CHR 0xAC, CHR 0xD9, CHR 0x84, CHR 0xD9, CHR 0x8A, CHR 0xD8, CHR 0xB2, CHR 0xD9,
        CHR 0x8A, CHR 0xD8, CHR 0xA9],
      [CHR 0xD8, CHR 0xA7, CHR 0xD9, CHR 0x84, CHR 0xD9, CHR 0x81, CHR 0xD8, CHR 0xB1, CHR 0xD9,
        CHR 0x86, CHR 0xD8, CHR 0xB3, CHR 0xD9, CHR 0x8A, CHR 0xD8, CHR 0xA9],
      [CHR 0xD8, CHR 0xA7, CHR 0xD9, CHR 0x84, CHR 0xD8, CHR 0xAA, CHR 0xD8, CHR 0xB1, CHR 0xD9,
        CHR 0x83, CHR 0xD9, CHR 0x8A, CHR 0xD8, CHR 0xA9],
      [CHR 0xD8, CHR 0xA7, CHR 0xD9, CHR 0x84, CHR 0xD9, CHR 0x87, CHR 0xD9, CHR 0x86, CHR 0xD8,
        CHR 0xAF, CHR 0xD9, CHR 0x8A, CHR 0xD8, CHR 0xA9],
      [CHR 0xD8, CHR 0xA7, CHR 0xD9, CHR 0x84, CHR 0xD8, CHR 0xA3, CHR 0xD8, CHR 0xB1, CHR 0xD8,
        CHR 0xAF, CHR 0xD9, CHR 0x8A, CHR 0xD8, CHR 0xA9]]"

definition channel_options :: "string list" where
  "channel_options =
     [[CHR 0xD8, CHR 0xB5, CHR 0xD9, CHR 0x88, CHR 0xD8, CHR 0xAA, CHR 0x20, CHR 0xD9, CHR 0x81,
       CHR 0xD9, CHR 0x82, CHR 0xD8, CHR 0xB7, CHR 0x20, CHR 0x28, CHR 0x49, CHR 0x56, CHR 0x52,
       CHR 0x20, CHR 0xD8, CHR 0xB0, CHR 0xD9, CHR 0x83, CHR 0xD9, CHR 0x8A, CHR 0x29],
      [CHR 0xD8, CHR 0xB5, CHR 0xD9, CHR 0x88, CHR 0xD8, CHR 0xAA, CHR 0x20, CHR 0x2B, CHR 0x20,
        CHR 0x53, CHR 0x4D, CHR 0x53],
      [CHR 0xD8, CHR 0xB5, CHR 0xD9, CHR 0x88, CHR 0xD8, CHR 0xAA, CHR 0x20, CHR 0x2B, CHR 0x20,
        CHR 0x57, CHR 0x68, CHR 0x61, CHR 0x74, CHR 0x73, CHR 0x41, CHR 0x70, CHR 0x70],
      [CHR 0xD8, CHR 0xB5, CHR 0xD9, CHR 0x88, CHR 0xD8, CHR 0xAA, CHR 0x20, CHR 0x2B, CHR 0x20,
        CHR 0x45, CHR 0x6D, CHR 0x61, CHR 0x69, CHR 0x6C],
      [CHR 0xD8, CHR 0xB5, CHR 0xD9, CHR 0x88, CHR 0xD8, CHR 0xAA, CHR 0x20, CHR 0x2B, CHR 0x20,
        CHR 0xD8, CHR 0xA8, CHR 0xD9, CHR 0x88, CHR 0xD8, CHR 0xA7, CHR 0xD8, CHR 0xA8,
        CHR 0xD8, CHR 0xA9, CHR 0x20, CHR 0xD8, CHR 0xA5, CHR 0xD9, CHR 0x84, CHR 0xD9,
        CHR 0x83, CHR 0xD8, CHR 0xAA, CHR 0xD8, CHR 0xB1, CHR 0xD9, CHR 0x88, CHR 0xD9,
        CHR 0x86, CHR 0xD9, CHR 0x8A, CHR 0xD8, CHR 0xA9, CHR 0x20, CHR 0x2F, CHR 0x20,
        CHR 0x43, CHR 0x68, CHR 0x61, CHR 0x74, CHR 0x20, CHR 0x57, CHR 0x69, CHR 0x64,
        CHR 0x67, CHR 0x65, CHR 0x74]]"

definition scenario_options :: "string list" where
  "scenario_options =
     [[CHR 0xD8, CHR 0xB1, CHR 0xD8, CHR 0xB3, CHR 0xD9, CHR 0x88, CHR 0xD9, CHR 0x85, CHR 0x20,
       CHR 0x2F, CHR 0x20, CHR 0xD8, CHR 0xB3, CHR 0xD8, CHR 0xAF, CHR 0xD8, CHR 0xA7, CHR 0xD8,
       CHR 0xAF, CHR 0x20, CHR 0x2F, CHR 0x20, CHR 0xD9, CHR 0x85, CHR 0xD8, CHR 0xAA, CHR 0xD8,
       CHR 0xA3, CHR 0xD8, CHR 0xAE, CHR 0xD8, CHR 0xB1, CHR 0xD8, CHR 0xA7, CHR 0xD8,
       CHR 0xAA],
      [CHR 0xD8, CHR 0xAA, CHR 0xD8, CHR 0xB3, CHR 0xD8, CHR 0xAC, CHR 0xD9, CHR 0x8A, CHR 0xD9,
        CHR 0x84, CHR 0x20, CHR 0xD9, CHR 0x85, CHR 0xD9, CHR 0x88, CHR 0xD8, CHR 0xA7,
        CHR 0xD8, CHR 0xAF, CHR 0x20, CHR 0x2F, CHR 0x20, CHR 0xD8, CHR 0xAD, CHR 0xD8,
        CHR 0xB0, CHR 0xD9, CHR 0x81, CHR 0x20, CHR 0xD9, CHR 0x88, CHR 0xD8, CHR 0xA5,
        CHR 0xD8, CHR 0xB6, CHR 0xD8, CHR 0xA7, CHR 0xD9, CHR 0x81, CHR 0xD8, CHR 0xA9],
      [CHR 0xD9, CHR 0x82, CHR 0xD8, CHR 0xA8, CHR 0xD9, CHR 0x88, CHR 0xD9, CHR 0x84, CHR 0x20,
        CHR 0x2F, CHR 0x20, CHR 0xD8, CHR 0xAD, CHR 0xD8, CHR 0xA7, CHR 0xD9, CHR 0x84,
        CHR 0xD8, CHR 0xA9, CHR 0x20, CHR 0xD8, CHR 0xB7, CHR 0xD9, CHR 0x84, CHR 0xD8,
        CHR 0xA8],
      [CHR 0xD9, CHR 0x85, CHR 0xD8, CHR 0xAA, CHR 0xD8, CHR 0xA7, CHR 0xD8, CHR 0xA8, CHR 0xD8,
        CHR 0xB9, CHR 0xD8, CHR 0xA9, CHR 0x20, CHR 0xD9, CHR 0x85, CHR 0xD8, CHR 0xB9,
        CHR 0xD8, CHR 0xA7, CHR 0xD9, CHR 0x85, CHR 0xD9, CHR 0x84, CHR 0xD8, CHR 0xA9,
        CHR 0x20, CHR 0x2F, CHR 0x20, CHR 0xD8, CHR 0xB1, CHR 0xD9, CHR 0x82, CHR 0xD9,
        CHR 0x85, CHR 0x20, CHR 0xD8, CHR 0xB7, CHR 0xD9, CHR 0x84, CHR 0xD8, CHR 0xA8],
      [CHR 0xD8, CHR 0xB7, CHR 0xD9, CHR 0x84, CHR 0xD8, CHR 0xA8, CHR 0x20, CHR 0xD8, CHR 0xB4,
        CHR 0xD9, CHR 0x87, CHR 0xD8, CHR 0xA7, CHR 0xD8, CHR 0xAF, CHR 0xD8, CHR 0xA9,
        CHR 0x20, CHR 0x2F, CHR 0x20, CHR 0xD8, CHR 0xA5, CHR 0xD9, CHR 0x81, CHR 0xD8,
        CHR 0xA7, CHR 0xD8, CHR 0xAF, CHR 0xD8, CHR 0xA9],
      [CHR 0xD9, CHR 0x85, CHR 0xD9, CHR 0x88, CHR 0xD8, CHR 0xA7, CHR 0xD8, CHR 0xB9, CHR 0xD9,
        CHR 0x8A, CHR 0xD8, CHR 0xAF, CHR 0x20, CHR 0x28, CHR 0xD8, CHR 0xB9, CHR 0xD9,
        CHR 0x8A, CHR 0xD8, CHR 0xA7, CHR 0xD8, CHR 0xAF, CHR 0xD8, CHR 0xA9, CHR 0x2F,
        CHR 0xD8, CHR 0xA7, CHR 0xD8, CHR 0xB3, CHR 0xD8, CHR 0xAA, CHR 0xD8, CHR 0xB4,
        CHR 0xD8, CHR 0xA7, CHR 0xD8, CHR 0xB1, CHR 0xD8, CHR 0xA7, CHR 0xD8, CHR 0xAA,
        CHR 0x2F, CHR 0xD9, CHR 0x85, CHR 0xD9, CHR 0x82, CHR 0xD8, CHR 0xA7, CHR 0xD8,
        CHR 0xA8, CHR 0xD9, CHR 0x84, CHR 0xD8, CHR 0xA7, CHR 0xD8, CHR 0xAA, CHR 0x29],
      [CHR 0xD8, CHR 0xA7, CHR 0xD9, CHR 0x85, CHR 0xD8, CHR 0xAA, CHR 0xD8, CHR 0xAD, CHR 0xD8,
        CHR 0xA7, CHR 0xD9, CHR 0x86, CHR 0xD8, CHR 0xA7, CHR 0xD8, CHR 0xAA, CHR 0x20,
        CHR 0x2F, CHR 0x20, CHR 0xD8, CHR 0xAC, CHR 0xD8, CHR 0xAF, CHR 0xD8, CHR 0xA7,
        CHR 0xD9, CHR 0x88, CHR 0xD9, CHR 0x84, CHR 0x20, CHR 0x2F, CHR 0x20, CHR 0xD9,
        CHR 0x82, CHR 0xD8, CHR 0xA7, CHR 0xD8, CHR 0xB9, CHR 0xD8, CHR 0xA7, CHR 0xD8,
        CHR 0xAA],
      [CHR 0xD8, CHR 0xB4, CHR 0xD9, CHR 0x83, CHR 0xD8, CHR 0xA7, CHR 0xD9, CHR 0x88, CHR 0xD9,
        CHR 0x89, CHR 0x20, CHR 0x2F, CHR 0x20, CHR 0xD8, CHR 0xAA, CHR 0xD8, CHR 0xB5,
        CHR 0xD8, CHR 0xB9, CHR 0xD9, CHR 0x8A, CHR 0xD8, CHR 0xAF],
      [CHR 0xD8, CHR 0xAF, CHR 0xD8, CHR 0xB9, CHR 0xD9, CHR 0x85, CHR 0x20, CHR 0xD9, CHR 0x81,
        CHR 0xD9, CHR 0x86, CHR 0xD9, CHR 0x8A, CHR 0x20, CHR 0x28, CHR 0x4C, CHR 0x31,
        CHR 0x29]]"

definition kb_options :: "string list" where
  "kb_options =
     [[CHR 0xD8, CHR 0xA7, CHR 0xD9, CHR 0x84, CHR 0xD8, CHR 0xA3, CHR 0xD8, CHR 0xB3, CHR 0xD8,
       CHR 0xA6, CHR 0xD9, CHR 0x84, CHR 0xD8, CHR 0xA9, CHR 0x20, CHR 0xD8, CHR 0xA7, CHR 0xD9,
       CHR 0x84, CHR 0xD8, CHR 0xB4, CHR 0xD8, CHR 0xA7, CHR 0xD8, CHR 0xA6, CHR 0xD8, CHR 0xB9,
       CHR 0xD8, CHR 0xA9, CHR 0x20, CHR 0x46, CHR 0x41, CHR 0x51],
      [CHR 0xD8, CHR 0xAF, CHR 0xD9, CHR 0x84, CHR 0xD9, CHR 0x8A, CHR 0xD9, CHR 0x84, CHR 0x20,
        CHR 0xD8, CHR 0xA7, CHR 0xD9, CHR 0x84, CHR 0xD8, CHR 0xB7, CHR 0xD8, CHR 0xA7,
        CHR 0xD9, CHR 0x84, CHR 0xD8, CHR 0xA8],
      [CHR 0xD8, CHR 0xA7, CHR 0xD9, CHR 0x84, CHR 0xD8, CHR 0xAA, CHR 0xD9, CHR 0x82, CHR 0xD9,
        CHR 0x88, CHR 0xD9, CHR 0x8A, CHR 0xD9, CHR 0x85, CHR 0x20, CHR 0xD8, CHR 0xA7,
        CHR 0xD9, CHR 0x84, CHR 0xD8, CHR 0xA3, CHR 0xD9, CHR 0x83, CHR 0xD8, CHR 0xA7,
        CHR 0xD8, CHR 0xAF, CHR 0xD9, CHR 0x8A, CHR 0xD9, CHR 0x85, CHR 0xD9, CHR 0x8A],
      [CHR 0xD8, CHR 0xB4, CHR 0xD8, CHR 0xB1, CHR 0xD9, CHR 0x88, CHR 0xD8, CHR 0xB7, CHR 0x20,
        CHR 0xD8, CHR 0xA7, CHR 0xD9, CHR 0x84, CHR 0xD9, CHR 0x82, CHR 0xD8, CHR 0xA8,
        CHR 0xD9, CHR 0x88, CHR 0xD9, CHR 0x84],
      [CHR 0xD8, CHR 0xA7, CHR 0xD9, CHR 0x84, CHR 0xD8, CHR 0xB1, CHR 0xD8, CHR 0xB3, CHR 0xD9,
        CHR 0x88, CHR 0xD9, CHR 0x85, CHR 0x20, CHR 0xD8, CHR 0xA7, CHR 0xD9, CHR 0x84,
        CHR 0xD8, CHR 0xAF, CHR 0xD8, CHR 0xB1, CHR 0xD8, CHR 0xA7, CHR 0xD8, CHR 0xB3,
        CHR 0xD9, CHR 0x8A, CHR 0xD8, CHR 0xA9],
      [CHR 0xD8, CHR 0xA7, CHR 0xD9, CHR 0x84, CHR 0xD8, CHR 0xA8, CHR 0xD8, CHR 0xB1, CHR 0xD8,
        CHR 0xA7, CHR 0xD9, CHR 0x85, CHR 0xD8, CHR 0xAC, CHR 0x20, CHR 0xD8, CHR 0xA7,
        CHR 0xD9, CHR 0x84, CHR 0xD8, CHR 0xA3, CHR 0xD9, CHR 0x83, CHR 0xD8, CHR 0xA7,
        CHR 0xD8, CHR 0xAF, CHR 0xD9, CHR 0x8A, CHR 0xD9, CHR 0x85, CHR 0xD9, CHR 0x8A,
        CHR 0xD8, CHR 0xA9],
      [CHR 0xD8, CHR 0xA7, CHR 0xD9, CHR 0x84, CHR 0xD8, CHR 0xB3, CHR 0xD9, CHR 0x8A, CHR 0xD8,
        CHR 0xA7, CHR 0xD8, CHR 0xB3, CHR 0xD8, CHR 0xA7, CHR 0xD8, CHR 0xAA, CHR 0x20,
        CHR 0xD9, CHR 0x88, CHR 0xD8, CHR 0xA7, CHR 0xD9, CHR 0x84, CHR 0xD9, CHR 0x84,
        CHR 0xD9, CHR 0x88, CHR 0xD8, CHR 0xA7, CHR 0xD8, CHR 0xA6, CHR 0xD8, CHR 0xAD],
      [CHR 0xD8, CHR 0xAF, CHR 0xD9, CHR 0x84, CHR 0xD9, CHR 0x8A, CHR 0xD9, CHR 0x84, CHR 0x20,
        CHR 0xD8, CHR 0xA7, CHR 0xD9, CHR 0x84, CHR 0xD9, CHR 0x85, CHR 0xD9, CHR 0x88,
        CHR 0xD8, CHR 0xB8, CHR 0xD9, CHR 0x81, CHR 0xD9, CHR 0x8A, CHR 0xD9, CHR 0x86],
      [CHR 0xD8, CHR 0xB1, CHR 0xD9, CHR 0x88, CHR 0xD8, CHR 0xA7, CHR 0xD8, CHR 0xA8, CHR 0xD8,
        CHR 0xB7, CHR 0x20, CHR 0xD8, CHR 0xA7, CHR 0xD9, CHR 0x84, CHR 0xD8, CHR 0xA3,
        CHR 0xD9, CHR 0x86, CHR 0xD8, CHR 0xB8, CHR 0xD9, CHR 0x85, CHR 0xD8, CHR 0xA9]]"

definition section1 :: node where
  "section1 = FormSection [CHR 0x31, CHR 0x29, CHR 0x20, CHR 0xD9, CHR 0x85, CHR 0xD8, CHR 0xB9,
    CHR 0xD9, CHR 0x84, CHR 0xD9, CHR 0x88, CHR 0xD9, CHR 0x85, CHR 0xD8, CHR 0xA7, CHR 0xD8,
    CHR 0xAA, CHR 0x20, CHR 0xD8, CHR 0xB9, CHR 0xD8, CHR 0xA7, CHR 0xD9, CHR 0x85, CHR 0xD8,
    CHR 0xA9] None
     [Field [CHR 0xD8, CHR 0xA7, CHR 0xD8, CHR 0xB3, CHR 0xD9, CHR 0x85, CHR 0x20, CHR 0xD8,
       CHR 0xA7, CHR 0xD9, CHR 0x84, CHR 0xD8, CHR 0xAC, CHR 0xD8, CHR 0xA7, CHR 0xD9, CHR 0x85,
       CHR 0xD8, CHR 0xB9, CHR 0xD8,
       CHR 0xA9] None True [Input ''universityName'' Text None None None],
      Field [CHR 0xD8, CHR 0xA7, CHR 0xD9, CHR 0x84, CHR 0xD9, CHR 0x85, CHR 0xD8, CHR 0xAF,
        CHR 0xD9, CHR 0x8A, CHR 0xD9, CHR 0x86, CHR 0xD8, CHR 0xA9, CHR 0x20, CHR 0x2F,
        CHR 0x20, CHR 0xD8, CHR 0xA7, CHR 0xD9, CHR 0x84, CHR 0xD8, CHR 0xAF, CHR 0xD9,
        CHR 0x88, CHR 0xD9, CHR 0x84, CHR 0xD8,
        CHR 0xA9] None True [Input ''cityCountry'' Text None None None],
      Field [CHR 0xD8, CHR 0xA7, CHR 0xD8, CHR 0xB3, CHR 0xD9, CHR 0x85, CHR 0x20, CHR 0xD8,
        CHR 0xA7, CHR 0xD9, CHR 0x84, CHR 0xD8, CHR 0xB4, CHR 0xD8, CHR 0xAE, CHR 0xD8,
        CHR 0xB5, CHR 0x20, CHR 0xD8, CHR 0xA7, CHR 0xD9, CHR 0x84, CHR 0xD9, CHR 0x85,
        CHR 0xD8, CHR 0xB3, CHR 0xD8, CHR 0xA4, CHR 0xD9, CHR 0x88, CHR 0xD9,
        CHR 0x84] None True [Input ''contactName'' Text None None None],
      Field [CHR 0xD8, CHR 0xA7, CHR 0xD9, CHR 0x84, CHR 0xD9, CHR 0x85, CHR 0xD8, CHR 0xB3,
        CHR 0xD9, CHR 0x85, CHR 0xD9, CHR 0x89, CHR 0x20, CHR 0xD8, CHR 0xA7, CHR 0xD9,
        CHR 0x84, CHR 0xD9, CHR 0x88, CHR 0xD8, CHR 0xB8, CHR 0xD9, CHR 0x8A, CHR 0xD9,
        CHR 0x81, CHR 0xD9, CHR 0x8A] None True [Input ''jobTitle'' Text None None None],
      Field [CHR 0xD8, CHR 0xB1, CHR 0xD9, CHR 0x82, CHR 0xD9, CHR 0x85, CHR 0x20, CHR 0xD8,
        CHR 0xA7, CHR 0xD9, CHR 0x84, CHR 0xD8, CHR 0xAA, CHR 0xD9, CHR 0x88, CHR 0xD8,
        CHR 0xA7, CHR 0xD8, CHR 0xB5, CHR 0xD9,
        CHR 0x84] None True [Input ''phone'' Tel None None None],
      Field [CHR 0xD8, CHR 0xA7, CHR 0xD9, CHR 0x84, CHR 0xD8, CHR 0xA8, CHR 0xD8, CHR 0xB1,
        CHR 0xD9, CHR 0x8A, CHR 0xD8, CHR 0xAF, CHR 0x20, CHR 0xD8, CHR 0xA7, CHR 0xD9,
        CHR 0x84, CHR 0xD8, CHR 0xA5, CHR 0xD9, CHR 0x84, CHR 0xD9, CHR 0x83, CHR 0xD8,
        CHR 0xAA, CHR 0xD8, CHR 0xB1, CHR 0xD9, CHR 0x88, CHR 0xD9, CHR 0x86, CHR 0xD9,
        CHR 0x8A] None True [Input ''email'' Email None None None],
      Field [CHR 0xD8, CHR 0xA3, CHR 0xD9, CHR 0x81, CHR 0xD8, CHR 0xB6, CHR 0xD9, CHR 0x84,
        CHR 0x20, CHR 0xD9, CHR 0x88, CHR 0xD9, CHR 0x82, CHR 0xD8, CHR 0xAA, CHR 0x20,
        CHR 0xD9, CHR 0x84, CHR 0xD9, CHR 0x84, CHR 0xD8, CHR 0xAA, CHR 0xD9, CHR 0x88,
        CHR 0xD8, CHR 0xA7, CHR 0xD8, CHR 0xB5, CHR 0xD9,
        CHR 0x84] None False [Input ''bestTimeToContact'' Text None None None],
      Field [CHR 0xD9, CHR 0x87, CHR 0xD9, CHR 0x84, CHR 0x20, CHR 0xD9, CHR 0x8A, CHR 0xD9,
        CHR 0x88, CHR 0xD8, CHR 0xAC, CHR 0xD8, CHR 0xAF, CHR 0x20, CHR 0xD9, CHR 0x85,
        CHR 0xD9, CHR 0x88, CHR 0xD8, CHR 0xB9, CHR 0xD8, CHR 0xAF, CHR 0x20, CHR 0xD9,
        CHR 0x86, CHR 0xD9, CHR 0x87, CHR 0xD8, CHR 0xA7, CHR 0xD8, CHR 0xA6, CHR 0xD9,
        CHR 0x8A, CHR 0x20, CHR 0xD9, CHR 0x84, CHR 0xD8, CHR 0xA7, CHR 0xD8, CHR 0xB3,
        CHR 0xD8, CHR 0xAA, CHR 0xD9, CHR 0x84, CHR 0xD8, CHR 0xA7, CHR 0xD9, CHR 0x85,
        CHR 0x20, CHR 0xD8, CHR 0xA7, CHR 0xD9, CHR 0x84, CHR 0xD8, CHR 0xB9, CHR 0xD8,
        CHR 0xB1, CHR 0xD8, CHR 0xB6, CHR 0xD8, CHR 0x9F, CHR 0x20, CHR 0x28, CHR 0xD8,
        CHR 0xAA, CHR 0xD8, CHR 0xA7, CHR 0xD8, CHR 0xB1, CHR 0xD9, CHR 0x8A, CHR 0xD8,
        CHR 0xAE, CHR 0x29] None False [Input ''deadline'' Date None None None]]"

definition section2 :: node where
  "section2 = FormSection [CHR 0x32, CHR 0x29, CHR 0x20, CHR 0xD8, CHR 0xA7, CHR 0xD9, CHR 0x84,
    CHR 0xD9, CHR 0x87, CHR 0xD8, CHR 0xAF, CHR 0xD9, CHR 0x81, CHR 0x20, CHR 0xD9, CHR 0x85,
    CHR 0xD9, CHR 0x86, CHR 0x20, CHR 0xD8, CHR 0xA7, CHR 0xD9, CHR 0x84, CHR 0xD9, CHR 0x85,
    CHR 0xD8, CHR 0xB4, CHR 0xD8, CHR 0xB1, CHR 0xD9, CHR 0x88, CHR 0xD8, CHR 0xB9] None
     [Field [CHR 0xD9, CHR 0x85, CHR 0xD8, CHR 0xA7, CHR 0x20, CHR 0xD8, CHR 0xA7, CHR 0xD9,
       CHR 0x84, CHR 0xD9, CHR 0x87, CHR 0xD8, CHR 0xAF, CHR 0xD9, CHR 0x81, CHR 0x20, CHR 0xD8,
       CHR 0xA7, CHR 0xD9, CHR 0x84, CHR 0xD8, CHR 0xB1, CHR 0xD8, CHR 0xA6, CHR 0xD9, CHR 0x8A,
       CHR 0xD8, CHR 0xB3, CHR 0xD9, CHR 0x8A, CHR 0xD8, CHR 0x9F]
        (Some [CHR 0xD9, CHR 0x8A, CHR 0xD9, CHR 0x85, CHR 0xD9, CHR 0x83, CHR 0xD9, CHR 0x86,
          CHR 0x20, CHR 0xD8, CHR 0xA7, CHR 0xD8, CHR 0xAE, CHR 0xD8, CHR 0xAA, CHR 0xD9,
          CHR 0x8A, CHR 0xD8, CHR 0xA7, CHR 0xD8, CHR 0xB1, CHR 0x20, CHR 0xD8, CHR 0xA3,
          CHR 0xD9, CHR 0x83, CHR 0xD8, CHR 0xAB, CHR 0xD8, CHR 0xB1, CHR 0x20, CHR 0xD9,
          CHR 0x85, CHR 0xD9, CHR 0x86, CHR 0x20, CHR 0xD9, CHR 0x87, CHR 0xD8, CHR 0xAF,
          CHR 0xD9, CHR 0x81, CHR 0x20, CHR 0xD8, CHR 0xA5, CHR 0xD9, CHR 0x86, CHR 0x20,
          CHR 0xD8, CHR 0xB1, CHR 0xD8, CHR 0xBA, CHR 0xD8, CHR 0xA8, CHR 0xD8, CHR 0xAA,
          CHR 0x2E]) False
        (map (\<lambda>goal. Caption goal [Input ''projectGoals'' Checkbox (Some goal) None None])
           projectGoals_options),
      Field [CHR 0xD9, CHR 0x87, CHR 0xD9, CHR 0x84, CHR 0x20, CHR 0xD8, CHR 0xA7, CHR 0xD9,
        CHR 0x84, CHR 0xD9, CHR 0x85, CHR 0xD8, CHR 0xB7, CHR 0xD9, CHR 0x84, CHR 0xD9,
        CHR 0x88, CHR 0xD8, CHR 0xA8, CHR 0x20, CHR 0xD8, CHR 0xA7, CHR 0xD8, CHR 0xB3,
        CHR 0xD8, CHR 0xAA, CHR 0xD8, CHR 0xA8, CHR 0xD8, CHR 0xAF, CHR 0xD8, CHR 0xA7,
        CHR 0xD9, CHR 0x84, CHR 0x20, CHR 0xD9, CHR 0x83, CHR 0xD9, CHR 0x88, CHR 0xD9,
        CHR 0x84, CHR 0x20, CHR 0xD8, CHR 0xB3, CHR 0xD9, CHR 0x86, CHR 0xD8, CHR 0xAA,
        CHR 0xD8, CHR 0xB1, CHR 0x20, CHR 0xD8, CHR 0xA8, CHR 0xD8, CHR 0xA7, CHR 0xD9,
        CHR 0x84, CHR 0xD9, CHR 0x83, CHR 0xD8, CHR 0xA7, CHR 0xD9, CHR 0x85, CHR 0xD9,
        CHR 0x84, CHR 0x20, CHR 0xD8, CHR 0xA3, CHR 0xD9, CHR 0x85, CHR 0x20, CHR 0xD9,
        CHR 0x85, CHR 0xD8, CHR 0xB3, CHR 0xD8, CHR 0xA7, CHR 0xD8, CHR 0xB9, CHR 0xD8,
        CHR 0xAF, CHR 0x20, CHR 0xD8, CHR 0xB0, CHR 0xD9, CHR 0x83, CHR 0xD9, CHR 0x8A,
        CHR 0x20, CHR 0xD8, CHR 0xA8, CHR 0xD8, CHR 0xAC, CHR 0xD8, CHR 0xA7, CHR 0xD9,
        CHR 0x86, CHR 0xD8, CHR 0xA8, CHR 0x20, CHR 0xD8, CHR 0xA7, CHR 0xD9, CHR 0x84,
        CHR 0xD9, CHR 0x85, CHR 0xD9, CHR 0x88, CHR 0xD8, CHR 0xB8, CHR 0xD9, CHR 0x81,
        CHR 0xD9, CHR 0x8A, CHR 0xD9, CHR 0x86, CHR 0xD8, CHR 0x9F] None False
        [Caption [CHR 0xD8, CHR 0xA7, CHR 0xD8, CHR 0xB3, CHR 0xD8, CHR 0xAA, CHR 0xD8,
          CHR 0xA8, CHR 0xD8, CHR 0xAF, CHR 0xD8, CHR 0xA7, CHR 0xD9, CHR 0x84, CHR 0x20,
          CHR 0xD8, CHR 0xA7, CHR 0xD9, CHR 0x84, CHR 0xD9, CHR 0x83, CHR 0xD9, CHR 0x88,
          CHR 0xD9, CHR 0x84, CHR 0x20, CHR 0xD8, CHR 0xB3, CHR 0xD9, CHR 0x86, CHR 0xD8,
          CHR 0xAA, CHR 0xD8, CHR 0xB1, CHR 0x20, CHR 0xD8, CHR 0xA8, CHR 0xD8, CHR 0xA7,
          CHR 0xD9, CHR 0x84, CHR 0xD9, CHR 0x83, CHR 0xD8, CHR 0xA7, CHR 0xD9, CHR 0x85,
          CHR 0xD9, CHR 0x84]
           [Input ''callcenterScope'' Radio (Some ''full-replacement'') None None],
         Caption [CHR 0xD9, CHR 0x85, CHR 0xD8, CHR 0xB3, CHR 0xD8, CHR 0xA7, CHR 0xD8,
           CHR 0xB9, CHR 0xD8, CHR 0xAF, CHR 0x20, CHR 0xD8, CHR 0xB0, CHR 0xD9, CHR 0x83,
           CHR 0xD9, CHR 0x8A, CHR 0x20, CHR 0xD8, CHR 0xA8, CHR 0xD8, CHR 0xAC, CHR 0xD8,
           CHR 0xA7, CHR 0xD9, CHR 0x86, CHR 0xD8, CHR 0xA8, CHR 0x20, CHR 0xD8, CHR 0xA7,
           CHR 0xD9, CHR 0x84, CHR 0xD9, CHR 0x85, CHR 0xD9, CHR 0x88, CHR 0xD8, CHR 0xB8,
           CHR 0xD9, CHR 0x81, CHR 0xD9, CHR 0x8A, CHR 0xD9, CHR 0x86]
           [Input ''callcenterScope'' Radio (Some ''assistant'') None None]],
      Field [CHR 0xD9, CHR 0x85, CHR 0xD8, CHR 0xA7, CHR 0x20, CHR 0xD9, CHR 0x86, CHR 0xD8,
        CHR 0xB7, CHR 0xD8, CHR 0xA7, CHR 0xD9, CHR 0x82, CHR 0x20, CHR 0xD8, CHR 0xA7,
        CHR 0xD9, CHR 0x84, CHR 0xD9, CHR 0x85, CHR 0xD8, CHR 0xB1, CHR 0xD8, CHR 0xAD,
        CHR 0xD9, CHR 0x84, CHR 0xD8, CHR 0xA9, CHR 0x20, CHR 0xD8, CHR 0xA7, CHR 0xD9,
        CHR 0x84, CHR 0xD8, CHR 0xA3, CHR 0xD9, CHR 0x88, CHR 0xD9, CHR 0x84, CHR 0xD9,
        CHR 0x89, CHR 0x20, CHR 0x28, CHR 0x4D, CHR 0x56, CHR 0x50, CHR 0x29, CHR 0xD8,
        CHR 0x9F]
        (Some [CHR 0xD9, CHR 0x85, CHR 0xD8, CHR 0xAB, CHR 0xD8, CHR 0xA7, CHR 0xD9, CHR 0x84,
          CHR 0x3A, CHR 0x20, CHR 0xD8, CHR 0xA7, CHR 0xD9, CHR 0x84, CHR 0xD9, CHR 0x82,
          CHR 0xD8, CHR 0xA8, CHR 0xD9, CHR 0x88, CHR 0xD9, CHR 0x84, CHR 0x20, CHR 0x2B,
          CHR 0x20, CHR 0xD8, CHR 0xA7, CHR 0xD9, CHR 0x84, CHR 0xD9, CHR 0x85, CHR 0xD8,
          CHR 0xA7, CHR 0xD9, CHR 0x84, CHR 0xD9, CHR 0x8A, CHR 0xD8, CHR 0xA9, CHR 0x20,
          CHR 0xD9, CHR 0x81, CHR 0xD9, CHR 0x82, CHR 0xD8, CHR 0xB7, CHR 0xD8, CHR 0x8C,
          CHR 0x20, CHR 0xD8, CHR 0xA3, CHR 0xD9, CHR 0x88, CHR 0x20, CHR 0xD8, CHR 0xA3,
          CHR 0xD9, CHR 0x82, CHR 0xD8, CHR 0xB3, CHR 0xD8, CHR 0xA7, CHR 0xD9, CHR 0x85,
          CHR 0x20, CHR 0xD9, CHR 0x85, CHR 0xD8, CHR 0xAD, CHR 0xD8, CHR 0xAF, CHR 0xD8,
          CHR 0xAF, CHR 0xD8, CHR 0xA9, CHR 0x2E]) False
        [Textarea ''mvpScope'']]"

definition section3 :: node where
  "section3 = FormSection [CHR 0x33, CHR 0x29, CHR 0x20, CHR 0xD8, CHR 0xA7, CHR 0xD9, CHR 0x84,
    CHR 0xD8, CHR 0xA3, CHR 0xD9, CHR 0x82, CHR 0xD8, CHR 0xB3, CHR 0xD8, CHR 0xA7, CHR 0xD9,
    CHR 0x85, CHR 0x20, CHR 0xD8, CHR 0xA7, CHR 0xD9, CHR 0x84, CHR 0xD9, CHR 0x85, CHR 0xD8,
    CHR 0xB7, CHR 0xD9, CHR 0x84, CHR 0xD9, CHR 0x88, CHR 0xD8, CHR 0xA8, CHR 0xD8, CHR 0xA9,
    CHR 0x20, CHR 0x2B, CHR 0x20, CHR 0xD8, CHR 0xAD, CHR 0xD8, CHR 0xAC, CHR 0xD9, CHR 0x85,
    CHR 0x20, CHR 0xD8, CHR 0xA7, CHR 0xD9, CHR 0x84, CHR 0xD9, CHR 0x85, CHR 0xD9, CHR 0x83,
    CHR 0xD8, CHR 0xA7, CHR 0xD9, CHR 0x84, CHR 0xD9, CHR 0x85, CHR 0xD8, CHR 0xA7, CHR 0xD8,
    CHR 0xAA, CHR 0x20, CHR 0xD9, CHR 0x84, CHR 0xD9, CHR 0x83, CHR 0xD9, CHR 0x84, CHR 0x20,
    CHR 0xD9, CHR 0x82, CHR 0xD8, CHR 0xB3, CHR 0xD9, CHR 0x85]
     (Some [CHR 0xD9, CHR 0x8A, CHR 0xD8, CHR 0xB1, CHR 0xD8, CHR 0xAC, CHR 0xD9, CHR 0x89,
       CHR 0x20, CHR 0xD8, CHR 0xA5, CHR 0xD8, CHR 0xAF, CHR 0xD8, CHR 0xAE, CHR 0xD8, CHR 0xA7,
       CHR 0xD9, CHR 0x84, CHR 0x20, CHR 0xD8, CHR 0xB9, CHR 0xD8, CHR 0xAF, CHR 0xD8, CHR 0xAF,
       CHR 0x20, CHR 0xD8, CHR 0xA7, CHR 0xD9, CHR 0x84, CHR 0xD9, CHR 0x85, CHR 0xD9, CHR 0x83,
       CHR 0xD8, CHR 0xA7, CHR 0xD9, CHR 0x84, CHR 0xD9, CHR 0x85, CHR 0xD8, CHR 0xA7, CHR 0xD8,
       CHR 0xAA, CHR 0x20, CHR 0xD8, CHR 0xA7, CHR 0xD9, CHR 0x84, CHR 0xD9, CHR 0x8A, CHR 0xD9,
       CHR 0x88, CHR 0xD9, CHR 0x85, CHR 0xD9, CHR 0x8A, CHR 0xD8, CHR 0xA9, CHR 0x20, CHR 0xD9,
       CHR 0x84, CHR 0xD9, CHR 0x83, CHR 0xD9, CHR 0x84, CHR 0x20, CHR 0xD9, CHR 0x82, CHR 0xD8,
       CHR 0xB3, CHR 0xD9, CHR 0x85, CHR 0x20, CHR 0x2B, CHR 0x20, CHR 0xD9, CHR 0x86, CHR 0xD8,
       CHR 0xB3, CHR 0xD8, CHR 0xA8, CHR 0xD8, CHR 0xA9, CHR 0x20, CHR 0xD8, CHR 0xA7, CHR 0xD9,
       CHR 0x84, CHR 0xD9, CHR 0x85, CHR 0xD9, CHR 0x83, CHR 0xD8, CHR 0xA7, CHR 0xD9, CHR 0x84,
       CHR 0xD9, CHR 0x85, CHR 0xD8, CHR 0xA7, CHR 0xD8, CHR 0xAA, CHR 0x20, CHR 0xD8, CHR 0xA7,
       CHR 0xD9, CHR 0x84, CHR 0xD9, CHR 0x85, CHR 0xD8, CHR 0xAA, CHR 0xD9, CHR 0x88, CHR 0xD9,
       CHR 0x82, CHR 0xD8, CHR 0xB9, CHR 0xD8, CHR 0xA9, CHR 0x20, CHR 0xD8, CHR 0xAE, CHR 0xD8,
       CHR 0xA7, CHR 0xD8, CHR 0xB1, CHR 0xD8, CHR 0xAC, CHR 0x20, CHR 0xD8, CHR 0xA3, CHR 0xD9,
       CHR 0x88, CHR 0xD9, CHR 0x82, CHR 0xD8, CHR 0xA7, CHR 0xD8, CHR 0xAA, CHR 0x20, CHR 0xD8,
       CHR 0xA7, CHR 0xD9, CHR 0x84, CHR 0xD8, CHR 0xAF, CHR 0xD9, CHR 0x88, CHR 0xD8, CHR 0xA7,
       CHR 0xD9, CHR 0x85, CHR 0x2E])
     (map (\<lambda>dept. Caption dept
             [Caption [CHR 0xD9, CHR 0x85, CHR 0xD9, CHR 0x83, CHR 0xD8, CHR 0xA7, CHR 0xD9,
               CHR 0x84, CHR 0xD9, CHR 0x85, CHR 0xD8, CHR 0xA7, CHR 0xD8, CHR 0xAA, CHR 0x2F,
               CHR 0xD9, CHR 0x8A, CHR 0xD9, CHR 0x88, CHR 0xD9, CHR 0x85]
                [Input (''dept-'' @ dept @ ''-daily'') Number None (Some 0) None],
              Caption [CHR 0xD8, CHR 0xAE, CHR 0xD8, CHR 0xA7, CHR 0xD8, CHR 0xB1, CHR 0xD8,
                CHR 0xAC, CHR 0x20, CHR 0xD8, CHR 0xA7, CHR 0xD9, CHR 0x84, CHR 0xD8, CHR 0xAF,
                CHR 0xD9, CHR 0x88, CHR 0xD8, CHR 0xA7, CHR 0xD9, CHR 0x85, CHR 0x20, CHR 0x25]
                [Input (''dept-'' @ dept @ ''-offhours'') Number None (Some 0) (Some 100)]])
        department_options
      @ [Field [CHR 0xD8, CHR 0xA3, CHR 0xD9, CHR 0x82, CHR 0xD8, CHR 0xB3, CHR 0xD8, CHR 0xA7,
        CHR 0xD9, CHR 0x85, CHR 0x20, CHR 0xD8, CHR 0xA3, CHR 0xD8, CHR 0xAE, CHR 0xD8,
        CHR 0xB1, CHR 0xD9, CHR 0x89, CHR 0x20, CHR 0x28, CHR 0xD8, CHR 0xA7, CHR 0xD8,
        CHR 0xB0, CHR 0xD9, CHR 0x83, CHR 0xD8, CHR 0xB1, CHR 0xD9, CHR 0x87, CHR 0xD8,
        CHR 0xA7, CHR 0x29] None False [Textarea ''otherDepartments'']])"

definition section4 :: node where
  "section4 = FormSection [CHR 0x34, CHR 0x29, CHR 0x20, CHR 0xD8, CHR 0xAD, CHR 0xD8, CHR 0xAC,
    CHR 0xD9, CHR 0x85, CHR 0x20, CHR 0xD8, CHR 0xA7, CHR 0xD9, CHR 0x84, CHR 0xD9, CHR 0x85,
    CHR 0xD9, CHR 0x83, CHR 0xD8, CHR 0xA7, CHR 0xD9, CHR 0x84, CHR 0xD9, CHR 0x85, CHR 0xD8,
    CHR 0xA7, CHR 0xD8, CHR 0xAA, CHR 0x20, CHR 0xD8, CHR 0xA7, CHR 0xD9, CHR 0x84, CHR 0xD9,
    CHR 0x83, CHR 0xD9, CHR 0x84, CHR 0xD9, CHR 0x8A] None
     [Field [CHR 0xD9, CHR 0x85, CHR 0xD8, CHR 0xAA, CHR 0xD9, CHR 0x88, CHR 0xD8, CHR 0xB3,
       CHR 0xD8, CHR 0xB7, CHR 0x20, CHR 0xD8, CHR 0xB9, CHR 0xD8, CHR 0xAF, CHR 0xD8, CHR 0xAF,
       CHR 0x20, CHR 0xD8, CHR 0xA7, CHR 0xD9, CHR 0x84, CHR 0xD9, CHR 0x85, CHR 0xD9, CHR 0x83,
       CHR 0xD8, CHR 0xA7, CHR 0xD9, CHR 0x84, CHR 0xD9, CHR 0x85, CHR 0xD8, CHR 0xA7, CHR 0xD8,
       CHR 0xAA, CHR 0x20, CHR 0xD8, CHR 0xA7, CHR 0xD9, CHR 0x84, CHR 0xD9, CHR 0x8A, CHR 0xD9,
       CHR 0x88, CHR 0xD9, CHR 0x85, CHR 0xD9, CHR 0x8A, CHR 0xD8, CHR 0xA9, CHR 0x20, CHR 0x28,
       CHR 0xD9, CHR 0x83, CHR 0xD9, CHR 0x84, CHR 0x20, CHR 0xD8, CHR 0xA7, CHR 0xD9, CHR 0x84,
       CHR 0xD8, CHR 0xAC, CHR 0xD8, CHR 0xA7, CHR 0xD9, CHR 0x85, CHR 0xD8, CHR 0xB9, CHR 0xD8,
       CHR 0xA9, CHR 0x29] None False [Input ''totalDailyCalls'' Number None (Some 0) None],
      Field [CHR 0xD8, CHR 0xA3, CHR 0xD8, CHR 0xB9, CHR 0xD9, CHR 0x84, CHR 0xD9, CHR 0x89,
        CHR 0x20, CHR 0xD8, CHR 0xB0, CHR 0xD8, CHR 0xB1, CHR 0xD9, CHR 0x88, CHR 0xD8,
        CHR 0xA9, CHR 0x20, CHR 0xD9, CHR 0x84, CHR 0xD9, CHR 0x84, CHR 0xD9, CHR 0x85,
        CHR 0xD9, CHR 0x83, CHR 0xD8, CHR 0xA7, CHR 0xD9, CHR 0x84, CHR 0xD9, CHR 0x85,
        CHR 0xD8, CHR 0xA7, CHR 0xD8, CHR 0xAA, CHR 0x20, CHR 0x28, CHR 0x50, CHR 0x65,
        CHR 0x61, CHR 0x6B, CHR 0x2F, CHR 0xD9, CHR 0x8A, CHR 0xD9, CHR 0x88, CHR 0xD9,
        CHR 0x85, CHR 0x29] None False [Input ''peakDailyCalls'' Number None (Some 0) None],
      Field [CHR 0xD8, CHR 0xB3, CHR 0xD8, CHR 0xA7, CHR 0xD8, CHR 0xB9, CHR 0xD8, CHR 0xA7,
        CHR 0xD8, CHR 0xAA, CHR 0x20, CHR 0xD8, CHR 0xA7, CHR 0xD9, CHR 0x84, CHR 0xD8,
        CHR 0xB0, CHR 0xD8, CHR 0xB1, CHR 0xD9, CHR 0x88, CHR 0xD8,
        CHR 0xA9] None False [Input ''peakHours'' Text None None None],
      Field [CHR 0xD8, CHR 0xB9, CHR 0xD8, CHR 0xAF, CHR 0xD8, CHR 0xAF, CHR 0x20, CHR 0xD9,
        CHR 0x85, CHR 0xD9, CHR 0x88, CHR 0xD8, CHR 0xB8, CHR 0xD9, CHR 0x81, CHR 0xD9,
        CHR 0x8A, CHR 0x20, CHR 0xD8, CHR 0xA7, CHR 0xD9, CHR 0x84, CHR 0xD9, CHR 0x83,
        CHR 0xD9, CHR 0x88, CHR 0xD9, CHR 0x84, CHR 0x20, CHR 0xD8, CHR 0xB3, CHR 0xD9,
        CHR 0x86, CHR 0xD8, CHR 0xAA, CHR 0xD8, CHR 0xB1, CHR 0x20, CHR 0xD8, CHR 0xA7,
        CHR 0xD9, CHR 0x84, CHR 0xD8, CHR 0xAD, CHR 0xD8, CHR 0xA7, CHR 0xD9, CHR 0x84,
        CHR 0xD9, CHR 0x8A, CHR 0xD9, CHR 0x8A, CHR 0xD9,
        CHR 0x86] None False [Input ''currentAgents'' Number None (Some 0) None],
      Field [CHR 0xD9, CHR 0x85, CHR 0xD8, CHR 0xAA, CHR 0xD9, CHR 0x88, CHR 0xD8, CHR 0xB3,
        CHR 0xD8, CHR 0xB7, CHR 0x20, CHR 0xD9, CHR 0x85, CHR 0xD8, CHR 0xAF, CHR 0xD8,
        CHR 0xA9, CHR 0x20, CHR 0xD8, CHR 0xA7, CHR 0xD9, CHR 0x84, CHR 0xD9, CHR 0x85,
        CHR 0xD9, CHR 0x83, CHR 0xD8, CHR 0xA7, CHR 0xD9, CHR 0x84, CHR 0xD9, CHR 0x85,
        CHR 0xD8, CHR 0xA9, CHR 0x20, CHR 0xD8, CHR 0xA7, CHR 0xD9, CHR 0x84, CHR 0xD8,
        CHR 0xAD, CHR 0xD8, CHR 0xA7, CHR 0xD9, CHR 0x84, CHR 0xD9, CHR 0x8A, CHR 0xD8,
        CHR 0xA9, CHR 0x20, CHR 0x28, CHR 0xD8, CHR 0xA5, CHR 0xD9, CHR 0x86, CHR 0x20,
        CHR 0xD9, CHR 0x88, CHR 0xD8, CHR 0xAC, CHR 0xD8, CHR 0xAF, CHR 0x29, CHR 0x20,
        CHR 0x2D, CHR 0x20, CHR 0xD8, CHR 0xAF, CHR 0xD9, CHR 0x82, CHR 0xD9, CHR 0x8A,
        CHR 0xD9, CHR 0x82, CHR 0xD8,
        CHR 0xA9] None False [Input ''avgCallDuration'' Number None (Some 0) None],
      Field [CHR 0xD9, CHR 0x86, CHR 0xD8, CHR 0xB3, CHR 0xD8, CHR 0xA8, CHR 0xD8, CHR 0xA9,
        CHR 0x20, CHR 0xD8, CHR 0xA7, CHR 0xD9, CHR 0x84, CHR 0xD9, CHR 0x85, CHR 0xD9,
        CHR 0x83, CHR 0xD8, CHR 0xA7, CHR 0xD9, CHR 0x84, CHR 0xD9, CHR 0x85, CHR 0xD8,
        CHR 0xA7, CHR 0xD8, CHR 0xAA, CHR 0x20, CHR 0xD8, CHR 0xA7, CHR 0xD9, CHR 0x84,
        CHR 0xD9, CHR 0x81, CHR 0xD8, CHR 0xA7, CHR 0xD8, CHR 0xA6, CHR 0xD8, CHR 0xAA,
        CHR 0xD8, CHR 0xA9, CHR 0x2F, CHR 0xD8, CHR 0xA7, CHR 0xD9, CHR 0x84, CHR 0xD9,
        CHR 0x85, CHR 0xD8, CHR 0xB9, CHR 0xD9, CHR 0x84, CHR 0xD9, CHR 0x82, CHR 0xD8,
        CHR 0xA9, CHR 0x20, CHR 0x28, CHR 0xD8, CHR 0xA5, CHR 0xD9, CHR 0x86, CHR 0x20,
        CHR 0xD9, CHR 0x88, CHR 0xD8, CHR 0xAC, CHR 0xD8, CHR 0xAF, CHR 0x29, CHR 0x20,
        CHR 0x25] None False
        [Input ''missedCallsPercent'' Number None (Some 0) (Some 100)]]"

definition section5 :: node where
  "section5 = FormSection [CHR 0x35, CHR 0x29, CHR 0x20, CHR 0xD8, CHR 0xA7, CHR 0xD9, CHR 0x84,
    CHR 0xD9, CHR 0x84, CHR 0xD8, CHR 0xBA, CHR 0xD8, CHR 0xA7, CHR 0xD8, CHR 0xAA, CHR 0x20,
    CHR 0xD8, CHR 0xA7, CHR 0xD9, CHR 0x84, CHR 0xD9, CHR 0x85, CHR 0xD8, CHR 0xB7, CHR 0xD9,
    CHR 0x84, CHR 0xD9, CHR 0x88, CHR 0xD8, CHR 0xA8, CHR 0xD8, CHR 0xA9] None
     (map (\<lambda>lang. Field (lang @ '' (%)'') None False
             [Input (''lang-'' @ lang) Number None (Some 0) (Some 100)])
        language_options
      @ [Field [CHR 0xD9, CHR 0x84, CHR 0xD8, CHR 0xBA, CHR 0xD8, CHR 0xA7, CHR 0xD8, CHR 0xAA,
        CHR 0x20, CHR 0xD8, CHR 0xA3, CHR 0xD8, CHR 0xAE, CHR 0xD8, CHR 0xB1, CHR 0xD9,
        CHR 0x89] None False
           [Input ''otherLanguageName'' Text None None None,
            Input ''otherLanguagePercent'' Number None (Some 0) (Some 100)]])"

definition section6 :: node where
  "section6 = FormSection [CHR 0x36, CHR 0x29, CHR 0x20, CHR 0xD9, CHR 0x86, CHR 0xD9, CHR 0x88,
    CHR 0xD8, CHR 0xB9, CHR 0x20, CHR 0xD8, CHR 0xA7, CHR 0xD9, CHR 0x84, CHR 0xD9, CHR 0x82,
    CHR 0xD9, CHR 0x86, CHR 0xD9, CHR 0x88, CHR 0xD8, CHR 0xA7, CHR 0xD8, CHR 0xAA, CHR 0x20,
    CHR 0xD8, CHR 0xA7, CHR 0xD9, CHR 0x84, CHR 0xD9, CHR 0x85, CHR 0xD8, CHR 0xB7, CHR 0xD9,
    CHR 0x84, CHR 0xD9, CHR 0x88, CHR 0xD8, CHR 0xA8, CHR 0xD8, CHR 0xA9] None
     [Field [CHR 0xD8, CHR 0xA7, CHR 0xD9, CHR 0x84, CHR 0xD9, CHR 0x82, CHR 0xD9, CHR 0x86,
       CHR 0xD9, CHR 0x88, CHR 0xD8, CHR 0xA7, CHR 0xD8, CHR 0xAA, CHR 0x20, CHR 0xD8, CHR 0xA7,
       CHR 0xD9, CHR 0x84, CHR 0xD9, CHR 0x85, CHR 0xD8, CHR 0xB7, CHR 0xD9, CHR 0x84, CHR 0xD9,
       CHR 0x88, CHR 0xD8, CHR 0xA8, CHR 0xD8, CHR 0xA9] None False
        (map (\<lambda>channel. Caption channel
                [Input ''channels'' Checkbox (Some channel) None None])
           channel_options
         @ [Caption [CHR 0xD8, CHR 0xA3, CHR 0xD8, CHR 0xAE, CHR 0xD8, CHR 0xB1, CHR 0xD9,
           CHR 0x89] [Input ''channelsOther'' Text None None None]]),
      Field [CHR 0xD9, CHR 0x87, CHR 0xD9, CHR 0x84, CHR 0x20, CHR 0xD8, CHR 0xAA, CHR 0xD8,
        CHR 0xB1, CHR 0xD9, CHR 0x8A, CHR 0xD8, CHR 0xAF, CHR 0xD9, CHR 0x88, CHR 0xD9,
        CHR 0x86, CHR 0x20, CHR 0xD8, CHR 0xB1, CHR 0xD9, CHR 0x82, CHR 0xD9, CHR 0x85,
        CHR 0x20, CHR 0xD9, CHR 0x85, CHR 0xD9, CHR 0x88, CHR 0xD8, CHR 0xAD, CHR 0xD8,
        CHR 0xAF, CHR 0x20, CHR 0xD9, CHR 0x88, CHR 0xD8, CHR 0xA7, CHR 0xD8, CHR 0xAD,
        CHR 0xD8, CHR 0xAF, CHR 0x20, CHR 0xD8, CHR 0xA3, CHR 0xD9, CHR 0x85, CHR 0x20,
        CHR 0xD8, CHR 0xA3, CHR 0xD8, CHR 0xB1, CHR 0xD9, CHR 0x82, CHR 0xD8, CHR 0xA7,
        CHR 0xD9, CHR 0x85, CHR 0x20, CHR 0xD9, CHR 0x85, CHR 0xD8, CHR 0xAA, CHR 0xD8,
        CHR 0xB9, CHR 0xD8, CHR 0xAF, CHR 0xD8, CHR 0xAF, CHR 0xD8, CHR 0xA9, CHR 0x20,
        CHR 0xD9, CHR 0x84, CHR 0xD9, CHR 0x83, CHR 0xD9, CHR 0x84, CHR 0x20, CHR 0xD9,
        CHR 0x82, CHR 0xD8, CHR 0xB3, CHR 0xD9, CHR 0x85, CHR 0xD8,
        CHR 0x9F] None False [Input ''numbersPreference'' Text None None None]]"

definition section7 :: node where
  "section7 = FormSection [CHR 0x37, CHR 0x29, CHR 0x20, CHR 0xD8, CHR 0xB3, CHR 0xD9, CHR 0x8A,
    CHR 0xD9, CHR 0x86, CHR 0xD8, CHR 0xA7, CHR 0xD8, CHR 0xB1, CHR 0xD9, CHR 0x8A, CHR 0xD9,
    CHR 0x88, CHR 0xD9, CHR 0x87, CHR 0xD8, CHR 0xA7, CHR 0xD8, CHR 0xAA, CHR 0x20, CHR 0xD8,
    CHR 0xA7, CHR 0xD9, CHR 0x84, CHR 0xD9, CHR 0x85, CHR 0xD9, CHR 0x83, CHR 0xD8, CHR 0xA7,
    CHR 0xD9, CHR 0x84, CHR 0xD9, CHR 0x85, CHR 0xD8, CHR 0xA7, CHR 0xD8, CHR 0xAA, CHR 0x20,
    CHR 0x28, CHR 0x55, CHR 0x73, CHR 0x65, CHR 0x20, CHR 0x43, CHR 0x61, CHR 0x73, CHR 0x65,
    CHR 0x73, CHR 0x29]
     (Some [CHR 0xD8, CHR 0xAD, CHR 0xD8, CHR 0xAF, CHR 0xD8, CHR 0xAF, CHR 0x20, CHR 0xD8,
       CHR 0xA7, CHR 0xD9, CHR 0x84, CHR 0xD8, CHR 0xB3, CHR 0xD9, CHR 0x8A, CHR 0xD9, CHR 0x86,
       CHR 0xD8, CHR 0xA7, CHR 0xD8, CHR 0xB1, CHR 0xD9, CHR 0x8A, CHR 0xD9, CHR 0x88, CHR 0xD9,
       CHR 0x87, CHR 0xD8, CHR 0xA7, CHR 0xD8, CHR 0xAA, CHR 0x20, CHR 0xD8, CHR 0xA7, CHR 0xD9,
       CHR 0x84, CHR 0xD9, CHR 0x85, CHR 0xD8, CHR 0xB7, CHR 0xD9, CHR 0x84, CHR 0xD9, CHR 0x88,
       CHR 0xD8, CHR 0xA8, CHR 0xD8, CHR 0xA9, CHR 0x20, CHR 0xD9, CHR 0x88, CHR 0xD9, CHR 0x87,
       CHR 0xD9, CHR 0x84, CHR 0x20, CHR 0xD8, CHR 0xAA, CHR 0xD8, CHR 0xAD, CHR 0xD8, CHR 0xAA,
       CHR 0xD8, CHR 0xA7, CHR 0xD8, CHR 0xAC, CHR 0x20, CHR 0xD8, CHR 0xAA, CHR 0xD8, CHR 0xAD,
       CHR 0xD9, CHR 0x82, CHR 0xD9, CHR 0x82, CHR 0x20, CHR 0xD9, CHR 0x87, CHR 0xD9, CHR 0x88,
       CHR 0xD9, CHR 0x8A, CHR 0xD8, CHR 0xA9, CHR 0xD8, CHR 0x8C, CHR 0x20, CHR 0xD9, CHR 0x88,
       CHR 0xD8, CHR 0xA7, CHR 0xD8, CHR 0xB0, CHR 0xD9, CHR 0x83, CHR 0xD8, CHR 0xB1, CHR 0x20,
       CHR 0xD8, CHR 0xA3, CHR 0xD9, CHR 0x87, CHR 0xD9, CHR 0x85, CHR 0x20, CHR 0xD8, CHR 0xA7,
       CHR 0xD9, CHR 0x84, CHR 0xD8, CHR 0xA3, CHR 0xD8, CHR 0xB3, CHR 0xD8, CHR 0xA6, CHR 0xD9,
       CHR 0x84, CHR 0xD8, CHR 0xA9, CHR 0x20, CHR 0xD8, CHR 0xA5, CHR 0xD9, CHR 0x86, CHR 0x20,
       CHR 0xD8, CHR 0xA3, CHR 0xD9, CHR 0x85, CHR 0xD9, CHR 0x83, CHR 0xD9, CHR 0x86,
       CHR 0x2E])
     [Field [CHR 0xD8, CHR 0xA7, CHR 0xD9, CHR 0x84, CHR 0xD8, CHR 0xB3, CHR 0xD9, CHR 0x8A,
       CHR 0xD9, CHR 0x86, CHR 0xD8, CHR 0xA7, CHR 0xD8, CHR 0xB1, CHR 0xD9, CHR 0x8A, CHR 0xD9,
       CHR 0x88, CHR 0xD9, CHR 0x87, CHR 0xD8, CHR 0xA7, CHR 0xD8, CHR 0xAA, CHR 0x20, CHR 0xD8,
       CHR 0xA7, CHR 0xD9, CHR 0x84, CHR 0xD9, CHR 0x85, CHR 0xD8, CHR 0xB7, CHR 0xD9, CHR 0x84,
       CHR 0xD9, CHR 0x88, CHR 0xD8, CHR 0xA8, CHR 0xD8, CHR 0xA9, CHR 0x20, CHR 0x2B, CHR 0x20,
       CHR 0xD9, CHR 0x87, CHR 0xD9, CHR 0x84, CHR 0x20, CHR 0xD8, CHR 0xAA, CHR 0xD8, CHR 0xAD,
       CHR 0xD8, CHR 0xAA, CHR 0xD8, CHR 0xA7, CHR 0xD8, CHR 0xAC, CHR 0x20, CHR 0xD8, CHR 0xAA,
       CHR 0xD8, CHR 0xAD, CHR 0xD9, CHR 0x82, CHR 0xD9, CHR 0x82, CHR 0x20, CHR 0xD9, CHR 0x87,
       CHR 0xD9, CHR 0x88, CHR 0xD9, CHR 0x8A, CHR 0xD8, CHR 0xA9, CHR 0xD8,
       CHR 0x9F] None False
        (map (\<lambda>scenario. Div
                [Caption scenario [Input ''scenarios'' Checkbox (Some scenario) None None],
                 Caption [CHR 0xD9, CHR 0x8A, CHR 0xD8, CHR 0xAD, CHR 0xD8, CHR 0xAA, CHR 0xD8,
                   CHR 0xA7, CHR 0xD8, CHR 0xAC, CHR 0x20, CHR 0xD8, CHR 0xAA, CHR 0xD8,
                   CHR 0xAD, CHR 0xD9, CHR 0x82, CHR 0xD9, CHR 0x82, CHR 0x20, CHR 0xD9,
                   CHR 0x87, CHR 0xD9, CHR 0x88, CHR 0xD9, CHR 0x8A, CHR 0xD8, CHR 0xA9,
                   CHR 0xD8, CHR 0x9F]
                   [YesNoGroup (''scenario-'' @ scenario @ ''-identity'')]])
           scenario_options
         @ [Caption [CHR 0xD8, CHR 0xB3, CHR 0xD9, CHR 0x8A, CHR 0xD9, CHR 0x86, CHR 0xD8,
           CHR 0xA7, CHR 0xD8, CHR 0xB1, CHR 0xD9, CHR 0x8A, CHR 0xD9, CHR 0x88, CHR 0xD9,
           CHR 0x87, CHR 0xD8, CHR 0xA7, CHR 0xD8, CHR 0xAA, CHR 0x20, CHR 0xD8, CHR 0xA3,
           CHR 0xD8, CHR 0xAE, CHR 0xD8, CHR 0xB1, CHR 0xD9,
           CHR 0x89] [Textarea ''otherScenarios'']]),
      Field [CHR 0xD9, CHR 0x84, CHR 0xD9, CHR 0x83, CHR 0xD9, CHR 0x84, CHR 0x20, CHR 0xD8,
        CHR 0xB3, CHR 0xD9, CHR 0x8A, CHR 0xD9, CHR 0x86, CHR 0xD8, CHR 0xA7, CHR 0xD8,
        CHR 0xB1, CHR 0xD9, CHR 0x8A, CHR 0xD9, CHR 0x88, CHR 0x3A, CHR 0x20, CHR 0xD9,
        CHR 0x87, CHR 0xD9, CHR 0x84, CHR 0x20, CHR 0xD8, CHR 0xA7, CHR 0xD9, CHR 0x84,
        CHR 0xD8, CHR 0xB1, CHR 0xD8, CHR 0xAF, CHR 0x20, CHR 0xD9, CHR 0x85, CHR 0xD8,
        CHR 0xB9, CHR 0xD9, CHR 0x84, CHR 0xD9, CHR 0x88, CHR 0xD9, CHR 0x85, CHR 0xD8,
        CHR 0xA9, CHR 0x20, CHR 0xD8, CHR 0xB9, CHR 0xD8, CHR 0xA7, CHR 0xD9, CHR 0x85,
        CHR 0xD8, CHR 0xA9, CHR 0x20, CHR 0xD8, CHR 0xA3, CHR 0xD9, CHR 0x85, CHR 0x20,
        CHR 0xD9, CHR 0x8A, CHR 0xD8, CHR 0xAD, CHR 0xD8, CHR 0xAA, CHR 0xD8, CHR 0xA7,
        CHR 0xD8, CHR 0xAC, CHR 0x20, CHR 0xD8, CHR 0xA8, CHR 0xD9, CHR 0x8A, CHR 0xD8,
        CHR 0xA7, CHR 0xD9, CHR 0x86, CHR 0xD8, CHR 0xA7, CHR 0xD8, CHR 0xAA, CHR 0x20,
        CHR 0xD8, CHR 0xB7, CHR 0xD8, CHR 0xA7, CHR 0xD9, CHR 0x84, CHR 0xD8, CHR 0xA8,
        CHR 0x2F, CHR 0xD9, CHR 0x85, CHR 0xD9, CHR 0x88, CHR 0xD8, CHR 0xB8, CHR 0xD9,
        CHR 0x81, CHR 0xD8, CHR 0x9F, CHR 0x20, CHR 0xD9, CHR 0x88, CHR 0xD9, CHR 0x85,
        CHR 0xD8, CHR 0xA7, CHR 0x20, CHR 0xD8, CHR 0xA3, CHR 0xD9, CHR 0x87, CHR 0xD9,
        CHR 0x85, CHR 0x20, CHR 0x32, CHR 0x30, CHR 0x20, CHR 0xD8, CHR 0xB3, CHR 0xD8,
        CHR 0xA4, CHR 0xD8, CHR 0xA7, CHR 0xD9, CHR 0x84, CHR 0xD8,
        CHR 0x9F] None False [Textarea ''scenariosDetails'']]"

definition section8 :: node where
  "section8 = FormSection [CHR 0x38, CHR 0x29, CHR 0x20, CHR 0xD8, CHR 0xA7, CHR 0xD9, CHR 0x84,
    CHR 0xD8, CHR 0xA8, CHR 0xD9, CHR 0x8A, CHR 0xD8, CHR 0xA7, CHR 0xD9, CHR 0x86, CHR 0xD8,
    CHR 0xA7, CHR 0xD8, CHR 0xAA, CHR 0x20, CHR 0xD8, CHR 0xA7, CHR 0xD9, CHR 0x84, CHR 0xD9,
    CHR 0x85, CHR 0xD8, CHR 0xAA, CHR 0xD8, CHR 0xA7, CHR 0xD8, CHR 0xAD, CHR 0xD8, CHR 0xA9,
    CHR 0x20, CHR 0xD9, CHR 0x84, CHR 0xD8, CHR 0xAA, CHR 0xD8, CHR 0xBA, CHR 0xD8, CHR 0xB0,
    CHR 0xD9, CHR 0x8A, CHR 0xD8, CHR 0xA9, CHR 0x20, CHR 0xD8, CHR 0xA7, CHR 0xD9, CHR 0x84,
    CHR 0xD9, CHR 0x86, CHR 0xD8, CHR 0xB8, CHR 0xD8, CHR 0xA7, CHR 0xD9, CHR 0x85, CHR 0x20,
    CHR 0x28, CHR 0x4B, CHR 0x6E, CHR 0x6F, CHR 0x77, CHR 0x6C, CHR 0x65, CHR 0x64, CHR 0x67,
    CHR 0x65, CHR 0x20, CHR 0x42, CHR 0x61, CHR 0x73, CHR 0x65, CHR 0x29] None
     (map (\<lambda>item. Field item None False [YesNoGroup (''kb-'' @ item)]) kb_options
      @ [Field [CHR 0xD9, CHR 0x85, CHR 0xD9, CHR 0x84, CHR 0xD9, CHR 0x81, CHR 0xD8, CHR 0xA7,
        CHR 0xD8, CHR 0xAA, CHR 0x20, CHR 0x28, CHR 0x50, CHR 0x44, CHR 0x46, CHR 0x2F,
        CHR 0x45, CHR 0x78, CHR 0x63, CHR 0x65, CHR 0x6C, CHR 0x2F, CHR 0x57, CHR 0x6F,
        CHR 0x72, CHR 0x64, CHR 0x29] None False
           [YesNoGroup ''kb-files-exist'',
            Input ''kb-files-count'' Number None (Some 0) None],
         Field [CHR 0xD8, CHR 0xA3, CHR 0xD8, CHR 0xAE, CHR 0xD8, CHR 0xB1, CHR 0xD9,
           CHR 0x89] None False [Textarea ''kb-other''],
         Field [CHR 0xD9, CHR 0x84, CHR 0xD8, CHR 0xBA, CHR 0xD8, CHR 0xA9, CHR 0x20, CHR 0xD8,
           CHR 0xA7, CHR 0xD9, CHR 0x84, CHR 0xD9, CHR 0x85, CHR 0xD8, CHR 0xAD, CHR 0xD8,
           CHR 0xAA, CHR 0xD9, CHR 0x88, CHR 0xD9, CHR 0x89, CHR 0x20, CHR 0xD9, CHR 0x88,
           CHR 0xD8, CHR 0xAA, CHR 0xD8, CHR 0xAD, CHR 0xD8, CHR 0xAF, CHR 0xD9, CHR 0x8A,
           CHR 0xD8, CHR 0xAB, CHR 0xD9,
           CHR 0x87] None False [Input ''kb-languageUpdate'' Text None None None]])"

definition section9 :: node where
  "section9 = FormSection [CHR 0x39, CHR 0x29, CHR 0x20, CHR 0xD8, CHR 0xA7, CHR 0xD9, CHR 0x84,
    CHR 0xD8, CHR 0xA3, CHR 0xD9, CHR 0x86, CHR 0xD8, CHR 0xB8, CHR 0xD9, CHR 0x85, CHR 0xD8,
    CHR 0xA9, CHR 0x20, CHR 0xD8, CHR 0xA7, CHR 0xD9, CHR 0x84, CHR 0xD9, CHR 0x85, CHR 0xD9,
    CHR 0x88, CHR 0xD8, CHR 0xAC, CHR 0xD9, CHR 0x88, CHR 0xD8, CHR 0xAF, CHR 0xD8, CHR 0xA9,
    CHR 0x20, CHR 0xD8, CHR 0xAF, CHR 0xD8, CHR 0xA7, CHR 0xD8, CHR 0xAE, CHR 0xD9, CHR 0x84,
    CHR 0x20, CHR 0xD8, CHR 0xA7, CHR 0xD9, CHR 0x84, CHR 0xD8, CHR 0xAC, CHR 0xD8, CHR 0xA7,
    CHR 0xD9, CHR 0x85, CHR 0xD8, CHR 0xB9, CHR 0xD8, CHR 0xA9, CHR 0x20, CHR 0x28, CHR 0x49,
    CHR 0x6E, CHR 0x74, CHR 0x65, CHR 0x67, CHR 0x72, CHR 0x61, CHR 0x74, CHR 0x69, CHR 0x6F,
    CHR 0x6E, CHR 0x73, CHR 0x29] None
     [Field [CHR 0xD8, CHR 0xA7, CHR 0xD9, CHR 0x84, CHR 0xD8, CHR 0xA3, CHR 0xD9, CHR 0x86,
       CHR 0xD8, CHR 0xB8, CHR 0xD9, CHR 0x85, CHR 0xD8, CHR 0xA9, CHR 0x20, CHR 0xD8, CHR 0xA7,
       CHR 0xD9, CHR 0x84, CHR 0xD8, CHR 0xA3, CHR 0xD9, CHR 0x83, CHR 0xD8, CHR 0xA7, CHR 0xD8,
       CHR 0xAF, CHR 0xD9, CHR 0x8A, CHR 0xD9, CHR 0x85, CHR 0xD9, CHR 0x8A, CHR 0xD8,
       CHR 0xA9] None False [Input ''systems-academic'' Text None None None],
      Field [CHR 0xD8, CHR 0xA3, CHR 0xD9, CHR 0x86, CHR 0xD8, CHR 0xB8, CHR 0xD9, CHR 0x85,
        CHR 0xD8, CHR 0xA9, CHR 0x20, CHR 0xD8, CHR 0xA7, CHR 0xD9, CHR 0x84, CHR 0xD9,
        CHR 0x83, CHR 0xD9, CHR 0x88, CHR 0xD9, CHR 0x84, CHR 0x20, CHR 0xD8, CHR 0xB3,
        CHR 0xD9, CHR 0x86, CHR 0xD8, CHR 0xAA, CHR 0xD8, CHR 0xB1, CHR 0x20, CHR 0x2F,
        CHR 0x20, CHR 0xD8, CHR 0xA7, CHR 0xD9, CHR 0x84, CHR 0xD8, CHR 0xB3, CHR 0xD9,
        CHR 0x86, CHR 0xD8, CHR 0xAA, CHR 0xD8, CHR 0xB1, CHR 0xD8, CHR 0xA7, CHR 0xD9,
        CHR 0x84] None False [Input ''systems-callcenter'' Text None None None],
      Field ''CRM'' None False [Input ''systems-crm'' Text None None None],
      Field [CHR 0xD8, CHR 0xA3, CHR 0xD9, CHR 0x86, CHR 0xD8, CHR 0xB8, CHR 0xD9, CHR 0x85,
        CHR 0xD8, CHR 0xA9, CHR 0x20, CHR 0xD8, CHR 0xA5, CHR 0xD8, CHR 0xB6, CHR 0xD8,
        CHR 0xA7, CHR 0xD9, CHR 0x81, CHR 0xD9, CHR 0x8A, CHR 0xD8, CHR 0xA9, CHR 0x20,
        CHR 0x28, CHR 0x4C, CHR 0x4D, CHR 0x53, CHR 0x20, CHR 0x2F, CHR 0x20, CHR 0x45,
        CHR 0x52, CHR 0x50, CHR 0x20, CHR 0x2F, CHR 0x20, CHR 0xD8, CHR 0xA8, CHR 0xD9,
        CHR 0x88, CHR 0xD8, CHR 0xA7, CHR 0xD8, CHR 0xA8, CHR 0xD8, CHR 0xA9, CHR 0x20,
        CHR 0xD8, CHR 0xA7, CHR 0xD9, CHR 0x84, CHR 0xD8, CHR 0xB7, CHR 0xD8, CHR 0xA7,
        CHR 0xD9, CHR 0x84, CHR 0xD8, CHR 0xA8, CHR 0x20, CHR 0x2E, CHR 0x2E, CHR 0x2E,
        CHR 0x29] None False [Textarea ''systems-other'']]"

definition section10 :: node where
  "section10 = FormSection [CHR 0x31, CHR 0x30, CHR 0x29, CHR 0x20, CHR 0xD8, CHR 0xB5,
    CHR 0xD9, CHR 0x84, CHR 0xD8, CHR 0xA7, CHR 0xD8, CHR 0xAD, CHR 0xD9, CHR 0x8A, CHR 0xD8,
    CHR 0xA7, CHR 0xD8, CHR 0xAA, CHR 0x20, CHR 0xD8, CHR 0xA7, CHR 0xD9, CHR 0x84, CHR 0xD9,
    CHR 0x88, CHR 0xD8, CHR 0xB5, CHR 0xD9, CHR 0x88, CHR 0xD9, CHR 0x84, CHR 0x20, CHR 0xD9,
    CHR 0x88, CHR 0xD8, CHR 0xA7, CHR 0xD9, CHR 0x84, CHR 0xD9, CHR 0x82, CHR 0xD9, CHR 0x8A,
    CHR 0xD9, CHR 0x88, CHR 0xD8, CHR 0xAF, CHR 0x20, CHR 0xD8, CHR 0xA7, CHR 0xD9, CHR 0x84,
    CHR 0xD8, CHR 0xA3, CHR 0xD9, CHR 0x85, CHR 0xD9, CHR 0x86, CHR 0xD9, CHR 0x8A, CHR 0xD8,
    CHR 0xA9] None
     [Field ''API'' None False [YesNoGroup ''security-api''],
      Field ''Webhooks'' None False [YesNoGroup ''security-webhooks''],
      Field [CHR 0xD9, CHR 0x82, CHR 0xD8, CHR 0xA7, CHR 0xD8, CHR 0xB9, CHR 0xD8, CHR 0xAF,
        CHR 0xD8, CHR 0xA9, CHR 0x20, CHR 0xD8, CHR 0xA8, CHR 0xD9, CHR 0x8A, CHR 0xD8,
        CHR 0xA7, CHR 0xD9, CHR 0x86, CHR 0xD8, CHR 0xA7, CHR 0xD8, CHR 0xAA, CHR 0x20,
        CHR 0xD9, CHR 0x84, CHR 0xD9, CHR 0x84, CHR 0xD9, CHR 0x82, CHR 0xD8, CHR 0xB1,
        CHR 0xD8, CHR 0xA7, CHR 0xD8, CHR 0xA1, CHR 0xD8, CHR 0xA9, CHR 0x20, CHR 0xD9,
        CHR 0x81, CHR 0xD9, CHR 0x82, CHR 0xD8,
        CHR 0xB7] None False [YesNoGroup ''security-readonly-db''],
      Field ''SSO (Azure AD / Google / LDAP)'' None False [YesNoGroup ''security-sso''],
      Field [CHR 0xD9, CHR 0x82, CHR 0xD9, CHR 0x8A, CHR 0xD9, CHR 0x88, CHR 0xD8, CHR 0xAF,
        CHR 0x20, CHR 0xD8, CHR 0xA3, CHR 0xD9, CHR 0x85, CHR 0xD9, CHR 0x86, CHR 0xD9,
        CHR 0x8A, CHR 0xD8, CHR 0xA9, CHR 0x20, CHR 0x2F, CHR 0x20, CHR 0xD8, CHR 0xA7,
        CHR 0xD9, CHR 0x85, CHR 0xD8, CHR 0xAA, CHR 0xD8, CHR 0xAB, CHR 0xD8, CHR 0xA7,
        CHR 0xD9, CHR 0x84, CHR 0x20, CHR 0xD8, CHR 0xA5, CHR 0xD8, CHR 0xB6, CHR 0xD8,
        CHR 0xA7, CHR 0xD9, CHR 0x81, CHR 0xD9, CHR 0x8A, CHR 0xD8,
        CHR 0xA9] None False [Textarea ''security-constraints'']]"

definition section11 :: node where
  "section11 = FormSection [CHR 0x31, CHR 0x31, CHR 0x29, CHR 0x20, CHR 0xD8, CHR 0xA3,
    CHR 0xD8, CHR 0xB3, CHR 0xD8, CHR 0xA6, CHR 0xD9, CHR 0x84, CHR 0xD8, CHR 0xA9, CHR 0x20,
    CHR 0xD8, CHR 0xAA, CHR 0xD8, CHR 0xB3, CHR 0xD8, CHR 0xB9, CHR 0xD9, CHR 0x8A, CHR 0xD8,
    CHR 0xB1, CHR 0x20, CHR 0xD8, CHR 0xA3, CHR 0xD8, CHR 0xB3, CHR 0xD8, CHR 0xA7, CHR 0xD8,
    CHR 0xB3, CHR 0xD9, CHR 0x8A, CHR 0xD8, CHR 0xA9] None
     [Field [CHR 0xD9, CHR 0x87, CHR 0xD9, CHR 0x84, CHR 0x20, CHR 0xD8, CHR 0xAA, CHR 0xD8,
       CHR 0xB1, CHR 0xD9, CHR 0x8A, CHR 0xD8, CHR 0xAF, CHR 0xD9, CHR 0x88, CHR 0xD9, CHR 0x86,
       CHR 0x20, CHR 0xD8, CHR 0xA7, CHR 0xD9, CHR 0x84, CHR 0xD8, CHR 0xAD, CHR 0xD9, CHR 0x84,
       CHR 0x20, CHR 0x43, CHR 0x6C, CHR 0x6F, CHR 0x75, CHR 0x64, CHR 0x20, CHR 0xD8, CHR 0xA3,
       CHR 0xD9, CHR 0x85, CHR 0x20, CHR 0x4F, CHR 0x6E, CHR 0x2D, CHR 0x50, CHR 0x72, CHR 0x65,
       CHR 0x6D, CHR 0x69, CHR 0x73, CHR 0x65, CHR 0x20, CHR 0xD8, CHR 0xAF, CHR 0xD8, CHR 0xA7,
       CHR 0xD8, CHR 0xAE, CHR 0xD9, CHR 0x84, CHR 0x20, CHR 0xD8, CHR 0xA7, CHR 0xD9, CHR 0x84,
       CHR 0xD8, CHR 0xAC, CHR 0xD8, CHR 0xA7, CHR 0xD9, CHR 0x85, CHR 0xD8, CHR 0xB9, CHR 0xD8,
       CHR 0xA9, CHR 0xD8,
       CHR 0x9F] None False [Input ''pricing-deployment'' Text None None None],
      Field [CHR 0xD8, CHR 0xB9, CHR 0xD8, CHR 0xAF, CHR 0xD8, CHR 0xAF, CHR 0x20, CHR 0xD8,
        CHR 0xA7, CHR 0xD9, CHR 0x84, CHR 0xD9, CHR 0x81, CHR 0xD8, CHR 0xB1, CHR 0xD9,
        CHR 0x88, CHR 0xD8, CHR 0xB9, CHR 0x20, CHR 0x2F, CHR 0x20, CHR 0xD8, CHR 0xA7,
        CHR 0xD9, CHR 0x84, CHR 0xD8, CHR 0xAD, CHR 0xD8, CHR 0xB1, CHR 0xD9, CHR 0x85,
        CHR 0x20, CHR 0xD8, CHR 0xA7, CHR 0xD9, CHR 0x84, CHR 0xD8, CHR 0xAC, CHR 0xD8,
        CHR 0xA7, CHR 0xD9, CHR 0x85, CHR 0xD8, CHR 0xB9, CHR 0xD9, CHR 0x8A, CHR 0x20,
        CHR 0xD8, CHR 0xA5, CHR 0xD9, CHR 0x86, CHR 0x20, CHR 0xD9, CHR 0x88, CHR 0xD8,
        CHR 0xAC, CHR 0xD8,
        CHR 0xAF] None False [Input ''pricing-campuses'' Number None (Some 0) None],
      Field [CHR 0xD9, CHR 0x87, CHR 0xD9, CHR 0x84, CHR 0x20, CHR 0xD8, CHR 0xA7, CHR 0xD9,
        CHR 0x84, CHR 0xD9, CHR 0x85, CHR 0xD8, CHR 0xB7, CHR 0xD9, CHR 0x84, CHR 0xD9,
        CHR 0x88, CHR 0xD8, CHR 0xA8, CHR 0x20, CHR 0x32, CHR 0x34, CHR 0x2F, CHR 0x37,
        CHR 0xD8, CHR 0x9F] None False [YesNoGroup ''pricing-247''],
      Field [CHR 0xD9, CHR 0x86, CHR 0xD8, CHR 0xB3, CHR 0xD8, CHR 0xA8, CHR 0xD8, CHR 0xA9,
        CHR 0x20, CHR 0xD8, CHR 0xA7, CHR 0xD9, CHR 0x84, CHR 0xD8, CHR 0xAA, CHR 0xD8,
        CHR 0xAD, CHR 0xD9, CHR 0x88, CHR 0xD9, CHR 0x8A, CHR 0xD9, CHR 0x84, CHR 0x20,
        CHR 0xD9, CHR 0x84, CHR 0xD9, CHR 0x85, CHR 0xD9, CHR 0x88, CHR 0xD8, CHR 0xB8,
        CHR 0xD9, CHR 0x81, CHR 0x20, CHR 0x28, CHR 0x45, CHR 0x73, CHR 0x63, CHR 0x61,
        CHR 0x6C, CHR 0x61, CHR 0x74, CHR 0x69, CHR 0x6F, CHR 0x6E, CHR 0x29, CHR 0x20,
        CHR 0xD8, CHR 0xA7, CHR 0xD9, CHR 0x84, CHR 0xD9, CHR 0x85, CHR 0xD8, CHR 0xAA,
        CHR 0xD9, CHR 0x88, CHR 0xD9, CHR 0x82, CHR 0xD8, CHR 0xB9, CHR 0xD8, CHR 0xA9,
        CHR 0x20, CHR 0x25] None False
        [Input ''pricing-escalation-percent'' Number None (Some 0) (Some 100)],
      Field [CHR 0xD9, CHR 0x87, CHR 0xD9, CHR 0x84, CHR 0x20, CHR 0xD8, CHR 0xAA, CHR 0xD8,
        CHR 0xB1, CHR 0xD9, CHR 0x8A, CHR 0xD8, CHR 0xAF, CHR 0xD9, CHR 0x88, CHR 0xD9,
        CHR 0x86, CHR 0x20, CHR 0xD8, CHR 0xAA, CHR 0xD8, CHR 0xB3, CHR 0xD8, CHR 0xAC,
        CHR 0xD9, CHR 0x8A, CHR 0xD9, CHR 0x84, CHR 0x20, CHR 0xD8, CHR 0xA7, CHR 0xD9,
        CHR 0x84, CHR 0xD9, CHR 0x85, CHR 0xD9, CHR 0x83, CHR 0xD8, CHR 0xA7, CHR 0xD9,
        CHR 0x84, CHR 0xD9, CHR 0x85, CHR 0xD8, CHR 0xA7, CHR 0xD8, CHR 0xAA, CHR 0x20,
        CHR 0xD9, CHR 0x88, CHR 0xD8, CHR 0xA7, CHR 0xD9, CHR 0x84, CHR 0xD8, CHR 0xA7,
        CHR 0xD8, CHR 0xAD, CHR 0xD8, CHR 0xAA, CHR 0xD9, CHR 0x81, CHR 0xD8, CHR 0xA7,
        CHR 0xD8, CHR 0xB8, CHR 0x20, CHR 0xD8, CHR 0xA8, CHR 0xD9, CHR 0x87, CHR 0xD8,
        CHR 0xA7, CHR 0xD8, CHR 0x9F, CHR 0x20, CHR 0x28, CHR 0xD8, CHR 0xA7, CHR 0xD8,
        CHR 0xB0, CHR 0xD9, CHR 0x83, CHR 0xD8, CHR 0xB1, CHR 0x20, CHR 0xD8, CHR 0xA7,
        CHR 0xD9, CHR 0x84, CHR 0xD9, CHR 0x85, CHR 0xD8, CHR 0xAF, CHR 0xD8, CHR 0xA9,
        CHR 0x29] None False [Input ''pricing-recording'' Text None None None],
      Field [CHR 0xD9, CHR 0x87, CHR 0xD9, CHR 0x84, CHR 0x20, CHR 0xD9, CHR 0x85, CHR 0xD8,
        CHR 0xB7, CHR 0xD9, CHR 0x84, CHR 0xD9, CHR 0x88, CHR 0xD8, CHR 0xA8, CHR 0x20,
        CHR 0xD9, CHR 0x84, CHR 0xD9, CHR 0x88, CHR 0xD8, CHR 0xAD, CHR 0xD8, CHR 0xA9,
        CHR 0x20, CHR 0xD8, CHR 0xAA, CHR 0xD8, CHR 0xAD, CHR 0xD9, CHR 0x83, CHR 0xD9,
        CHR 0x85, CHR 0x20, CHR 0xD9, CHR 0x88, CHR 0xD8, CHR 0xAA, CHR 0xD9, CHR 0x82,
        CHR 0xD8, CHR 0xA7, CHR 0xD8, CHR 0xB1, CHR 0xD9, CHR 0x8A, CHR 0xD8, CHR 0xB1,
        CHR 0xD8, CHR 0x9F, CHR 0x20, CHR 0x28, CHR 0xD9, CHR 0x8A, CHR 0xD9, CHR 0x88,
        CHR 0xD9, CHR 0x85, CHR 0xD9, CHR 0x8A, CHR 0x2F, CHR 0xD8, CHR 0xA3, CHR 0xD8,
        CHR 0xB3, CHR 0xD8, CHR 0xA8, CHR 0xD9, CHR 0x88, CHR 0xD8, CHR 0xB9, CHR 0xD9,
        CHR 0x8A, CHR 0x2F, CHR 0xD8, CHR 0xB4, CHR 0xD9, CHR 0x87, CHR 0xD8, CHR 0xB1,
        CHR 0xD9, CHR 0x8A, CHR 0x20, CHR 0x2B, CHR 0x20, CHR 0x4B, CHR 0x50, CHR 0x49,
        CHR 0x73, CHR 0x29] None False [YesNoGroup ''pricing-dashboard''],
      Field [CHR 0xD9, CHR 0x87, CHR 0xD9, CHR 0x84, CHR 0x20, CHR 0xD9, CHR 0x85, CHR 0xD8,
        CHR 0xB7, CHR 0xD9, CHR 0x84, CHR 0xD9, CHR 0x88, CHR 0xD8, CHR 0xA8, CHR 0x20,
        CHR 0x53, CHR 0x4C, CHR 0x41, CHR 0xD8, CHR 0x9F, CHR 0x20, CHR 0x28, CHR 0xD9,
        CHR 0x85, CHR 0xD8, CHR 0xAB, CHR 0xD9, CHR 0x84, CHR 0xD8, CHR 0xA7, CHR 0xD9,
        CHR 0x8B, CHR 0x20, CHR 0x39, CHR 0x39, CHR 0x2E, CHR 0x39, CHR 0x25,
        CHR 0x29] None False [YesNoGroup ''pricing-sla'']]"

definition section12 :: node where
  "section12 = FormSection [CHR 0x31, CHR 0x32, CHR 0x29, CHR 0x20, CHR 0xD8, CHR 0xAA,
    CHR 0xD8, CHR 0xAC, CHR 0xD8, CHR 0xB1, CHR 0xD8, CHR 0xA8, CHR 0xD8, CHR 0xA9, CHR 0x20,
    CHR 0xD8, CHR 0xA7, CHR 0xD9, CHR 0x84, CHR 0xD9, CHR 0x85, CHR 0xD8, CHR 0xB3, CHR 0xD8,
    CHR 0xAA, CHR 0xD8, CHR 0xAE, CHR 0xD8, CHR 0xAF, CHR 0xD9, CHR 0x85, CHR 0x20, CHR 0x28,
    CHR 0x56, CHR 0x6F, CHR 0x69, CHR 0x63, CHR 0x65, CHR 0x20, CHR 0x26, CHR 0x20, CHR 0x46,
    CHR 0x6C, CHR 0x6F, CHR 0x77, CHR 0x29] None
     [Field [CHR 0xD9, CHR 0x87, CHR 0xD9, CHR 0x84, CHR 0x20, CHR 0xD9, CHR 0x8A, CHR 0xD9,
       CHR 0x88, CHR 0xD8, CHR 0xAC, CHR 0xD8, CHR 0xAF, CHR 0x20, CHR 0xD8, CHR 0xB3, CHR 0xD9,
       CHR 0x83, CHR 0xD8, CHR 0xB1, CHR 0xD8, CHR 0xA8, CHR 0xD8, CHR 0xAA, CHR 0x20, CHR 0xD8,
       CHR 0xAA, CHR 0xD8, CHR 0xB1, CHR 0xD8, CHR 0xAD, CHR 0xD9, CHR 0x8A, CHR 0xD8, CHR 0xA8,
       CHR 0xD9, CHR 0x8A, CHR 0x20, CHR 0xD8, CHR 0xB1, CHR 0xD8, CHR 0xB3, CHR 0xD9, CHR 0x85,
       CHR 0xD9, CHR 0x8A, CHR 0xD8, CHR 0x9F] None False [YesNoGroup ''ux-greeting-script''],
      Field [CHR 0xD9, CHR 0x86, CHR 0xD9, CHR 0x88, CHR 0xD8, CHR 0xB9, CHR 0x20, CHR 0xD8,
        CHR 0xA7, CHR 0xD9, CHR 0x84, CHR 0xD8, CHR 0xB5, CHR 0xD9, CHR 0x88, CHR 0xD8,
        CHR 0xAA, CHR 0x20, CHR 0xD8, CHR 0xA7, CHR 0xD9, CHR 0x84, CHR 0xD9, CHR 0x85,
        CHR 0xD8, CHR 0xB7, CHR 0xD9, CHR 0x84, CHR 0xD9, CHR 0x88, CHR 0xD8,
        CHR 0xA8] None False [Input ''ux-voice-type'' Text None None None],
      Field [CHR 0xD8, CHR 0xAE, CHR 0xD9, CHR 0x8A, CHR 0xD8, CHR 0xA7, CHR 0xD8, CHR 0xB1,
        CHR 0xD8, CHR 0xA7, CHR 0xD8, CHR 0xAA, CHR 0x20, CHR 0x49, CHR 0x56, CHR 0x52,
        CHR 0x20, CHR 0xD8, CHR 0xAA, CHR 0xD9, CHR 0x82, CHR 0xD9, CHR 0x84, CHR 0xD9,
        CHR 0x8A, CHR 0xD8, CHR 0xAF, CHR 0xD9, CHR 0x8A, CHR 0xD8, CHR 0xA9, CHR 0x20,
        CHR 0x2B, CHR 0x20, CHR 0xD8, CHR 0xB0, CHR 0xD9, CHR 0x83, CHR 0xD8, CHR 0xA7,
        CHR 0xD8, CHR 0xA1, CHR 0x20, CHR 0xD8, CHR 0xA7, CHR 0xD8, CHR 0xB5, CHR 0xD8,
        CHR 0xB7, CHR 0xD9, CHR 0x86, CHR 0xD8, CHR 0xA7, CHR 0xD8, CHR 0xB9, CHR 0xD9,
        CHR 0x8A, CHR 0x20, CHR 0xD8, CHR 0xA3, CHR 0xD9, CHR 0x85, CHR 0x20, CHR 0xD8,
        CHR 0xB0, CHR 0xD9, CHR 0x83, CHR 0xD8, CHR 0xA7, CHR 0xD8, CHR 0xA1, CHR 0x20,
        CHR 0xD9, CHR 0x81, CHR 0xD9, CHR 0x82, CHR 0xD8, CHR 0xB7, CHR 0xD8,
        CHR 0x9F] None False [Input ''ux-ivr-type'' Text None None None],
      Field [CHR 0xD9, CHR 0x87, CHR 0xD9, CHR 0x84, CHR 0x20, CHR 0xD8, CHR 0xAA, CHR 0xD8,
        CHR 0xB1, CHR 0xD9, CHR 0x8A, CHR 0xD8, CHR 0xAF, CHR 0xD9, CHR 0x88, CHR 0xD9,
        CHR 0x86, CHR 0x20, CHR 0xD8, CHR 0xB1, CHR 0xD9, CHR 0x82, CHR 0xD9, CHR 0x85,
        CHR 0x20, CHR 0xD8, CHR 0xAA, CHR 0xD8, CHR 0xB0, CHR 0xD9, CHR 0x83, CHR 0xD8,
        CHR 0xB1, CHR 0xD8, CHR 0xA9, CHR 0x20, CHR 0xD8, CHR 0xAA, CHR 0xD9, CHR 0x84,
        CHR 0xD9, CHR 0x82, CHR 0xD8, CHR 0xA7, CHR 0xD8, CHR 0xA6, CHR 0xD9, CHR 0x8A,
        CHR 0x20, CHR 0xD9, CHR 0x84, CHR 0xD9, CHR 0x84, CHR 0xD8, CHR 0xB4, CHR 0xD9,
        CHR 0x83, CHR 0xD8, CHR 0xA7, CHR 0xD9, CHR 0x88, CHR 0xD9, CHR 0x89, CHR 0x20,
        CHR 0xD9, CHR 0x88, CHR 0xD8, CHR 0xA7, CHR 0xD9, CHR 0x84, CHR 0xD9, CHR 0x85,
        CHR 0xD8, CHR 0xAA, CHR 0xD8, CHR 0xA7, CHR 0xD8, CHR 0xA8, CHR 0xD8, CHR 0xB9,
        CHR 0xD8, CHR 0xA9, CHR 0xD8, CHR 0x9F] None False [YesNoGroup ''ux-ticket-number'']]"

definition section13 :: node where
  "section13 = FormSection [CHR 0x31, CHR 0x33, CHR 0x29, CHR 0x20, CHR 0xD9, CHR 0x85,
    CHR 0xD9, CHR 0x84, CHR 0xD8, CHR 0xA7, CHR 0xD8, CHR 0xAD, CHR 0xD8, CHR 0xB8, CHR 0xD8,
    CHR 0xA7, CHR 0xD8, CHR 0xAA, CHR 0x20, CHR 0xD8, CHR 0xA5, CHR 0xD8, CHR 0xB6, CHR 0xD8,
    CHR 0xA7, CHR 0xD9, CHR 0x81, CHR 0xD9, CHR 0x8A, CHR 0xD8, CHR 0xA9] None
     [Field [CHR 0xD8, CHR 0xA3, CHR 0xD9, CHR 0x8A, CHR 0x20, CHR 0xD9, CHR 0x85, CHR 0xD9,
       CHR 0x84, CHR 0xD8, CHR 0xA7, CHR 0xD8, CHR 0xAD, CHR 0xD8, CHR 0xB8, CHR 0xD8, CHR 0xA7,
       CHR 0xD8, CHR 0xAA, CHR 0x20, CHR 0xD8, CHR 0xA3, CHR 0xD9, CHR 0x88, CHR 0x20, CHR 0xD9,
       CHR 0x85, CHR 0xD8, CHR 0xAA, CHR 0xD8, CHR 0xB7, CHR 0xD9, CHR 0x84, CHR 0xD8, CHR 0xA8,
       CHR 0xD8, CHR 0xA7, CHR 0xD8, CHR 0xAA, CHR 0x20, CHR 0xD8, CHR 0xA5, CHR 0xD8, CHR 0xB6,
       CHR 0xD8, CHR 0xA7, CHR 0xD9, CHR 0x81, CHR 0xD9, CHR 0x8A, CHR 0xD8,
       CHR 0xA9] None False [Textarea ''additional-notes'']]"

definition UniversityIntakeForm :: form where
  "UniversityIntakeForm = \<lparr>dir = Rtl, children =
     [section1, section2, section3, section4, section5, section6, section7, section8,
      section9, section10, section11, section12, section13,
      Button [CHR 0xD8, CHR 0xAA, CHR 0xD8, CHR 0xAD, CHR 0xD9, CHR 0x85, CHR 0xD9, CHR 0x8A,
        CHR 0xD9, CHR 0x84, CHR 0x20, CHR 0xD9, CHR 0x83, CHR 0xD9, CHR 0x86, CHR 0xD9,
        CHR 0x85, CHR 0xD9, CHR 0x88, CHR 0xD8, CHR 0xB0, CHR 0xD8, CHR 0xAC, CHR 0x20,
        CHR 0x50, CHR 0x44, CHR 0x46]]\<rparr>"

subsection \<open>The English variant\<close>

definition YesNoGroupEn :: "string \<Rightarrow> node" where
  "YesNoGroupEn name = Div
     [Caption ''Yes'' [Input name Radio (Some ''yes'') None None],
      Caption ''No'' [Input name Radio (Some ''no'') None None]]"

definition projectGoals_optionsEn :: "string list" where
  "projectGoals_optionsEn =
     [''Reduce staff workload'',
      ''Improve service quality'',
      ''24/7 availability'',
      ''Reduce waiting time'',
      ''Standardize responses'']"

definition department_optionsEn :: "string list" where
  "department_optionsEn =
     [''Admissions'',
      ''Finance'',
      ''Student Affairs'',
      ''Graduate Studies'',
      ''Public Relations'',
      ''Community Service'',
      ''HR / Staff Affairs'',
      ''IT'',
      ''Library'',
      ''Examinations'',
      ''Facilities'',
      ''Security & Safety'',
      ''Clinic / Medical Center'',
      ''Advisory Center'',
      ''Language Center'',
      ''Training Center'',
      ''Career Center'',
      ''Innovation Center'',
      ''Quality Center'',
      ''Research Center'']"

definition language_optionsEn :: "string list" where
  "language_optionsEn =
     [''Arabic'',
      ''English'',
      ''French'',
      ''Turkish'',
      ''Hindi'',
      ''Urdu'']"

definition channel_optionsEn :: "string list" where
  "channel_optionsEn =
     [''Voice only (smart IVR)'',
      ''Voice + SMS'',
      ''Voice + WhatsApp'',
      ''Voice + Email'',
      ''Voice + Web portal / Chat widget'']"

definition scenario_optionsEn :: "string list" where
  "scenario_optionsEn =
     [''Fees / Payments / Overdues'',
      ''Course registration / Add & Drop'',
      ''Admissions / Application status'',
      ''Follow-up on a request / ticket'',
      ''Certificates / Letters'',
      ''Appointments (clinic / advisory / interviews)'',
      ''Exams / schedules / halls'',
      ''Complaints / escalation'',
      ''Technical support (L1)'']"

definition kb_optionsEn :: "string list" where
  "kb_optionsEn =
     [''FAQ'',
      ''Student handbook'',
      ''Academic calendar'',
      ''Admission requirements'',
      ''Tuition fees'',
      ''Academic programs'',
      ''Policies and regulations'',
      ''Staff directory'',
      ''System links'']"

definition section1En :: node where
  "section1En = FormSection ''1) General Information'' None
     [Field ''University name'' None True [Input ''universityName'' Text None None None],
      Field ''City / Country'' None True [Input ''cityCountry'' Text None None None],
      Field ''Contact person name'' None True [Input ''contactName'' Text None None None],
      Field ''Job title'' None True [Input ''jobTitle'' Text None None None],
      Field ''Phone number'' None True [Input ''phone'' Tel None None None],
      Field ''Email'' None True [Input ''email'' Email None None None],
      Field ''Best time to contact'' None False [Input ''bestTimeToContact'' Text None None None],
      Field ''Deadline to receive proposal (date)'' None False [Input ''deadline'' Date None None None]]"

definition section2En :: node where
  "section2En = FormSection ''2) Project Objective'' None
     [Field ''What is the primary objective?''
        (Some ''You can select more than one objective.'') False
        (map (\<lambda>goal. Caption goal [Input ''projectGoals'' Checkbox (Some goal) None None])
           projectGoals_optionsEn),
      Field ''Do you want to fully replace the call center or add an AI assistant beside agents?'' None False
        [Caption ''Full call center replacement''
           [Input ''callcenterScope'' Radio (Some ''full-replacement'') None None],
         Caption ''AI assistant beside agents''
           [Input ''callcenterScope'' Radio (Some ''assistant'') None None]],
      Field ''What is the scope of phase one (MVP)?''
        (Some ''Example: Admissions + Finance only, or selected departments.'') False
        [Textarea ''mvpScope'']]"

definition section3En :: node where
  "section3En = FormSection ''3) Required Departments + Call Volume per Department''
     (Some ''Please enter the average daily calls per department and the percentage of calls expected outside working hours.'')
     (map (\<lambda>dept. Caption dept
             [Caption ''Calls / day''
                [Input (''dept-'' @ dept @ ''-daily'') Number None (Some 0) None],
              Caption ''After-hours %''
                [Input (''dept-'' @ dept @ ''-offhours'') Number None (Some 0) (Some 100)]])
        department_optionsEn
      @ [Field ''Other departments (please list)'' None False [Textarea ''otherDepartments'']])"

definition section4En :: node where
  "section4En = FormSection ''4) Overall Call Volume'' None
     [Field ''Average total daily calls (all university)'' None False [Input ''totalDailyCalls'' Number None (Some 0) None],
      Field ''Peak daily calls (max in a single day)'' None False [Input ''peakDailyCalls'' Number None (Some 0) None],
      Field ''Peak hours'' None False [Input ''peakHours'' Text None None None],
      Field ''Current number of call center agents'' None False [Input ''currentAgents'' Number None (Some 0) None],
      Field ''Average handling time per call (if known) - minutes'' None False [Input ''avgCallDuration'' Number None (Some 0) None],
      Field ''Missed / abandoned calls (if known) %'' None False
        [Input ''missedCallsPercent'' Number None (Some 0) (Some 100)]]"

definition section5En :: node where
  "section5En = FormSection ''5) Required Languages'' None
     (map (\<lambda>lang. Field (lang @ '' (%)'') None False
             [Input (''lang-'' @ lang) Number None (Some 0) (Some 100)])
        language_optionsEn
      @ [Field ''Other languages'' None False
           [Input ''otherLanguageName'' Text None None None,
            Input ''otherLanguagePercent'' Number None (Some 0) (Some 100)]])"

definition section6En :: node where
  "section6En = FormSection ''6) Required Channels'' None
     [Field ''Preferred channels'' None False
        (map (\<lambda>channel. Caption channel
                [Input ''channels'' Checkbox (Some channel) None None])
           channel_optionsEn
         @ [Caption ''Other'' [Input ''channelsOther'' Text None None None]]),
      Field ''Do you prefer a single unified number or multiple numbers per department?'' None False [Input ''numbersPreference'' Text None None None]]"

definition section7En :: node where
  "section7En = FormSection ''7) Call Scenarios (Use Cases)''
     (Some ''Specify the scenarios you need, whether identity verification is required, and list key questions when possible.'')
     [Field ''Required scenarios + whether identity verification is needed'' None False
        (map (\<lambda>scenario. Div
                [Caption scenario [Input ''scenarios'' Checkbox (Some scenario) None None],
                 Caption ''Requires identity verification?''
                   [YesNoGroupEn (''scenario-'' @ scenario @ ''-identity'')]])
           scenario_optionsEn
         @ [Caption ''Other scenarios'' [Textarea ''otherScenarios'']]),
      Field ''For each scenario: is the answer general information or does it require student/staff data? What are the top 20 questions?'' None False [Textarea ''scenariosDetails'']]"

definition section8En :: node where
  "section8En = FormSection ''8) Available Data for Knowledge Base'' None
     (map (\<lambda>item. Field item None False [YesNoGroupEn (''kb-'' @ item)]) kb_optionsEn
      @ [Field ''Files (PDF/Excel/Word)'' None False
           [YesNoGroupEn ''kb-files-exist'',
            Input ''kb-files-count'' Number None (Some 0) None],
         Field ''Other sources'' None False [Textarea ''kb-other''],
         Field ''Content language and update frequency'' None False [Input ''kb-languageUpdate'' Text None None None]])"

definition section9En :: node where
  "section9En = FormSection ''9) Existing University Systems (Integrations)'' None
     [Field ''Academic systems'' None False [Input ''systems-academic'' Text None None None],
      Field ''Call center / PBX systems'' None False [Input ''systems-callcenter'' Text None None None],
      Field ''CRM'' None False [Input ''systems-crm'' Text None None None],
      Field ''Additional systems (LMS / ERP / Student portal...)'' None False [Textarea ''systems-other'']]"

definition section10En :: node where
  "section10En = FormSection ''10) Access and Security Constraints'' None
     [Field ''API access'' None False [YesNoGroupEn ''security-api''],
      Field ''Webhooks'' None False [YesNoGroupEn ''security-webhooks''],
      Field ''Read-only database'' None False [YesNoGroupEn ''security-readonly-db''],
      Field ''SSO (Azure AD / Google / LDAP)'' None False [YesNoGroupEn ''security-sso''],
      Field ''Additional security / compliance requirements'' None False [Textarea ''security-constraints'']]"

definition section11En :: node where
  "section11En = FormSection ''11) Basic Pricing Questions'' None
     [Field ''Preferred deployment: Cloud or on-premise (inside university)?'' None False [Input ''pricing-deployment'' Text None None None],
      Field ''Number of campuses / branches (if any)'' None False [Input ''pricing-campuses'' Number None (Some 0) None],
      Field ''Is 24/7 operation required?'' None False [YesNoGroupEn ''pricing-247''],
      Field ''Expected escalation rate to human agents %'' None False
        [Input ''pricing-escalation-percent'' Number None (Some 0) (Some 100)],
      Field ''Do you require call recording? For how long?'' None False [Input ''pricing-recording'' Text None None None],
      Field ''Do you need dashboard and reports? (daily/weekly/monthly + KPIs)'' None False [YesNoGroupEn ''pricing-dashboard''],
      Field ''Do you require an SLA? (e.g. 99.9%)'' None False [YesNoGroupEn ''pricing-sla'']]"

definition section12En :: node where
  "section12En = FormSection ''12) User Experience (Voice & Flow)'' None
     [Field ''Do you already have an official greeting script?'' None False [YesNoGroupEn ''ux-greeting-script''],
      Field ''Preferred voice type'' None False [Input ''ux-voice-type'' Text None None None],
      Field ''Traditional IVR options + AI, or AI only?'' None False [Input ''ux-ivr-type'' Text None None None],
      Field ''Do you want automatic ticket numbers for complaints and follow-up?'' None False [YesNoGroupEn ''ux-ticket-number'']]"

definition section13En :: node where
  "section13En = FormSection ''13) Additional Notes'' None
     [Field ''Any additional notes or requirements'' None False [Textarea ''additional-notes'']]"

definition UniversityIntakeFormEn :: form where
  "UniversityIntakeFormEn = \<lparr>dir = Ltr, children =
     [section1En, section2En, section3En, section4En, section5En, section6En, section7En, section8En,
      section9En, section10En, section11En, section12En, section13En,
      Button ''Download as PDF form'']\<rparr>"

section \<open>The mounted form and the data read from it\<close>

text \<open>
  The inputs are uncontrolled: their state lives in the document, not in React.  A mounted
  form is the list of its controls in document order, each with its current value and, for
  a checkbox or radio button, whether it is checked.
\<close>

datatype kind = KInput input_type | KTextarea

record control =
  c_name :: string
  c_kind :: kind
  c_value :: string
  c_checked :: bool

definition is_checkable :: "control \<Rightarrow> bool" where
  "is_checkable c = (c_kind c = KInput Checkbox \<or> c_kind c = KInput Radio)"

definition default_value :: "input_type \<Rightarrow> string option \<Rightarrow> string" where
  \<comment> \<open>the value of a freshly rendered input: its \<^verbatim>\<open>value\<close> attribute; without one a
      checkbox or radio button has the value \<^verbatim>\<open>on\<close> and any other input is empty\<close>
  "default_value ty v =
     (case v of Some s \<Rightarrow> s
      | None \<Rightarrow> if ty = Checkbox \<or> ty = Radio then ''on'' else [])"

fun controls :: "node \<Rightarrow> control list" where
  "controls (FormSection title description ns) = concat (map controls ns)"
| "controls (Field label hint required ns) = concat (map controls ns)"
| "controls (Caption t ns) = concat (map controls ns)"
| "controls (Div ns) = concat (map controls ns)"
| "controls (Input name ty v mn mx) =
     [\<lparr>c_name = name, c_kind = KInput ty, c_value = default_value ty v, c_checked = False\<rparr>]"
| "controls (Textarea name) =
     [\<lparr>c_name = name, c_kind = KTextarea, c_value = [], c_checked = False\<rparr>]"
| "controls (Button t) = []"

definition mount :: "form \<Rightarrow> control list" where
  "mount f = concat (map controls (children f))"

subsection \<open>What the user can do to a mounted form\<close>

definition type_into :: "string \<Rightarrow> string \<Rightarrow> control list \<Rightarrow> control list" where
  \<comment> \<open>the user enters the text \<open>s\<close> into the text-like control named \<open>n\<close>\<close>
  "type_into n s cs =
     map (\<lambda>c. if c_name c = n \<and> \<not> is_checkable c then c\<lparr>c_value := s\<rparr> else c) cs"

definition toggle_checkbox :: "string \<Rightarrow> string \<Rightarrow> control list \<Rightarrow> control list" where
  \<comment> \<open>the user clicks the checkbox named \<open>n\<close> whose option is \<open>v\<close>\<close>
  "toggle_checkbox n v cs =
     map (\<lambda>c. if c_kind c = KInput Checkbox \<and> c_name c = n \<and> c_value c = v
              then c\<lparr>c_checked := \<not> c_checked c\<rparr> else c) cs"

definition is_radio :: "string \<Rightarrow> control \<Rightarrow> bool" where
  "is_radio n c = (c_kind c = KInput Radio \<and> c_name c = n)"

definition choose_radio :: "string \<Rightarrow> string \<Rightarrow> control list \<Rightarrow> control list" where
  \<comment> \<open>the user clicks the radio button named \<open>n\<close> whose value is \<open>v\<close>: it becomes
      checked and every other radio button of that name in the form becomes unchecked\<close>
  "choose_radio n v cs =
     (if list_ex (\<lambda>c. is_radio n c \<and> c_value c = v) cs
      then map (\<lambda>c. if is_radio n c then c\<lparr>c_checked := (c_value c = v)\<rparr> else c) cs
      else cs)"

datatype user_action =
    TypeInto string string
  | ToggleCheckbox string string
  | ChooseRadio string string

fun act :: "user_action \<Rightarrow> control list \<Rightarrow> control list" where
  "act (TypeInto n s) cs = type_into n s cs"
| "act (ToggleCheckbox n v) cs = toggle_checkbox n v cs"
| "act (ChooseRadio n v) cs = choose_radio n v cs"

text \<open>
  \<open>filled f cs\<close>: the controls \<open>cs\<close> are those of the form \<open>f\<close> after some input by the
  user.  Names and kinds are those of the freshly mounted form; the value of a checkbox or
  radio button cannot be edited; what was typed and what is checked is arbitrary.
\<close>

definition same_control :: "control \<Rightarrow> control \<Rightarrow> bool" where
  "same_control c0 c =
     (c_name c = c_name c0 \<and> c_kind c = c_kind c0 \<and>
      (if is_checkable c0 then c_value c = c_value c0 else True))"

definition filled :: "form \<Rightarrow> control list \<Rightarrow> bool" where
  "filled f cs = list_all2 same_control (mount f) cs"

subsection \<open>\<^verbatim>\<open>new FormData(form)\<close>\<close>

text \<open>
  The constructor builds the entry list of the form as the HTML standard prescribes:
  the controls in document order, leaving out a control without a name and a checkbox or
  radio button that is not checked; an entry is the control's name and its value.  (The
  forms have no disabled control, no \<^verbatim>\<open>select\<close>, no file input and no submit button.)
\<close>

definition in_entry_list :: "control \<Rightarrow> bool" where
  "in_entry_list c = (c_name c \<noteq> [] \<and> (if is_checkable c then c_checked c else True))"

definition FormData :: "control list \<Rightarrow> (string \<times> string) list" where
  "FormData cs = map (\<lambda>c. (c_name c, c_value c)) (filter in_entry_list cs)"

subsection \<open>\<^verbatim>\<open>handleSubmit\<close>\<close>

text \<open>
  The record \<^verbatim>\<open>data\<close> is an ordinary object created by \<^verbatim>\<open>{}\<close>: its own properties,
  a string each, in insertion order.  \<^verbatim>\<open>data[key] = value\<close> replaces the value of a
  property the object already has and adds the property otherwise; for the key
  \<^verbatim>\<open>__proto__\<close> it runs the setter inherited from \<^verbatim>\<open>Object.prototype\<close>, which ignores a
  string, so the object is unchanged.
\<close>

type_synonym js_object = "(string \<times> string) list"

definition assign :: "string \<Rightarrow> string \<Rightarrow> js_object \<Rightarrow> js_object" where
  "assign key v data = (if key = ''__proto__'' then data else AList.update key v data)"

record submit_event =
  currentTarget :: "control list"
  defaultPrevented :: bool

type_synonym console = "(string \<times> js_object) list"

definition handleSubmit :: "submit_event \<Rightarrow> console \<Rightarrow> submit_event \<times> console" where
  "handleSubmit event log =
     (let formData = FormData (currentTarget event);
          data = fold (\<lambda>(key, v) data. assign key v data) formData []
      in (event\<lparr>defaultPrevented := True\<rparr>, log @ [(''Submitted intake form:'', data)]))"

definition handleSubmitEn :: "submit_event \<Rightarrow> console \<Rightarrow> submit_event \<times> console" where
  "handleSubmitEn event log =
     (let formData = FormData (currentTarget event);
          data = fold (\<lambda>(key, v) data. assign key v data) formData []
      in (event\<lparr>defaultPrevented := True\<rparr>, log @ [(''Submitted intake form (EN):'', data)]))"

subsection \<open>\<^verbatim>\<open>handlePrintAsPdf\<close>\<close>

text \<open>
  A host environment either has no global \<^verbatim>\<open>window\<close> (server-side rendering) or has
  one.  The type \<^verbatim>\<open>Window\<close> promises a method \<^verbatim>\<open>print()\<close> that opens the print
  dialog and returns nothing, but types are erased at run time: a host may define
  \<^verbatim>\<open>window\<close> without a callable \<^verbatim>\<open>print\<close>.  Evaluating the identifier
  \<^verbatim>\<open>window\<close> where there is none is a \<^verbatim>\<open>ReferenceError\<close> (\<^verbatim>\<open>typeof window\<close> is
  not); calling \<^verbatim>\<open>window.print()\<close> where \<^verbatim>\<open>print\<close> is not a function is a
  \<^verbatim>\<open>TypeError\<close>.
\<close>

datatype js_error = Error string | ReferenceError string | TypeError string

record host =
  window_defined :: bool
  print_callable :: bool
  print_dialogs :: nat

definition typeof_window :: "host \<Rightarrow> string" where
  "typeof_window h = (if window_defined h then ''object'' else ''undefined'')"

definition window_print :: "host \<Rightarrow> js_error + host" where
  \<comment> \<open>evaluating \<^verbatim>\<open>window.print()\<close>\<close>
  "window_print h =
     (if \<not> window_defined h then Inl (ReferenceError ''window is not defined'')
      else if \<not> print_callable h then Inl (TypeError ''window.print is not a function'')
      else Inr (h\<lparr>print_dialogs := Suc (print_dialogs h)\<rparr>))"

definition handlePrintAsPdf :: "host \<Rightarrow> js_error + host" where
  "handlePrintAsPdf h =
     (if typeof_window h \<noteq> ''undefined'' then window_print h else Inr h)"

definition handlePrintAsPdfEn :: "host \<Rightarrow> js_error + host" where
  "handlePrintAsPdfEn h =
     (if typeof_window h \<noteq> ''undefined'' then window_print h else Inr h)"

section \<open>The language context\<close>

datatype AppLanguage = Ar | En

text \<open>
  The provider keeps the language in a \<^verbatim>\<open>useState\<close> cell.  The setter of the cell is
  modelled by its effect on the cell: \<open>setLanguage v l old\<close> is the content of the cell after
  \<^verbatim>\<open>setLanguage(l)\<close>.
\<close>

record LanguageContextValue =
  language :: AppLanguage
  setLanguage :: "AppLanguage \<Rightarrow> AppLanguage \<Rightarrow> AppLanguage"

definition initial_language :: AppLanguage where
  \<comment> \<open>\<^verbatim>\<open>useState<AppLanguage>('ar')\<close>\<close>
  "initial_language = Ar"

definition LanguageProvider :: "AppLanguage \<Rightarrow> LanguageContextValue" where
  \<comment> \<open>the value the provider passes down when its cell holds \<open>cell\<close>\<close>
  "LanguageProvider cell = \<lparr>language = cell, setLanguage = (\<lambda>l old. l)\<rparr>"

definition useContext :: "AppLanguage option \<Rightarrow> LanguageContextValue option" where
  \<comment> \<open>\<open>None\<close>: no provider encloses the caller, the context has its default
      \<^verbatim>\<open>undefined\<close>; \<open>Some cell\<close>: the nearest provider's cell holds \<open>cell\<close>\<close>
  "useContext scope = map_option LanguageProvider scope"

definition useLanguage :: "AppLanguage option \<Rightarrow> js_error + LanguageContextValue" where
  "useLanguage scope =
     (let ctx = useContext scope
      in case ctx of
           None \<Rightarrow> Inl (Error ''useLanguage must be used within a LanguageProvider'')
         | Some v \<Rightarrow> Inr v)"

section \<open>The home page and the application\<close>

record home_view =
  button_ar :: "string \<times> (AppLanguage \<Rightarrow> AppLanguage)"
  button_en :: "string \<times> (AppLanguage \<Rightarrow> AppLanguage)"
  heading :: string
  forms :: "form list"

text \<open>
  \<open>Home scope\<close> is what the page renders: the two buttons of the switcher, each with its
  caption and the effect of its click handler on the provider's cell, the heading, and the
  intake forms it mounts.
\<close>

definition Home :: "AppLanguage option \<Rightarrow> js_error + home_view" where
  "Home scope =
     (case useLanguage scope of
        Inl e \<Rightarrow> Inl e
      | Inr ctx \<Rightarrow>
          (let isArabic = (language ctx = Ar)
           in Inr \<lparr>button_ar = ([CHR 0xD8, CHR 0xB9, CHR 0xD8, CHR 0xB1, CHR 0xD8,
             CHR 0xA8, CHR 0xD9, CHR 0x8A], setLanguage ctx Ar),
                   button_en = (''English'', setLanguage ctx En),
                   heading = (if isArabic
                      then [CHR 0xD9, CHR 0x86, CHR 0xD9, CHR 0x85, CHR 0xD9, CHR 0x88,
                        CHR 0xD8, CHR 0xB0, CHR 0xD8, CHR 0xAC, CHR 0x20, CHR 0xD8, CHR 0xAC,
                        CHR 0xD9, CHR 0x85, CHR 0xD8, CHR 0xB9, CHR 0x20, CHR 0xD9, CHR 0x85,
                        CHR 0xD8, CHR 0xB9, CHR 0xD9, CHR 0x84, CHR 0xD9, CHR 0x88, CHR 0xD9,
                        CHR 0x85, CHR 0xD8, CHR 0xA7, CHR 0xD8, CHR 0xAA, CHR 0x20, CHR 0xD9,
                        CHR 0x85, CHR 0xD8, CHR 0xB4, CHR 0xD8, CHR 0xB1, CHR 0xD9, CHR 0x88,
                        CHR 0xD8, CHR 0xB9, CHR 0x20, CHR 0xD8, CHR 0xA7, CHR 0xD9, CHR 0x84,
                        CHR 0xD9, CHR 0x85, CHR 0xD8, CHR 0xB3, CHR 0xD8, CHR 0xA7, CHR 0xD8,
                        CHR 0xB9, CHR 0xD8, CHR 0xAF, CHR 0x20, CHR 0xD8, CHR 0xA7, CHR 0xD9,
                        CHR 0x84, CHR 0xD8, CHR 0xB0, CHR 0xD9, CHR 0x83, CHR 0xD9, CHR 0x8A,
                        CHR 0x20, CHR 0xD8, CHR 0xA7, CHR 0xD9, CHR 0x84, CHR 0xD8, CHR 0xAC,
                        CHR 0xD8, CHR 0xA7, CHR 0xD9, CHR 0x85, CHR 0xD8, CHR 0xB9, CHR 0xD9,
                        CHR 0x8A]
                      else ''University Smart Assistant Project Intake Form''),
                   forms = [if isArabic then UniversityIntakeForm else UniversityIntakeFormEn]\<rparr>))"

definition App :: "AppLanguage \<Rightarrow> js_error + home_view" where
  \<comment> \<open>the application renders the page inside the provider\<close>
  "App cell = Home (Some cell)"

text \<open>
  The running application: the provider's cell, the controls of the form that is mounted,
  the developer console, the host, and the errors no handler caught.  An error thrown in
  an event handler leaves the React tree as it is.
\<close>

record app =
  cell :: AppLanguage
  dom :: "control list"
  log :: console
  env :: host
  uncaught :: "js_error list"

definition render_dom :: "AppLanguage \<Rightarrow> control list" where
  \<comment> \<open>the controls of the forms the application mounts afresh when the cell holds \<open>l\<close>\<close>
  "render_dom l = (case App l of Inl e \<Rightarrow> [] | Inr v \<Rightarrow> concat (map mount (forms v)))"

definition App_start :: "host \<Rightarrow> app" where
  "App_start h =
     \<lparr>cell = initial_language, dom = render_dom initial_language, log = [], env = h,
      uncaught = []\<rparr>"

definition set_cell :: "AppLanguage \<Rightarrow> app \<Rightarrow> app" where
  \<comment> \<open>React after the setter ran: setting the cell to the value it holds changes nothing;
      otherwise the page is rendered again, and since the conditional of
      \<^verbatim>\<open>Home\<close> now yields the other component, the old form is unmounted and the
      other one is mounted afresh\<close>
  "set_cell l s = (if l = cell s then s else s\<lparr>cell := l, dom := render_dom l\<rparr>)"

datatype event = ClickArabic | ClickEnglish | User user_action | Submit | ClickPrint

fun step :: "event \<Rightarrow> app \<Rightarrow> app" where
  "step ClickArabic s =
     (case App (cell s) of
        Inl e \<Rightarrow> s\<lparr>uncaught := uncaught s @ [e]\<rparr>
      | Inr v \<Rightarrow> set_cell (snd (button_ar v) (cell s)) s)"
| "step ClickEnglish s =
     (case App (cell s) of
        Inl e \<Rightarrow> s\<lparr>uncaught := uncaught s @ [e]\<rparr>
      | Inr v \<Rightarrow> set_cell (snd (button_en v) (cell s)) s)"
| "step (User a) s = s\<lparr>dom := act a (dom s)\<rparr>"
| "step Submit s =
     s\<lparr>log := snd ((if cell s = Ar then handleSubmit else handleSubmitEn)
                     \<lparr>currentTarget = dom s, defaultPrevented = False\<rparr> (log s))\<rparr>"
| "step ClickPrint s =
     (case (if cell s = Ar then handlePrintAsPdf else handlePrintAsPdfEn) (env s) of
        Inl e \<Rightarrow> s\<lparr>uncaught := uncaught s @ [e]\<rparr>
      | Inr h \<Rightarrow> s\<lparr>env := h\<rparr>)"

definition run :: "event list \<Rightarrow> app \<Rightarrow> app" where
  "run evs s = fold step evs s"

section \<open>Notions the properties are stated with\<close>

definition submitted :: "AppLanguage \<Rightarrow> control list \<Rightarrow> js_object" where
  \<comment> \<open>the record the submit handler of the variant reports for a form in state \<open>cs\<close>\<close>
  "submitted l cs =
     snd (last (snd ((if l = Ar then handleSubmit else handleSubmitEn)
                       \<lparr>currentTarget = cs, defaultPrevented = False\<rparr> [])))"

definition keys :: "js_object \<Rightarrow> string list" where
  "keys data = map fst data"

definition variant :: "AppLanguage \<Rightarrow> form" where
  "variant l = (if l = Ar then UniversityIntakeForm else UniversityIntakeFormEn)"

definition entries_named :: "string \<Rightarrow> (string \<times> string) list \<Rightarrow> string list" where
  \<comment> \<open>the values an entry list holds under one name, in order\<close>
  "entries_named n es = map snd (filter (\<lambda>(k, v). k = n) es)"

definition selected_options :: "string \<Rightarrow> control list \<Rightarrow> string list" where
  \<comment> \<open>the options of the checkbox group \<open>n\<close> that are checked, in document order\<close>
  "selected_options n cs =
     map c_value (filter (\<lambda>c. c_kind c = KInput Checkbox \<and> c_name c = n \<and> c_checked c) cs)"

definition toggled :: "event \<Rightarrow> AppLanguage option" where
  \<comment> \<open>the argument of \<^verbatim>\<open>setLanguage\<close> when the event is a click on the switcher\<close>
  "toggled e =
     (case e of ClickArabic \<Rightarrow> Some Ar | ClickEnglish \<Rightarrow> Some En | _ \<Rightarrow> None)"

definition print_fails :: "host \<Rightarrow> bool" where
  \<comment> \<open>the host has a \<^verbatim>\<open>window\<close> whose \<^verbatim>\<open>print\<close> cannot be called\<close>
  "print_fails h = (window_defined h \<and> \<not> print_callable h)"

definition print_clicks :: "event list \<Rightarrow> nat" where
  "print_clicks evs = length (filter (\<lambda>e. e = ClickPrint) evs)"

definition click_for :: "AppLanguage \<Rightarrow> event" where
  "click_for l = (if l = Ar then ClickArabic else ClickEnglish)"

definition other :: "AppLanguage \<Rightarrow> AppLanguage" where
  "other l = (if l = Ar then En else Ar)"

fun titles :: "node \<Rightarrow> string list" where
  "titles (FormSection title description ns) = title # concat (map titles ns)"
| "titles (Field label hint required ns) = concat (map titles ns)"
| "titles (Caption t ns) = concat (map titles ns)"
| "titles (Div ns) = concat (map titles ns)"
| "titles (Input name ty v mn mx) = []"
| "titles (Textarea name) = []"
| "titles (Button t) = []"

fun labels :: "node \<Rightarrow> string list" where
  "labels (FormSection title description ns) = concat (map labels ns)"
| "labels (Field label hint required ns) = label # concat (map labels ns)"
| "labels (Caption t ns) = concat (map labels ns)"
| "labels (Div ns) = concat (map labels ns)"
| "labels (Input name ty v mn mx) = []"
| "labels (Textarea name) = []"
| "labels (Button t) = []"

definition rendered_text :: "app \<Rightarrow> string list \<times> string list" where
  \<comment> \<open>the section titles and the field labels on the screen, top to bottom\<close>
  "rendered_text s =
     (case App (cell s) of
        Inl e \<Rightarrow> ([], [])
      | Inr v \<Rightarrow> (concat (map (\<lambda>f. concat (map titles (children f))) (forms v)),
                 concat (map (\<lambda>f. concat (map labels (children f))) (forms v))))"

text \<open>
  The structure of a form with every text erased: the tree of components, which sections
  have a description, which fields have a hint or the required marker, and of each control
  its kind, whether it has a \<^verbatim>\<open>value\<close> attribute, and its bounds.
\<close>

datatype skeleton =
    SSection bool "skeleton list"
  | SField bool bool "skeleton list"
  | SCaption "skeleton list"
  | SDiv "skeleton list"
  | SInput input_type bool "nat option" "nat option"
  | STextarea
  | SButton

fun shape :: "node \<Rightarrow> skeleton" where
  "shape (FormSection title description ns) = SSection (description \<noteq> None) (map shape ns)"
| "shape (Field label hint required ns) = SField (hint \<noteq> None) required (map shape ns)"
| "shape (Caption t ns) = SCaption (map shape ns)"
| "shape (Div ns) = SDiv (map shape ns)"
| "shape (Input name ty v mn mx) = SInput ty (v \<noteq> None) mn mx"
| "shape (Textarea name) = STextarea"
| "shape (Button t) = SButton"

definition is_section :: "node \<Rightarrow> bool" where
  "is_section n = (case n of FormSection title description ns \<Rightarrow> True | _ \<Rightarrow> False)"

text \<open>
  The controls of a freshly mounted intake form as they result from its six option lists:
  the controls whose names the source writes out, and the controls whose names or values
  the source builds from an option.  Both variants are instances of it (shown below).
\<close>

definition entry :: "string \<Rightarrow> input_type \<Rightarrow> control" where
  "entry n ty = \<lparr>c_name = n, c_kind = KInput ty, c_value = [], c_checked = False\<rparr>"

definition area :: "string \<Rightarrow> control" where
  "area n = \<lparr>c_name = n, c_kind = KTextarea, c_value = [], c_checked = False\<rparr>"

definition tick :: "string \<Rightarrow> string \<Rightarrow> control" where
  "tick n v = \<lparr>c_name = n, c_kind = KInput Checkbox, c_value = v, c_checked = False\<rparr>"

definition choice :: "string \<Rightarrow> string \<Rightarrow> control" where
  "choice n v = \<lparr>c_name = n, c_kind = KInput Radio, c_value = v, c_checked = False\<rparr>"

definition yes_no :: "string \<Rightarrow> control list" where
  "yes_no n = [choice n ''yes'', choice n ''no'']"

definition intake_controls ::
  "string list \<Rightarrow> string list \<Rightarrow> string list \<Rightarrow> string list \<Rightarrow> string list \<Rightarrow> string list
     \<Rightarrow> control list" where
  "intake_controls goals depts langs chans scens kbs =
     [entry ''universityName'' Text, entry ''cityCountry'' Text, entry ''contactName'' Text,
      entry ''jobTitle'' Text, entry ''phone'' Tel, entry ''email'' Email,
      entry ''bestTimeToContact'' Text, entry ''deadline'' Date]
     @ map (\<lambda>goal. tick ''projectGoals'' goal) goals
     @ [choice ''callcenterScope'' ''full-replacement'', choice ''callcenterScope'' ''assistant'',
        area ''mvpScope'']
     @ concat (map (\<lambda>dept. [entry (''dept-'' @ dept @ ''-daily'') Number,
                             entry (''dept-'' @ dept @ ''-offhours'') Number]) depts)
     @ [area ''otherDepartments'', entry ''totalDailyCalls'' Number,
        entry ''peakDailyCalls'' Number, entry ''peakHours'' Text,
        entry ''currentAgents'' Number, entry ''avgCallDuration'' Number,
        entry ''missedCallsPercent'' Number]
     @ map (\<lambda>lang. entry (''lang-'' @ lang) Number) langs
     @ [entry ''otherLanguageName'' Text, entry ''otherLanguagePercent'' Number]
     @ map (\<lambda>channel. tick ''channels'' channel) chans
     @ [entry ''channelsOther'' Text, entry ''numbersPreference'' Text]
     @ concat (map (\<lambda>scenario. tick ''scenarios'' scenario
                      # yes_no (''scenario-'' @ scenario @ ''-identity'')) scens)
     @ [area ''otherScenarios'', area ''scenariosDetails'']
     @ concat (map (\<lambda>item. yes_no (''kb-'' @ item)) kbs)
     @ yes_no ''kb-files-exist''
     @ [entry ''kb-files-count'' Number, area ''kb-other'', entry ''kb-languageUpdate'' Text,
        entry ''systems-academic'' Text, entry ''systems-callcenter'' Text,
        entry ''systems-crm'' Text, area ''systems-other'']
     @ yes_no ''security-api'' @ yes_no ''security-webhooks''
     @ yes_no ''security-readonly-db'' @ yes_no ''security-sso''
     @ [area ''security-constraints'', entry ''pricing-deployment'' Text,
        entry ''pricing-campuses'' Number]
     @ yes_no ''pricing-247''
     @ [entry ''pricing-escalation-percent'' Number, entry ''pricing-recording'' Text]
     @ yes_no ''pricing-dashboard'' @ yes_no ''pricing-sla'' @ yes_no ''ux-greeting-script''
     @ [entry ''ux-voice-type'' Text, entry ''ux-ivr-type'' Text]
     @ yes_no ''ux-ticket-number''
     @ [area ''additional-notes'']"

definition text_names :: "string list \<Rightarrow> string list \<Rightarrow> string list" where
  \<comment> \<open>the names of the controls of \<open>intake_controls\<close> that take typed input\<close>
  "text_names depts langs =
     [''universityName'', ''cityCountry'', ''contactName'', ''jobTitle'', ''phone'', ''email'',
      ''bestTimeToContact'', ''deadline'', ''mvpScope'']
     @ concat (map (\<lambda>dept. [''dept-'' @ dept @ ''-daily'', ''dept-'' @ dept @ ''-offhours'']) depts)
     @ [''otherDepartments'', ''totalDailyCalls'', ''peakDailyCalls'', ''peakHours'',
        ''currentAgents'', ''avgCallDuration'', ''missedCallsPercent'']
     @ map (\<lambda>lang. ''lang-'' @ lang) langs
     @ [''otherLanguageName'', ''otherLanguagePercent'', ''channelsOther'',
        ''numbersPreference'', ''otherScenarios'', ''scenariosDetails'', ''kb-files-count'',
        ''kb-other'', ''kb-languageUpdate'', ''systems-academic'', ''systems-callcenter'',
        ''systems-crm'', ''systems-other'', ''security-constraints'', ''pricing-deployment'',
        ''pricing-campuses'', ''pricing-escalation-percent'', ''pricing-recording'',
        ''ux-voice-type'', ''ux-ivr-type'', ''additional-notes'']"

definition checkable_names :: "string list \<Rightarrow> string list \<Rightarrow> string list" where
  \<comment> \<open>the names of the checkboxes and radio buttons of \<open>intake_controls\<close>\<close>
  "checkable_names scens kbs =
     [''projectGoals'', ''callcenterScope'', ''channels'', ''scenarios'', ''kb-files-exist'',
      ''security-api'', ''security-webhooks'', ''security-readonly-db'', ''security-sso'',
      ''pricing-247'', ''pricing-dashboard'', ''pricing-sla'', ''ux-greeting-script'',
      ''ux-ticket-number'']
     @ map (\<lambda>scenario. ''scenario-'' @ scenario @ ''-identity'') scens
     @ map (\<lambda>item. ''kb-'' @ item) kbs"

definition derived_names ::
  "string list \<Rightarrow> string list \<Rightarrow> string list \<Rightarrow> string list \<Rightarrow> string list" where
  \<comment> \<open>the names the source builds from an option by a template literal\<close>
  "derived_names depts langs scens kbs =
     concat (map (\<lambda>dept. [''dept-'' @ dept @ ''-daily'', ''dept-'' @ dept @ ''-offhours'']) depts)
     @ map (\<lambda>lang. ''lang-'' @ lang) langs
     @ map (\<lambda>scenario. ''scenario-'' @ scenario @ ''-identity'') scens
     @ map (\<lambda>item. ''kb-'' @ item) kbs"

definition option_names :: "AppLanguage \<Rightarrow> string list" where
  "option_names l =
     (if l = Ar
      then derived_names department_options language_options scenario_options kb_options
      else derived_names department_optionsEn language_optionsEn scenario_optionsEn
             kb_optionsEn)"

definition fresh :: "AppLanguage \<Rightarrow> control list" where
  "fresh l =
     (if l = Ar
      then intake_controls projectGoals_options department_options language_options
             channel_options scenario_options kb_options
      else intake_controls projectGoals_optionsEn department_optionsEn language_optionsEn
             channel_optionsEn scenario_optionsEn kb_optionsEn)"

definition checkbox_groups :: "string list" where
  "checkbox_groups = [''projectGoals'', ''channels'', ''scenarios'']"

text \<open>Two states of a form used as examples below.\<close>

definition two_goals_checked :: "control list" where
  \<comment> \<open>the English form after the user ticked the goal \<^verbatim>\<open>Reduce waiting time\<close> and then
      the goal \<^verbatim>\<open>Reduce staff workload\<close>\<close>
  "two_goals_checked =
     act (ToggleCheckbox ''projectGoals'' ''Reduce staff workload'')
       (act (ToggleCheckbox ''projectGoals'' ''Reduce waiting time'')
          (mount UniversityIntakeFormEn))"

definition university_named :: "control list" where
  \<comment> \<open>the Arabic form after the user entered a university name and nothing else\<close>
  "university_named =
     act (TypeInto ''universityName'' ''Future University'') (mount UniversityIntakeForm)"


section \<open>Auxiliary facts\<close>

lemma submitted_eq:
  "submitted l cs = fold (\<lambda>(key, v) data. assign key v data) (FormData cs) []"
  by (simp add: submitted_def handleSubmit_def handleSubmitEn_def)

lemma fold_assign_snoc:
  "fold (\<lambda>(key, v) data. assign key v data) (es @ [(k, v)]) d =
     assign k v (fold (\<lambda>(key, v) data. assign key v data) es d)"
  by simp

lemma map_of_assign:
  "map_of (assign k v d) k' =
     (if k' = k \<and> k \<noteq> ''__proto__'' then Some v else map_of d k')"
  by (simp add: assign_def update_conv')

lemma keys_assign:
  "set (keys (assign k v d)) = (if k = ''__proto__'' then {} else {k}) \<union> set (keys d)"
  by (simp add: assign_def keys_def dom_update)

lemma map_of_fold_assign:
  assumes "k \<noteq> ''__proto__''"
  shows "map_of (fold (\<lambda>(key, v) data. assign key v data) es []) k =
           (if entries_named k es = [] then None else Some (last (entries_named k es)))"
proof (induction es rule: rev_induct)
  case Nil
  show ?case by (simp add: entries_named_def)
next
  case (snoc e es)
  obtain k' v' where e: "e = (k', v')" by (cases e)
  show ?case
    using snoc assms unfolding e fold_assign_snoc map_of_assign
    by (simp add: entries_named_def)
qed

lemma keys_fold_assign:
  "set (keys (fold (\<lambda>(key, v) data. assign key v data) es d)) =
     set (keys d) \<union> (fst ` set es - {''__proto__''})"
proof (induction es arbitrary: d)
  case Nil
  show ?case by simp
next
  case (Cons e es)
  obtain k v where e: "e = (k, v)" by (cases e)
  show ?case unfolding e by (auto simp: Cons keys_assign)
qed

lemma keys_submitted:
  "set (keys (submitted l cs)) = c_name ` {c \<in> set cs. in_entry_list c} - {''__proto__''}"
  unfolding submitted_eq keys_fold_assign
  by (simp add: FormData_def keys_def image_image)

lemma App_forms: "\<exists>v. App l = Inr v \<and> forms v = [variant l]"
  by (simp add: App_def Home_def useLanguage_def useContext_def LanguageProvider_def
      variant_def)

lemma render_dom_eq: "render_dom l = mount (variant l)"
  using App_forms [of l] by (auto simp: render_dom_def)

lemma handlePrintAsPdf_eq:
  "handlePrintAsPdf h =
     (if print_fails h then Inl (TypeError ''window.print is not a function'')
      else Inr (if window_defined h then h\<lparr>print_dialogs := Suc (print_dialogs h)\<rparr> else h))"
  by (simp add: handlePrintAsPdf_def typeof_window_def window_print_def print_fails_def)

lemma handlePrintAsPdfEn_eq:
  "handlePrintAsPdfEn h =
     (if print_fails h then Inl (TypeError ''window.print is not a function'')
      else Inr (if window_defined h then h\<lparr>print_dialogs := Suc (print_dialogs h)\<rparr> else h))"
  by (simp add: handlePrintAsPdfEn_def typeof_window_def window_print_def print_fails_def)

lemma step_toggle:
  "step ClickArabic s = set_cell Ar s" "step ClickEnglish s = set_cell En s"
  by (simp_all add: App_def Home_def useLanguage_def useContext_def LanguageProvider_def
      Let_def)

lemma uncaught_step:
  "uncaught (step e s) =
     uncaught s @ (if e = ClickPrint \<and> print_fails (env s)
                   then [TypeError ''window.print is not a function''] else [])"
  by (cases e)
    (simp_all add: step_toggle set_cell_def handlePrintAsPdf_eq handlePrintAsPdfEn_eq
      del: step.simps(1,2))

lemma print_fails_step: "print_fails (env (step e s)) = print_fails (env s)"
  by (cases e)
    (simp_all add: step_toggle set_cell_def handlePrintAsPdf_eq handlePrintAsPdfEn_eq
      print_fails_def del: step.simps(1,2))

lemma uncaught_run:
  "uncaught (run evs s) =
     uncaught s @ (if print_fails (env s)
                   then replicate (print_clicks evs) (TypeError ''window.print is not a function'')
                   else [])"
  unfolding run_def
proof (induction evs arbitrary: s)
  case Nil
  show ?case by (simp add: print_clicks_def)
next
  case (Cons e evs)
  have "print_clicks (e # evs) = (if e = ClickPrint then Suc (print_clicks evs) else print_clicks evs)"
    by (simp add: print_clicks_def)
  then show ?case
    by (simp add: Cons uncaught_step print_fails_step)
qed

subsection \<open>Both variants are instances of the same list of controls\<close>

lemmas variant_defs =
  UniversityIntakeForm_def section1_def section2_def section3_def section4_def section5_def
  section6_def section7_def section8_def section9_def section10_def section11_def
  section12_def section13_def YesNoGroup_def
  UniversityIntakeFormEn_def section1En_def section2En_def section3En_def section4En_def
  section5En_def section6En_def section7En_def section8En_def section9En_def section10En_def
  section11En_def section12En_def section13En_def YesNoGroupEn_def

lemmas option_defs =
  projectGoals_options_def department_options_def language_options_def channel_options_def
  scenario_options_def kb_options_def
  projectGoals_optionsEn_def department_optionsEn_def language_optionsEn_def
  channel_optionsEn_def scenario_optionsEn_def kb_optionsEn_def

lemmas control_defs = entry_def area_def tick_def choice_def yes_no_def

lemma mount_variant: "mount (variant l) = fresh l"
  by (cases l)
    (simp_all add: variant_def mount_def variant_defs fresh_def intake_controls_def
      control_defs default_value_def comp_def)

lemma list_all_concat: "list_all P (concat xss) = list_all (list_all P) xss"
  by (induction xss) auto

lemma list_all_True: "list_all (\<lambda>x. True) xs"
  by (induction xs) auto

lemmas structure_simps =
  intake_controls_def control_defs list.pred_map comp_def list_all_concat list_all_True

lemma intake_names:
  "list_all (\<lambda>c. c_name c \<noteq> [] \<and> c_name c \<noteq> ''__proto__'')
     (intake_controls g d l c s k)"
  by (simp add: structure_simps)

lemma intake_checkboxes:
  "list_all (\<lambda>c. (c_kind c = KInput Checkbox) = (c_name c \<in> set checkbox_groups))
     (intake_controls g d l c s k)"
  by (simp add: structure_simps checkbox_groups_def)

lemma intake_unchecked:
  "list_all (\<lambda>c. \<not> c_checked c \<and> (is_checkable c \<or> c_value c = []))
     (intake_controls g d l c s k)"
  by (simp add: structure_simps is_checkable_def)

subsection \<open>States of a form\<close>

lemma same_control_refl: "list_all2 same_control cs cs"
  by (induction cs) (simp_all add: same_control_def)

lemma filled_mount: "filled f (mount f)"
  by (simp add: filled_def same_control_refl)

lemma same_control_map:
  assumes "list_all2 same_control xs cs"
    and "\<And>c0 c. c0 \<in> set xs \<Longrightarrow> same_control c0 c \<Longrightarrow> same_control c0 (g c)"
  shows "list_all2 same_control xs (map g cs)"
  using assms by (induction rule: list_all2_induct) simp_all

lemma filled_act:
  assumes "filled f cs"
  shows "filled f (act a cs)"
proof (cases a)
  case (TypeInto n s)
  show ?thesis
    using assms unfolding filled_def TypeInto act.simps type_into_def
    by (rule same_control_map) (auto simp: same_control_def is_checkable_def)
next
  case (ToggleCheckbox n v)
  show ?thesis
    using assms unfolding filled_def ToggleCheckbox act.simps toggle_checkbox_def
    by (rule same_control_map) (auto simp: same_control_def is_checkable_def)
next
  case (ChooseRadio n v)
  have "list_all2 same_control (mount f)
          (map (\<lambda>c. if is_radio n c then c\<lparr>c_checked := (c_value c = v)\<rparr> else c) cs)"
    using assms unfolding filled_def
    by (rule same_control_map) (auto simp: same_control_def is_checkable_def)
  with assms show ?thesis
    unfolding filled_def ChooseRadio act.simps choose_radio_def by simp
qed

lemma filled_property:
  assumes "list_all2 same_control xs cs"
    and "list_all (\<lambda>c. Q (c_name c) (c_kind c)) xs"
  shows "list_all (\<lambda>c. Q (c_name c) (c_kind c)) cs"
  using assms by (induction rule: list_all2_induct) (simp_all add: same_control_def)

lemma filled_names:
  assumes "filled (variant l) cs" and "c \<in> set cs"
  shows "c_name c \<noteq> []" and "c_name c \<noteq> ''__proto__''"
proof -
  have "list_all (\<lambda>c. c_name c \<noteq> [] \<and> c_name c \<noteq> ''__proto__'') cs"
    using assms(1) unfolding filled_def mount_variant
    by (rule filled_property) (simp add: fresh_def intake_names)
  with assms(2) show "c_name c \<noteq> []" and "c_name c \<noteq> ''__proto__''"
    by (simp_all add: list_all_iff)
qed

lemma filled_checkboxes:
  assumes "filled (variant l) cs" and "c \<in> set cs"
  shows "(c_kind c = KInput Checkbox) = (c_name c \<in> set checkbox_groups)"
proof -
  have "list_all (\<lambda>c. (c_kind c = KInput Checkbox) = (c_name c \<in> set checkbox_groups)) cs"
    using assms(1) unfolding filled_def mount_variant
    by (rule filled_property) (simp add: fresh_def intake_checkboxes)
  with assms(2) show ?thesis
    by (simp add: list_all_iff)
qed

subsection \<open>The record built from the entry list\<close>

lemma entries_named_FormData:
  "entries_named n (FormData cs) =
     map c_value (filter (\<lambda>c. in_entry_list c \<and> c_name c = n) cs)"
  by (induction cs) (simp_all add: entries_named_def FormData_def)

lemma distinct_assign: "distinct (map fst d) \<Longrightarrow> distinct (map fst (assign k v d))"
  by (simp add: assign_def distinct_update)

lemma distinct_fold_assign:
  "distinct (map fst d) \<Longrightarrow>
     distinct (map fst (fold (\<lambda>(key, v) data. assign key v data) es d))"
  by (induction es arbitrary: d) (auto simp: distinct_assign)

lemma distinct_submitted: "distinct (map fst (submitted l cs))"
  unfolding submitted_eq by (rule distinct_fold_assign) simp

lemma entries_named_distinct:
  "distinct (map fst d) \<Longrightarrow> map_of d k = Some v \<Longrightarrow> entries_named k d = [v]"
proof (induction d)
  case Nil
  then show ?case by simp
next
  case (Cons e d)
  obtain k' v' where e: "e = (k', v')" by (cases e)
  show ?case
  proof (cases "k' = k")
    case True
    have "filter (\<lambda>(k', v). k' = k) d = []"
      using Cons.prems(1) True unfolding e by (force simp: filter_empty_conv)
    with Cons.prems True show ?thesis
      unfolding e by (simp add: entries_named_def)
  next
    case False
    with Cons show ?thesis
      unfolding e by (simp add: entries_named_def)
  qed
qed

lemma submitted_entries:
  assumes "n \<noteq> ''__proto__''" and "entries_named n (FormData cs) \<noteq> []"
  shows "map_of (submitted l cs) n = Some (last (entries_named n (FormData cs)))"
    and "entries_named n (submitted l cs) = [last (entries_named n (FormData cs))]"
proof -
  show m: "map_of (submitted l cs) n = Some (last (entries_named n (FormData cs)))"
    unfolding submitted_eq using assms by (simp add: map_of_fold_assign)
  show "entries_named n (submitted l cs) = [last (entries_named n (FormData cs))]"
    using distinct_submitted m by (rule entries_named_distinct)
qed

lemma submitted_values: "(k, v) \<in> set (submitted l cs) \<Longrightarrow> (k, v) \<in> set (FormData cs)"
proof -
  assume kv: "(k, v) \<in> set (submitted l cs)"
  then have k: "k \<in> set (keys (submitted l cs))"
    by (force simp: keys_def)
  then have p: "k \<noteq> ''__proto__''"
    unfolding submitted_eq keys_fold_assign by (simp add: keys_def)
  have "map_of (submitted l cs) k = Some v"
    using distinct_submitted kv by (rule map_of_is_SomeI)
  then have "entries_named k (FormData cs) \<noteq> []"
    and "v = last (entries_named k (FormData cs))"
    unfolding submitted_eq using p by (auto simp: map_of_fold_assign split: if_splits)
  then have "v \<in> set (entries_named k (FormData cs))"
    by simp
  then show ?thesis
    by (auto simp: entries_named_def)
qed

lemma selected_recorded:
  assumes "filled (variant l) cs" and "selected_options n cs \<noteq> []"
  shows "entries_named n (FormData cs) = selected_options n cs"
    and "entries_named n (submitted l cs) = [last (selected_options n cs)]"
proof -
  from assms(2) obtain c where c: "c \<in> set cs" "c_kind c = KInput Checkbox" "c_name c = n"
    by (auto simp: selected_options_def filter_empty_conv)
  have grp: "n \<in> set checkbox_groups"
    using filled_checkboxes [OF assms(1) c(1)] c by simp
  have proto: "n \<noteq> ''__proto__''"
    using filled_names(2) [OF assms(1) c(1)] c by simp
  have "filter (\<lambda>c. in_entry_list c \<and> c_name c = n) cs =
        filter (\<lambda>c. c_kind c = KInput Checkbox \<and> c_name c = n \<and> c_checked c) cs"
  proof (rule filter_cong [OF refl])
    fix x
    assume x: "x \<in> set cs"
    show "(in_entry_list x \<and> c_name x = n) =
          (c_kind x = KInput Checkbox \<and> c_name x = n \<and> c_checked x)"
      using filled_checkboxes [OF assms(1) x] filled_names(1) [OF assms(1) x] grp
      by (auto simp: in_entry_list_def is_checkable_def)
  qed
  then show e: "entries_named n (FormData cs) = selected_options n cs"
    by (simp add: entries_named_FormData selected_options_def)
  show "entries_named n (submitted l cs) = [last (selected_options n cs)]"
    using submitted_entries(2) [OF proto, of cs l] assms(2) unfolding e by simp
qed

lemma text_field_recorded:
  assumes "filled (variant l) cs" and "\<not> is_checkable c"
    and "filter (\<lambda>c'. c_name c' = c_name c) cs = [c]"
  shows "map_of (submitted l cs) (c_name c) = Some (c_value c)"
proof -
  have "c \<in> set (filter (\<lambda>c'. c_name c' = c_name c) cs)"
    unfolding assms(3) by simp
  then have c: "c \<in> set cs"
    by simp
  have "filter (\<lambda>c'. in_entry_list c' \<and> c_name c' = c_name c) cs =
        filter in_entry_list (filter (\<lambda>c'. c_name c' = c_name c) cs)"
    by (simp add: conj_commute)
  also have "\<dots> = [c]"
    unfolding assms(3) using assms(2) filled_names(1) [OF assms(1) c]
    by (simp add: in_entry_list_def)
  finally have "entries_named (c_name c) (FormData cs) = [c_value c]"
    by (simp add: entries_named_FormData)
  then show ?thesis
    using submitted_entries(1) [of "c_name c" cs l] filled_names(2) [OF assms(1) c] by simp
qed

lemma keys_filled:
  assumes "filled (variant l) cs"
  shows "set (keys (submitted l cs)) = c_name ` {c \<in> set cs. \<not> is_checkable c \<or> c_checked c}"
proof -
  have a: "{c \<in> set cs. in_entry_list c} = {c \<in> set cs. \<not> is_checkable c \<or> c_checked c}"
    using filled_names(1) [OF assms] by (auto simp: in_entry_list_def)
  have "''__proto__'' \<notin> c_name ` {c \<in> set cs. \<not> is_checkable c \<or> c_checked c}"
  proof
    assume "''__proto__'' \<in> c_name ` {c \<in> set cs. \<not> is_checkable c \<or> c_checked c}"
    then obtain c where "c \<in> set cs" and "c_name c = ''__proto__''"
      by force
    then show False
      using filled_names(2) [OF assms] by simp
  qed
  then show ?thesis
    unfolding keys_submitted a by simp
qed

subsection \<open>The two example states\<close>

lemma filled_two_goals_checked: "filled (variant En) two_goals_checked"
  unfolding two_goals_checked_def
  by (intro filled_act) (simp add: variant_def filled_mount)

lemma selected_two_goals_checked:
  "selected_options ''projectGoals'' two_goals_checked =
     [''Reduce staff workload'', ''Reduce waiting time'']"
  using mount_variant [of En]
  by (simp add: two_goals_checked_def variant_def fresh_def intake_controls_def control_defs
      toggle_checkbox_def selected_options_def projectGoals_optionsEn_def
      filter_map comp_def filter_concat)

lemma filled_university_named: "filled (variant Ar) university_named"
  unfolding university_named_def
  by (intro filled_act) (simp add: variant_def filled_mount)

lemma university_named_controls:
  "filter (\<lambda>c. c_name c = ''universityName'') university_named =
     [\<lparr>c_name = ''universityName'', c_kind = KInput Text, c_value = ''Future University'',
       c_checked = False\<rparr>]"
  "list_ex (\<lambda>c. c_name c = ''cityCountry'' \<and> \<not> is_checkable c) university_named"
  using mount_variant [of Ar]
  by (simp_all add: university_named_def variant_def fresh_def intake_controls_def
      control_defs type_into_def is_checkable_def filter_map comp_def filter_concat)

subsection \<open>Names of typed fields and names of checkboxes and radio buttons\<close>

lemma concat_map_Nil: "concat (map (\<lambda>x. []) xs) = []"
  by (induction xs) simp_all

lemma list_eq_if: "(x # xs = y # ys) = (if x = y then xs = ys else False)"
  by simp

lemma intake_text_names:
  "map c_name (filter (\<lambda>c. \<not> is_checkable c) (intake_controls g d l c s k)) = text_names d l"
  by (simp add: intake_controls_def control_defs is_checkable_def filter_map filter_concat
      comp_def map_concat concat_map_Nil text_names_def)

lemma intake_checkable_names:
  "set (map c_name (filter is_checkable (intake_controls g d l c s k)))
     \<subseteq> set (checkable_names s k)"
  by (auto simp add: intake_controls_def control_defs is_checkable_def checkable_names_def)

lemma names_disjoint:
  assumes "list_all (\<lambda>item. item \<notin> set [''files-count'', ''other'', ''languageUpdate'']) k"
  shows "list_all (\<lambda>n. n \<notin> set (text_names d l)) (checkable_names s k)"
  using assms
  by (simp add: text_names_def checkable_names_def list.pred_map comp_def list_all_True
      image_iff list_eq_if del: list.inject)

lemma kb_options_no_clash:
  "list_all (\<lambda>item. item \<notin> set [''files-count'', ''other'', ''languageUpdate'']) kb_options"
  "list_all (\<lambda>item. item \<notin> set [''files-count'', ''other'', ''languageUpdate'']) kb_optionsEn"
  by (simp_all add: kb_options_def kb_optionsEn_def)

lemma fresh_names_disjoint:
  assumes "c \<in> set (fresh l)" and "is_checkable c"
  shows "c_name c \<notin> set (map c_name (filter (\<lambda>c. \<not> is_checkable c) (fresh l)))"
proof -
  have "\<And>g d la ch s k.
          list_all (\<lambda>item. item \<notin> set [''files-count'', ''other'', ''languageUpdate'']) k \<Longrightarrow>
          c \<in> set (intake_controls g d la ch s k) \<Longrightarrow>
          c_name c \<notin> set (map c_name
            (filter (\<lambda>c. \<not> is_checkable c) (intake_controls g d la ch s k)))"
  proof -
    fix g d la ch s k
    assume k: "list_all (\<lambda>item. item \<notin> set [''files-count'', ''other'', ''languageUpdate'']) k"
      and c: "c \<in> set (intake_controls g d la ch s k)"
    from c assms(2) have "c_name c \<in> set (map c_name (filter is_checkable
        (intake_controls g d la ch s k)))"
      by simp
    then have "c_name c \<in> set (checkable_names s k)"
      using intake_checkable_names by blast
    then have "c_name c \<notin> set (text_names d la)"
      using names_disjoint [OF k, of d la s] by (simp add: list_all_iff)
    then show "c_name c \<notin> set (map c_name
        (filter (\<lambda>c. \<not> is_checkable c) (intake_controls g d la ch s k)))"
      unfolding intake_text_names .
  qed
  from this [OF kb_options_no_clash(1)] this [OF kb_options_no_clash(2)] assms(1)
  show ?thesis
    by (cases l) (simp_all add: fresh_def)
qed

lemma fresh_unchecked:
  assumes "c \<in> set (fresh l)"
  shows "\<not> c_checked c" and "is_checkable c \<or> c_value c = []"
proof -
  have "\<not> c_checked c \<and> (is_checkable c \<or> c_value c = [])"
  proof (cases l)
    case Ar
    with assms show ?thesis
      using intake_unchecked [of projectGoals_options department_options language_options
          channel_options scenario_options kb_options]
      by (simp add: fresh_def list_all_iff)
  next
    case En
    with assms show ?thesis
      using intake_unchecked [of projectGoals_optionsEn department_optionsEn
          language_optionsEn channel_optionsEn scenario_optionsEn kb_optionsEn]
      by (simp add: fresh_def list_all_iff)
  qed
  then show "\<not> c_checked c" and "is_checkable c \<or> c_value c = []"
    by simp_all
qed

lemma fresh_FormData_values:
  assumes "(k, v) \<in> set (FormData (fresh l))"
  shows "v = []"
  using assms fresh_unchecked [of _ l]
  by (auto simp: FormData_def in_entry_list_def split: if_splits)

lemma filled_fresh: "filled (variant l) (fresh l)"
  using filled_mount [of "variant l"] by (simp add: mount_variant)

lemma fresh_keys:
  "set (keys (submitted l (fresh l))) =
     set (map c_name (filter (\<lambda>c. \<not> is_checkable c) (fresh l)))"
proof -
  have "{c \<in> set (fresh l). \<not> is_checkable c \<or> c_checked c} =
        {c \<in> set (fresh l). \<not> is_checkable c}"
    using fresh_unchecked(1) [of _ l] by blast
  then show ?thesis
    unfolding keys_filled [OF filled_fresh] by auto
qed

subsection \<open>The radio pair\<close>

lemma YesNoGroup_controls:
  "controls (YesNoGroup n) = yes_no n" "controls (YesNoGroupEn n) = yes_no n"
  by (simp_all add: YesNoGroup_def YesNoGroupEn_def control_defs default_value_def)

lemma choose_radio_pair:
  "choose_radio n v [(choice n ''yes'')\<lparr>c_checked := a\<rparr>, (choice n ''no'')\<lparr>c_checked := b\<rparr>] =
     (if v = ''yes'' then [(choice n ''yes'')\<lparr>c_checked := True\<rparr>, choice n ''no'']
      else if v = ''no'' then [choice n ''yes'', (choice n ''no'')\<lparr>c_checked := True\<rparr>]
      else [(choice n ''yes'')\<lparr>c_checked := a\<rparr>, (choice n ''no'')\<lparr>c_checked := b\<rparr>])"
  by (simp add: choose_radio_def is_radio_def choice_def)

lemma fold_choose_radio_pair:
  assumes "\<not> (a \<and> b)"
  shows "\<exists>a' b'. \<not> (a' \<and> b') \<and>
           fold (choose_radio n) vs
             [(choice n ''yes'')\<lparr>c_checked := a\<rparr>, (choice n ''no'')\<lparr>c_checked := b\<rparr>] =
           [(choice n ''yes'')\<lparr>c_checked := a'\<rparr>, (choice n ''no'')\<lparr>c_checked := b'\<rparr>]"
  using assms
proof (induction vs arbitrary: a b)
  case Nil
  then show ?case by auto
next
  case (Cons v vs)
  have u: "choice n ''yes'' = (choice n ''yes'')\<lparr>c_checked := False\<rparr>"
    "choice n ''no'' = (choice n ''no'')\<lparr>c_checked := False\<rparr>"
    by (simp_all add: choice_def)
  consider "v = ''yes''" | "v = ''no''" | "v \<noteq> ''yes''" "v \<noteq> ''no''"
    by blast
  then show ?case
  proof cases
    case 1
    have "\<not> (True \<and> False)" by simp
    from Cons.IH [OF this] show ?thesis
      unfolding fold_Cons comp_def choose_radio_pair using 1 u(2) by simp
  next
    case 2
    have "\<not> (False \<and> True)" by simp
    from Cons.IH [OF this] show ?thesis
      unfolding fold_Cons comp_def choose_radio_pair using 2 u(1) by simp
  next
    case 3
    from Cons.IH [OF Cons.prems] show ?thesis
      unfolding fold_Cons comp_def choose_radio_pair using 3 by simp
  qed
qed

lemma yes_no_exclusive: "length (filter c_checked (fold (choose_radio n) vs (yes_no n))) \<le> 1"
proof -
  have u: "yes_no n = [(choice n ''yes'')\<lparr>c_checked := False\<rparr>, (choice n ''no'')\<lparr>c_checked := False\<rparr>]"
    by (simp add: yes_no_def choice_def)
  have "\<not> (False \<and> False)" by simp
  from fold_choose_radio_pair [OF this, of n vs] show ?thesis
    unfolding u by auto
qed

lemma yes_no_unselected_absent:
  assumes "list_all (\<lambda>c. c_name c \<noteq> n) (before @ after)"
  shows "n \<notin> set (keys (submitted l (before @ yes_no n @ after)))"
proof
  assume "n \<in> set (keys (submitted l (before @ yes_no n @ after)))"
  then obtain c where c: "c \<in> set (before @ yes_no n @ after)" "in_entry_list c" "c_name c = n"
    unfolding keys_submitted by auto
  from c(1,3) assms have "c \<in> set (yes_no n)"
    by (auto simp: list_all_iff)
  with c(2) show False
    by (auto simp: yes_no_def choice_def in_entry_list_def is_checkable_def)
qed

subsection \<open>The running application\<close>

lemma cell_step:
  "cell (step e s) = (case toggled e of Some l \<Rightarrow> l | None \<Rightarrow> cell s)"
  by (cases e)
    (simp_all add: step_toggle set_cell_def toggled_def handlePrintAsPdf_eq
      handlePrintAsPdfEn_eq del: step.simps(1,2))

lemma cell_run: "cell (run evs s) = last (cell s # List.map_filter toggled evs)"
  unfolding run_def
proof (induction evs arbitrary: s)
  case Nil
  show ?case by (simp add: map_filter_simps)
next
  case (Cons e evs)
  show ?case
    by (cases "toggled e") (simp_all add: Cons cell_step map_filter_simps)
qed

lemma filled_set_cell:
  "filled (variant (cell s)) (dom s) \<Longrightarrow> filled (variant (cell (set_cell l s))) (dom (set_cell l s))"
  by (simp add: set_cell_def render_dom_eq filled_mount)

lemma filled_step:
  assumes "filled (variant (cell s)) (dom s)"
  shows "filled (variant (cell (step e s))) (dom (step e s))"
proof (cases e)
  case ClickArabic
  with assms show ?thesis by (simp add: step_toggle filled_set_cell del: step.simps(1,2))
next
  case ClickEnglish
  with assms show ?thesis by (simp add: step_toggle filled_set_cell del: step.simps(1,2))
next
  case (User a)
  with assms show ?thesis by (simp add: filled_act)
next
  case Submit
  with assms show ?thesis by simp
next
  case ClickPrint
  with assms show ?thesis
    by (cases "cell s = Ar") (simp_all add: handlePrintAsPdf_eq handlePrintAsPdfEn_eq)
qed

lemma filled_run:
  "filled (variant (cell s)) (dom s) \<Longrightarrow> filled (variant (cell (run evs s))) (dom (run evs s))"
  unfolding run_def by (induction evs arbitrary: s) (simp_all add: filled_step)

lemma filled_App_start: "filled (variant (cell (App_start h))) (dom (App_start h))"
  by (simp add: App_start_def render_dom_eq filled_mount)

lemma variants_differ: "(variant l = UniversityIntakeForm) = (l = Ar)"
  by (cases l) (simp_all add: variant_def UniversityIntakeForm_def UniversityIntakeFormEn_def)

lemma rendered_text_cell: "cell s = cell s' \<Longrightarrow> rendered_text s = rendered_text s'"
  by (simp add: rendered_text_def)

lemma cell_run_User: "cell (run (map User as) s) = cell s"
  by (simp add: cell_run map_filter_def toggled_def comp_def)

lemma click_for_step: "step (click_for l) s = set_cell l s"
  by (cases l) (simp_all add: click_for_def step_toggle del: step.simps(1,2))

lemma titles_of_mapped: "concat (map titles (map f xs)) = concat (map (\<lambda>x. titles (f x)) xs)"
  by (simp add: comp_def)

lemma first_titles_differ:
  "hd (fst (rendered_text (s\<lparr>cell := Ar\<rparr>))) \<noteq> hd (fst (rendered_text (s\<lparr>cell := En\<rparr>)))"
  using App_forms [of Ar] App_forms [of En]
  by (auto simp: rendered_text_def variant_def UniversityIntakeForm_def
      UniversityIntakeFormEn_def section1_def section1En_def)

subsection \<open>Names built from options\<close>

lemma daily_offhours: "a @ ''-daily'' \<noteq> b @ ''-offhours''"
proof
  assume "a @ ''-daily'' = b @ ''-offhours''"
  then have "last (a @ ''-daily'') = last (b @ ''-offhours'')"
    by simp
  then show False
    by simp
qed

lemma derived_set:
  "set (derived_names d l s k) =
     (\<lambda>x. ''dept-'' @ x @ ''-daily'') ` set d
     \<union> (\<lambda>x. ''dept-'' @ x @ ''-offhours'') ` set d
     \<union> (\<lambda>x. ''lang-'' @ x) ` set l
     \<union> (\<lambda>x. ''scenario-'' @ x @ ''-identity'') ` set s
     \<union> (\<lambda>x. ''kb-'' @ x) ` set k"
  by (auto simp: derived_names_def)

lemma derived_names_common:
  "set (derived_names d l s k) \<inter> set (derived_names d' l' s' k') =
     (\<lambda>x. ''dept-'' @ x @ ''-daily'') ` (set d \<inter> set d')
     \<union> (\<lambda>x. ''dept-'' @ x @ ''-offhours'') ` (set d \<inter> set d')
     \<union> (\<lambda>x. ''lang-'' @ x) ` (set l \<inter> set l')
     \<union> (\<lambda>x. ''scenario-'' @ x @ ''-identity'') ` (set s \<inter> set s')
     \<union> (\<lambda>x. ''kb-'' @ x) ` (set k \<inter> set k')"
  unfolding derived_set
  by (auto simp: daily_offhours daily_offhours [symmetric])

lemma options_common:
  "set department_options \<inter> set department_optionsEn = {''IT''}"
  "set language_options \<inter> set language_optionsEn = {}"
  "set scenario_options \<inter> set scenario_optionsEn = {}"
  "set kb_options \<inter> set kb_optionsEn = {}"
  by (simp_all add: option_defs)

lemma option_names_common:
  "set (option_names Ar) \<inter> set (option_names En) = {''dept-IT-daily'', ''dept-IT-offhours''}"
  unfolding option_names_def by (simp add: derived_names_common options_common insert_commute)

lemma IT_department:
  "''IT'' \<in> set department_options" "''IT'' \<in> set department_optionsEn"
  by (simp_all add: department_options_def department_optionsEn_def)

lemma dept_names_derived:
  assumes "x \<in> set d"
  shows "''dept-'' @ x @ ''-daily'' \<in> set (derived_names d l s k)"
    and "''dept-'' @ x @ ''-offhours'' \<in> set (derived_names d l s k)"
  using assms by (auto simp: derived_names_def)

lemma dept_controls:
  assumes "x \<in> set d"
  shows "entry (''dept-'' @ x @ ''-daily'') Number \<in> set (intake_controls g d l c s k)"
    and "entry (''dept-'' @ x @ ''-offhours'') Number \<in> set (intake_controls g d l c s k)"
  using assms by (auto simp: intake_controls_def)

lemma same_control_sig:
  "list_all2 same_control xs cs \<Longrightarrow>
     map (\<lambda>c. (c_name c, c_kind c)) cs = map (\<lambda>c. (c_name c, c_kind c)) xs"
  by (induction rule: list_all2_induct) (simp_all add: same_control_def)

lemma filled_sig:
  assumes "filled (variant l) cs"
  shows "map (\<lambda>c. (c_name c, c_kind c)) cs = map (\<lambda>c. (c_name c, c_kind c)) (fresh l)"
  using assms unfolding filled_def mount_variant by (rule same_control_sig)

lemma typed_control_is_key:
  assumes "filled (variant l) cs" and "entry n ty \<in> set (fresh l)"
    and "ty \<noteq> Checkbox" and "ty \<noteq> Radio"
  shows "n \<in> set (keys (submitted l cs))"
proof -
  have "(n, KInput ty) \<in> set (map (\<lambda>c. (c_name c, c_kind c)) (fresh l))"
    using assms(2) by (force simp: entry_def)
  then have "(n, KInput ty) \<in> set (map (\<lambda>c. (c_name c, c_kind c)) cs)"
    unfolding filled_sig [OF assms(1)] .
  then obtain c where c: "c \<in> set cs" "c_name c = n" "c_kind c = KInput ty"
    by auto
  then have "c \<in> {c \<in> set cs. \<not> is_checkable c \<or> c_checked c}"
    using assms(3,4) by (simp add: is_checkable_def)
  then have "c_name c \<in> c_name ` {c \<in> set cs. \<not> is_checkable c \<or> c_checked c}"
    by (rule imageI)
  then show ?thesis
    unfolding keys_filled [OF assms(1)] c(2) .
qed

lemma IT_keys:
  assumes "filled (variant l) cs"
  shows "''dept-IT-daily'' \<in> set (keys (submitted l cs))"
    and "''dept-IT-offhours'' \<in> set (keys (submitted l cs))"
proof -
  have "entry ''dept-IT-daily'' Number \<in> set (fresh l)
      \<and> entry ''dept-IT-offhours'' Number \<in> set (fresh l)"
    using dept_controls [OF IT_department(1)] dept_controls [OF IT_department(2)]
    by (cases l) (simp_all add: fresh_def)
  then show "''dept-IT-daily'' \<in> set (keys (submitted l cs))"
    and "''dept-IT-offhours'' \<in> set (keys (submitted l cs))"
    using typed_control_is_key [OF assms, of "''dept-IT-daily''" Number]
      typed_control_is_key [OF assms, of "''dept-IT-offhours''" Number]
    by simp_all
qed

section \<open>The properties\<close>

text \<open>
  C5.  Calling \<^verbatim>\<open>useLanguage\<close> where no \<^verbatim>\<open>LanguageProvider\<close> encloses the caller
  raises the error at once (and so does rendering the page there).  Inside a provider
  the call does not raise: it returns the language the provider's cell holds together
  with the setter, whose effect is to store its argument in the cell.  This error is the
  only one the source throws, and in the running application, where the page is inside
  the provider, it never arises: whatever events are handled, nothing is thrown at all,
  unless the host lacks the \<^verbatim>\<open>print\<close> method it is typed to have, and then the only
  errors are the host's \<^verbatim>\<open>TypeError\<close>, one for each click on the print button.
\<close>

theorem useLanguage_raises_exactly_outside_provider:
  "useLanguage None = Inl (Error ''useLanguage must be used within a LanguageProvider'')
   \<and> Home None = Inl (Error ''useLanguage must be used within a LanguageProvider'')
   \<and> (\<exists>v. useLanguage (Some l) = Inr v \<and> language v = l
            \<and> (\<forall>l' old. setLanguage v l' old = l'))
   \<and> uncaught (run evs (App_start h)) =
       (if print_fails h
        then replicate (print_clicks evs) (TypeError ''window.print is not a function'')
        else [])"
  by (simp add: useLanguage_def useContext_def LanguageProvider_def Home_def uncaught_run
      App_start_def)

text \<open>
  C6 (as the code has it).  On every host that has no \<^verbatim>\<open>window\<close>, or has one with the
  callable \<^verbatim>\<open>print\<close> its type promises, the print action of either variant never
  throws: without a \<^verbatim>\<open>window\<close> it changes nothing, with one it opens the print dialog
  once; in both cases the handler completes and hands nothing but the host back.
\<close>

theorem handlePrintAsPdf_completes_on_typed_host:
  assumes "window_defined h \<Longrightarrow> print_callable h"
  shows "handlePrintAsPdf h =
           Inr (if window_defined h then h\<lparr>print_dialogs := Suc (print_dialogs h)\<rparr> else h)
       \<and> handlePrintAsPdfEn h =
           Inr (if window_defined h then h\<lparr>print_dialogs := Suc (print_dialogs h)\<rparr> else h)
       \<and> uncaught (step ClickPrint (s\<lparr>env := h\<rparr>)) = uncaught s"
  using assms
  by (auto simp: handlePrintAsPdf_def handlePrintAsPdfEn_def typeof_window_def
      window_print_def)

theorem handlePrintAsPdf_completes_on_typed_host_witness:
  "handlePrintAsPdf \<lparr>window_defined = False, print_callable = False, print_dialogs = 0\<rparr> =
     Inr \<lparr>window_defined = False, print_callable = False, print_dialogs = 0\<rparr>
   \<and> handlePrintAsPdfEn \<lparr>window_defined = True, print_callable = True, print_dialogs = 0\<rparr> =
     Inr \<lparr>window_defined = True, print_callable = True, print_dialogs = 1\<rparr>"
  using handlePrintAsPdf_completes_on_typed_host
    [of "\<lparr>window_defined = False, print_callable = False, print_dialogs = 0\<rparr>"]
    handlePrintAsPdf_completes_on_typed_host
    [of "\<lparr>window_defined = True, print_callable = True, print_dialogs = 0\<rparr>"]
  by simp

text \<open>
  The claim as stated fails: the guard tests \<^verbatim>\<open>typeof window\<close> only, so on a host that
  defines \<^verbatim>\<open>window\<close> without a callable \<^verbatim>\<open>print\<close> the action of either variant
  throws a \<^verbatim>\<open>TypeError\<close>.
\<close>

theorem handlePrintAsPdf_throws_counterexample:
  "handlePrintAsPdf \<lparr>window_defined = True, print_callable = False, print_dialogs = 0\<rparr> =
     Inl (TypeError ''window.print is not a function'')
   \<and> handlePrintAsPdfEn \<lparr>window_defined = True, print_callable = False, print_dialogs = 0\<rparr> =
     Inl (TypeError ''window.print is not a function'')"
  by (simp add: handlePrintAsPdf_def handlePrintAsPdfEn_def typeof_window_def
      window_print_def)

text \<open>
  C1 (as the code has it).  In every state of either variant in which two or more
  checkboxes sharing a name are checked, the entry list the handler reads from the form
  holds under that name the string of every checked option, in document order (the order
  of the options on the page, whatever the order they were ticked in), and that name is a
  key of the record.
\<close>

theorem checkbox_group_entries_in_document_order:
  assumes "filled (variant l) cs" and "2 \<le> length (selected_options n cs)"
  shows "entries_named n (FormData cs) = selected_options n cs
       \<and> n \<in> set (keys (submitted l cs))"
proof -
  from assms(2) have ne: "selected_options n cs \<noteq> []"
    by auto
  then obtain c where "c \<in> set cs" and "c_name c = n" and "c_checked c"
    by (auto simp: selected_options_def filter_empty_conv)
  then have "c \<in> {c \<in> set cs. \<not> is_checkable c \<or> c_checked c}"
    by simp
  then have "c_name c \<in> c_name ` {c \<in> set cs. \<not> is_checkable c \<or> c_checked c}"
    by (rule imageI)
  then have "n \<in> set (keys (submitted l cs))"
    unfolding keys_filled [OF assms(1)] \<open>c_name c = n\<close> .
  with assms(1) ne show ?thesis
    by (simp add: selected_recorded(1))
qed

theorem checkbox_group_entries_in_document_order_witness:
  "filled (variant En) two_goals_checked
   \<and> 2 \<le> length (selected_options ''projectGoals'' two_goals_checked)
   \<and> entries_named ''projectGoals'' (FormData two_goals_checked) =
       [''Reduce staff workload'', ''Reduce waiting time'']
   \<and> ''projectGoals'' \<in> set (keys (submitted En two_goals_checked))"
  using checkbox_group_entries_in_document_order [of En two_goals_checked "''projectGoals''"]
    filled_two_goals_checked selected_two_goals_checked
  by simp

text \<open>
  The claim as stated fails: with the goals \<^verbatim>\<open>Reduce waiting time\<close> and
  \<^verbatim>\<open>Reduce staff workload\<close> ticked in this order, the entry list has the two in the
  other order, and the second one, though selected, is not in the record: the handler's
  \<^verbatim>\<open>data[key] = value\<close> overwrote it, which loses a selection the form invites.
\<close>

theorem checkbox_group_multi_valued_counterexample:
  "''Reduce staff workload'' \<in> set (selected_options ''projectGoals'' two_goals_checked)
   \<and> ''Reduce staff workload'' \<notin>
       set (entries_named ''projectGoals'' (submitted En two_goals_checked))
   \<and> entries_named ''projectGoals'' (FormData two_goals_checked) \<noteq>
       [''Reduce waiting time'', ''Reduce staff workload'']"
  using selected_recorded [OF filled_two_goals_checked, of "''projectGoals''"]
    selected_two_goals_checked
  by simp

text \<open>
  C2 (as the code has it).  In every state of either variant, a text field whose name no
  other control of the form bears is recorded under its name with exactly the string it
  holds.  The keys of the record are not the filled names only: they are the names of all
  the controls that take typed input, filled or not, and of the checkboxes and radio
  buttons that are checked.
\<close>

theorem text_field_recorded_with_entered_string:
  assumes "filled (variant l) cs" and "\<not> is_checkable c"
    and "filter (\<lambda>c'. c_name c' = c_name c) cs = [c]"
  shows "map_of (submitted l cs) (c_name c) = Some (c_value c)
       \<and> set (keys (submitted l cs)) =
           c_name ` {c \<in> set cs. \<not> is_checkable c \<or> c_checked c}"
  using assms by (simp add: text_field_recorded keys_filled)

theorem text_field_recorded_with_entered_string_witness:
  "filled (variant Ar) university_named
   \<and> \<not> is_checkable \<lparr>c_name = ''universityName'', c_kind = KInput Text,
                       c_value = ''Future University'', c_checked = False\<rparr>
   \<and> filter (\<lambda>c'. c_name c' = ''universityName'') university_named =
       [\<lparr>c_name = ''universityName'', c_kind = KInput Text,
         c_value = ''Future University'', c_checked = False\<rparr>]
   \<and> map_of (submitted Ar university_named) ''universityName'' = Some ''Future University''"
  using text_field_recorded_with_entered_string [of Ar university_named
      "\<lparr>c_name = ''universityName'', c_kind = KInput Text,
        c_value = ''Future University'', c_checked = False\<rparr>"]
    filled_university_named university_named_controls(1)
  by (simp add: is_checkable_def)

text \<open>
  The claim as stated fails: after the university name alone was entered in the Arabic
  form, the record has the key \<^verbatim>\<open>cityCountry\<close> too, so its keys are not the filled
  names.
\<close>

theorem keys_exactly_filled_names_counterexample:
  "''cityCountry'' \<in> set (keys (submitted Ar university_named))
   \<and> set (keys (submitted Ar university_named)) \<noteq> {''universityName''}"
proof -
  from university_named_controls(2)
  obtain c where c: "c \<in> set university_named" "c_name c = ''cityCountry''"
      "\<not> is_checkable c"
    unfolding list_ex_iff by blast
  then have "c \<in> {c \<in> set university_named. \<not> is_checkable c \<or> c_checked c}"
    by simp
  then have "c_name c \<in> c_name ` {c \<in> set university_named. \<not> is_checkable c \<or> c_checked c}"
    by (rule imageI)
  then have k: "''cityCountry'' \<in> set (keys (submitted Ar university_named))"
    unfolding keys_filled [OF filled_university_named] c(2) .
  have "''cityCountry'' \<notin> {''universityName''}"
    by simp
  with k show ?thesis
    by metis
qed

text \<open>
  C3.  Submitting the freshly mounted Arabic form, with nothing entered and nothing
  checked, raises no error: the handler reports one record.  Every value of that record
  is the empty string, and no name of a checkbox or radio button of the form is among its
  keys.
\<close>

theorem empty_arabic_submission:
  "snd (handleSubmit \<lparr>currentTarget = mount UniversityIntakeForm, defaultPrevented = False\<rparr> con)
     = con @ [(''Submitted intake form:'', submitted Ar (mount UniversityIntakeForm))]
   \<and> list_all (\<lambda>(k, v). v = []) (submitted Ar (mount UniversityIntakeForm))
   \<and> list_all (\<lambda>c. c_name c \<notin> set (keys (submitted Ar (mount UniversityIntakeForm))))
        (filter is_checkable (mount UniversityIntakeForm))
   \<and> uncaught (step Submit (App_start h)) = []"
proof -
  have m: "mount UniversityIntakeForm = fresh Ar"
    using mount_variant [of Ar] by (simp add: variant_def)
  have "list_all (\<lambda>(k, v). v = []) (submitted Ar (fresh Ar))"
    using submitted_values [of _ _ Ar "fresh Ar"] fresh_FormData_values [of _ _ Ar]
    by (fastforce simp: list_all_iff)
  moreover have "list_all (\<lambda>c. c_name c \<notin> set (keys (submitted Ar (fresh Ar))))
      (filter is_checkable (fresh Ar))"
    unfolding fresh_keys using fresh_names_disjoint [of _ Ar] by (simp add: list_all_iff)
  ultimately show ?thesis
    unfolding m by (simp add: handleSubmit_def submitted_def uncaught_step App_start_def)
qed

text \<open>
  C4.  The provider starts with the language \<^verbatim>\<open>ar\<close>.  After any sequence of events
  of the running application the language is the argument of the last click on the
  switcher, or \<^verbatim>\<open>ar\<close> if there was none; typing, ticking, submitting and printing leave
  it as it is.  At every point the page mounts exactly one form, the Arabic variant
  exactly when the language is \<^verbatim>\<open>ar\<close>, and the controls in the document are those of
  that variant.
\<close>

theorem last_toggle_determines_language:
  "initial_language = Ar
   \<and> cell (App_start h) = Ar
   \<and> cell (run evs (App_start h)) = last (Ar # List.map_filter toggled evs)
   \<and> cell (step (User a) s) = cell s
   \<and> cell (step Submit s) = cell s
   \<and> cell (step ClickPrint s) = cell s
   \<and> (\<exists>v. App (cell (run evs (App_start h))) = Inr v
          \<and> forms v = [variant (cell (run evs (App_start h)))])
   \<and> (variant l = UniversityIntakeForm) = (l = Ar)
   \<and> filled (variant (cell (run evs (App_start h)))) (dom (run evs (App_start h)))"
proof -
  have 1: "initial_language = Ar"
    by (simp add: initial_language_def)
  have 2: "cell (App_start h) = Ar"
    by (simp add: App_start_def initial_language_def)
  have 3: "cell (run evs (App_start h)) = last (Ar # List.map_filter toggled evs)"
    unfolding cell_run 2 ..
  have 4: "cell (step (User a) s) = cell s" and 5: "cell (step Submit s) = cell s"
    and 6: "cell (step ClickPrint s) = cell s"
    by (simp_all add: cell_step toggled_def del: step.simps)
  have 7: "\<exists>v. App (cell (run evs (App_start h))) = Inr v
          \<and> forms v = [variant (cell (run evs (App_start h)))]"
    by (rule App_forms)
  have 8: "(variant l = UniversityIntakeForm) = (l = Ar)"
    by (rule variants_differ)
  have 9: "filled (variant (cell (run evs (App_start h)))) (dom (run evs (App_start h)))"
    by (rule filled_run [OF filled_App_start])
  show ?thesis
    by (intro conjI 1 2 3 4 5 6 7 8 9)
qed

text \<open>
  C7.  For every name it is given, \<^verbatim>\<open>YesNoGroup\<close> (of either variant) renders two radio
  buttons of that name, with the values \<^verbatim>\<open>yes\<close> and \<^verbatim>\<open>no\<close>, neither of them checked.
  Whatever the user clicks in the group, at most one of the two is checked.  If the user
  selects neither and no other control of the form has that name, the record of a
  submission has no key of that name.
\<close>

theorem YesNoGroup_two_exclusive_options:
  assumes "list_all (\<lambda>c. c_name c \<noteq> n) (before @ after)"
  shows "controls (YesNoGroup n) =
           [\<lparr>c_name = n, c_kind = KInput Radio, c_value = ''yes'', c_checked = False\<rparr>,
            \<lparr>c_name = n, c_kind = KInput Radio, c_value = ''no'', c_checked = False\<rparr>]
       \<and> controls (YesNoGroupEn n) = controls (YesNoGroup n)
       \<and> length (filter c_checked (fold (choose_radio n) vs (controls (YesNoGroup n)))) \<le> 1
       \<and> n \<notin> set (keys (submitted l (before @ controls (YesNoGroup n) @ after)))
       \<and> n \<notin> set (keys (submitted l (before @ controls (YesNoGroupEn n) @ after)))"
  using yes_no_unselected_absent [OF assms, of l] yes_no_exclusive [of n vs]
  by (simp add: YesNoGroup_controls) (simp add: yes_no_def choice_def)

theorem YesNoGroup_two_exclusive_options_witness:
  "list_all (\<lambda>c. c_name c \<noteq> ''pricing-247'') ([entry ''pricing-campuses'' Number] @ [])
   \<and> length (filter c_checked
         (fold (choose_radio ''pricing-247'') [''yes'', ''no'']
            (controls (YesNoGroup ''pricing-247'')))) \<le> 1
   \<and> ''pricing-247'' \<notin> set (keys (submitted Ar
         ([entry ''pricing-campuses'' Number] @ controls (YesNoGroup ''pricing-247'') @ [])))"
proof -
  have h: "list_all (\<lambda>c. c_name c \<noteq> ''pricing-247'') ([entry ''pricing-campuses'' Number] @ [])"
    by (simp add: entry_def)
  note t = YesNoGroup_two_exclusive_options [OF h, of "[''yes'', ''no'']" Ar]
  show ?thesis
    by (intro conjI h t [THEN conjunct2, THEN conjunct2, THEN conjunct1]
        t [THEN conjunct2, THEN conjunct2, THEN conjunct2, THEN conjunct1])
qed

text \<open>
  C8.  The two variants have the same structure: the same tree of sections, fields,
  captions and controls, section by section in the same order, with the same kinds and
  bounds of the controls; each has thirteen sections; the six option lists have the same
  lengths in both; the Arabic form is laid out right to left and the English one left
  to right.  Both forms are constants: their controls are one and the same list built
  from the option lists of the variant.
\<close>

theorem variants_structurally_identical:
  "map shape (children UniversityIntakeForm) = map shape (children UniversityIntakeFormEn)
   \<and> length (filter is_section (children UniversityIntakeForm)) = 13
   \<and> length (filter is_section (children UniversityIntakeFormEn)) = 13
   \<and> dir UniversityIntakeForm = Rtl
   \<and> dir UniversityIntakeFormEn = Ltr
   \<and> map length [projectGoals_options, department_options, language_options,
         channel_options, scenario_options, kb_options] = [5, 20, 6, 5, 9, 9]
   \<and> map length [projectGoals_optionsEn, department_optionsEn, language_optionsEn,
         channel_optionsEn, scenario_optionsEn, kb_optionsEn] = [5, 20, 6, 5, 9, 9]
   \<and> mount UniversityIntakeForm =
       intake_controls projectGoals_options department_options language_options
         channel_options scenario_options kb_options
   \<and> mount UniversityIntakeFormEn =
       intake_controls projectGoals_optionsEn department_optionsEn language_optionsEn
         channel_optionsEn scenario_optionsEn kb_optionsEn"
proof -
  have "map shape (children UniversityIntakeForm) = map shape (children UniversityIntakeFormEn)"
    by (simp add: variant_defs option_defs)
  moreover have "length (filter is_section (children UniversityIntakeForm)) = 13"
    "length (filter is_section (children UniversityIntakeFormEn)) = 13"
    by (simp_all add: variant_defs is_section_def)
  moreover have "map length [projectGoals_options, department_options, language_options,
         channel_options, scenario_options, kb_options] = [5, 20, 6, 5, 9, 9]"
    "map length [projectGoals_optionsEn, department_optionsEn, language_optionsEn,
         channel_optionsEn, scenario_optionsEn, kb_optionsEn] = [5, 20, 6, 5, 9, 9]"
    by (simp_all add: option_defs)
  ultimately show ?thesis
    using mount_variant [of Ar] mount_variant [of En]
    by (simp add: variant_def fresh_def) (simp add: UniversityIntakeForm_def
        UniversityIntakeFormEn_def)
qed

text \<open>
  C9.  Switching to the other language and back is a round trip: whatever the user did
  to the other variant in between, the section titles and field labels on the screen are
  again exactly those shown before, the language is the one it was, and the form on the
  screen is freshly mounted, so nothing entered in the other variant is in it.  (In
  between, the screen did show other titles.)
\<close>

theorem language_round_trip:
  "rendered_text
     (step (click_for (cell s)) (run (map User as) (step (click_for (other (cell s))) s)))
     = rendered_text s
   \<and> cell (step (click_for (cell s)) (run (map User as) (step (click_for (other (cell s))) s)))
     = cell s
   \<and> dom (step (click_for (cell s)) (run (map User as) (step (click_for (other (cell s))) s)))
     = mount (variant (cell s))
   \<and> rendered_text (step (click_for (other (cell s))) s) \<noteq> rendered_text s"
proof -
  let ?mid = "run (map User as) (step (click_for (other (cell s))) s)"
  have o: "other (cell s) \<noteq> cell s"
    by (simp add: other_def)
  have m: "cell ?mid = other (cell s)"
    by (simp add: cell_run_User click_for_step set_cell_def)
  have c: "cell (step (click_for (cell s)) ?mid) = cell s"
    by (simp add: click_for_step set_cell_def)
  have "\<And>t. cell s \<noteq> cell t \<Longrightarrow> dom (step (click_for (cell s)) t) = mount (variant (cell s))"
    by (simp add: click_for_step set_cell_def render_dom_eq)
  from this [of ?mid] have d: "dom (step (click_for (cell s)) ?mid) = mount (variant (cell s))"
    unfolding m using o by metis
  have "rendered_text (s\<lparr>cell := Ar\<rparr>) \<noteq> rendered_text (s\<lparr>cell := En\<rparr>)"
    using first_titles_differ [of s] by metis
  moreover have "rendered_text s = rendered_text (s\<lparr>cell := cell s\<rparr>)"
    "rendered_text (step (click_for (other (cell s))) s) =
       rendered_text (s\<lparr>cell := other (cell s)\<rparr>)"
    by (rule rendered_text_cell, simp add: click_for_step set_cell_def)+
  ultimately have "rendered_text (step (click_for (other (cell s))) s) \<noteq> rendered_text s"
    by (cases "cell s") (simp_all add: other_def)
  with c d rendered_text_cell [OF c] show ?thesis
    by simp
qed

text \<open>
  C10 (as the code has it).  The names built from option text embed the option string of
  the variant, and the hard-coded names are common to both variants: the names of the
  controls of either variant are those of one list built from the variant's options.  The
  department option \<^verbatim>\<open>IT\<close> is spelled the same in both lists, so the two variants share
  the option-derived names \<^verbatim>\<open>dept-IT-daily\<close> and \<^verbatim>\<open>dept-IT-offhours\<close>, and no other:
  in every pair of an Arabic and an English submission, the option-derived keys the two
  records have in common are exactly these two.
\<close>

theorem option_derived_names_shared_only_for_IT:
  assumes "filled (variant Ar) cs_ar" and "filled (variant En) cs_en"
  shows "set (option_names Ar) \<inter> set (option_names En) =
           {''dept-IT-daily'', ''dept-IT-offhours''}
       \<and> (set (keys (submitted Ar cs_ar)) \<inter> set (option_names Ar))
           \<inter> (set (keys (submitted En cs_en)) \<inter> set (option_names En)) =
           {''dept-IT-daily'', ''dept-IT-offhours''}
       \<and> map c_name cs_ar = map c_name (fresh Ar)
       \<and> map c_name cs_en = map c_name (fresh En)"
proof -
  have a: "{''dept-IT-daily'', ''dept-IT-offhours''} \<subseteq> set (keys (submitted Ar cs_ar))"
    and e: "{''dept-IT-daily'', ''dept-IT-offhours''} \<subseteq> set (keys (submitted En cs_en))"
    using IT_keys [OF assms(1)] IT_keys [OF assms(2)] by simp_all
  have n: "map c_name cs_ar = map c_name (fresh Ar)" "map c_name cs_en = map c_name (fresh En)"
    using filled_sig [OF assms(1), THEN arg_cong, of "map fst"]
      filled_sig [OF assms(2), THEN arg_cong, of "map fst"]
    by (simp_all add: comp_def)
  from a e option_names_common
  have "(set (keys (submitted Ar cs_ar)) \<inter> set (option_names Ar))
           \<inter> (set (keys (submitted En cs_en)) \<inter> set (option_names En)) =
           {''dept-IT-daily'', ''dept-IT-offhours''}"
    by blast
  with n option_names_common show ?thesis
    by simp
qed

theorem option_derived_names_shared_only_for_IT_witness:
  "filled (variant Ar) (mount UniversityIntakeForm)
   \<and> filled (variant En) two_goals_checked
   \<and> (set (keys (submitted Ar (mount UniversityIntakeForm))) \<inter> set (option_names Ar))
       \<inter> (set (keys (submitted En two_goals_checked)) \<inter> set (option_names En)) =
       {''dept-IT-daily'', ''dept-IT-offhours''}"
  using option_derived_names_shared_only_for_IT [of "mount UniversityIntakeForm"
      two_goals_checked]
    filled_two_goals_checked filled_mount [of UniversityIntakeForm]
  by (simp add: variant_def)

text \<open>
  The claim as stated fails: \<^verbatim>\<open>dept-IT-daily\<close> is built from an option in both variants
  and is a key of the record of the empty Arabic form and of the record of the empty
  English form.
\<close>

theorem disjoint_option_keys_counterexample:
  "''dept-IT-daily'' \<in> set (option_names Ar)
   \<and> ''dept-IT-daily'' \<in> set (option_names En)
   \<and> ''dept-IT-daily'' \<in> set (keys (submitted Ar (mount UniversityIntakeForm)))
   \<and> ''dept-IT-daily'' \<in> set (keys (submitted En (mount UniversityIntakeFormEn)))"
  using dept_names_derived(1) [OF IT_department(1)] dept_names_derived(1) [OF IT_department(2)]
    IT_keys(1) [OF filled_mount [of "variant Ar"]] IT_keys(1) [OF filled_mount [of "variant En"]]
  by (simp add: option_names_def variant_def)


end
